theory Spec2Isabelle
  imports Main "HOL-Library.Sublist" "HOL-Library.List_Lexorder" "HOL-Library.Char_ord"
    "HOL-Library.Product_Lexorder"
begin

section \<open>Data model of the event store\<close>

text \<open>
  The formula environment (\<^verbatim>\<open>getEnv\<close>) reads versioned event tables through Sequelize
  models. Each model class becomes a record, the tables of the data base become lists of
  rows, and the classes that may sit in the per-evaluation memo become one datatype, so
  that every \<^verbatim>\<open>instanceof\<close> test of the source is a pattern match.
  Block heights and times are JavaScript bigints: \<open>int\<close>.
\<close>

record block =
  blk_height :: int
  blk_timeUnixMs :: int

record wasm_state_event =
  wse_contractAddress :: string
  wse_key :: string
  wse_blockHeight :: int
  wse_blockTimeUnixMs :: int
  wse_value :: "string option"
  wse_delete :: bool

record contract =
  ct_address :: string
  ct_codeId :: int

text \<open>
  A transformation row carries a JSON value or null; only the null test is used by the
  functions modelled here, so the value is kept in its serialised form. \<^verbatim>\<open>contract\<close> is
  the association of the row: the contract row of its address when the query that loaded
  the row asked for it with \<^verbatim>\<open>include\<close> and there is one, and nothing otherwise. It is not
  a column: a row of the table has none.
\<close>

record transformation =
  tf_contractAddress :: string
  tf_name :: string
  tf_blockHeight :: int
  tf_blockTimeUnixMs :: int
  tf_value :: "string option"
  tf_contract :: "contract option"

record wasm_tx_event =
  tx_contractAddress :: string
  tx_blockHeight :: int
  tx_blockTimeUnixMs :: int
  tx_sender :: string
  tx_action :: string

text \<open>\<^verbatim>\<open>balances\<close> is a JSON object from denom to amount: an association list.\<close>

record bank_balance =
  bb_address :: string
  bb_balances :: "(string \<times> string) list"
  bb_blockHeight :: int
  bb_blockTimeUnixMs :: int

record bank_state_event =
  bse_address :: string
  bse_denom :: string
  bse_blockHeight :: int
  bse_blockTimeUnixMs :: int
  bse_balance :: string

text \<open>
  The remaining event families. Their model classes are not among the sources; the records
  have the columns that the environment reads, and one column for the payload. A column
  that a query does not load (it is left out of \<^verbatim>\<open>attributes\<close>) is \<open>None\<close> in the loaded
  row. Proposal and voter identifiers are strings.
\<close>

record staking_slash_event =
  sse_validatorOperatorAddress :: string
  sse_registeredBlockHeight :: int
  sse_registeredBlockTimeUnixMs :: int
  sse_amountSlashed :: string

record gov_proposal =
  gp_proposalId :: string
  gp_blockHeight :: int
  gp_blockTimeUnixMs :: int
  gp_data :: "string option"

record gov_proposal_vote =
  gpv_proposalId :: string
  gpv_voterAddress :: string
  gpv_blockHeight :: int
  gpv_blockTimeUnixMs :: int
  gpv_data :: "string option"

record community_pool_state_event =
  cps_blockHeight :: int
  cps_blockTimeUnixMs :: int
  cps_balances :: "(string \<times> string) list"

record extraction =
  ex_address :: string
  ex_name :: string
  ex_blockHeight :: int
  ex_blockTimeUnixMs :: int
  ex_data :: string

record feegrant_allowance =
  fa_granter :: string
  fa_grantee :: string
  fa_blockHeight :: int
  fa_blockTimeUnixMs :: int
  fa_allowanceData :: string
  fa_active :: bool

datatype event =
    WasmStateEvent wasm_state_event
  | WasmStateEventTransformation transformation
  | WasmTxEvent wasm_tx_event
  | BankBalance bank_balance
  | BankStateEvent bank_state_event
  | StakingSlashEvent staking_slash_event
  | GovProposal gov_proposal
  | GovProposalVote gov_proposal_vote
  | DistributionCommunityPoolStateEvent community_pool_state_event
  | Extraction extraction
  | FeegrantAllowance feegrant_allowance
  | OtherEvent

text \<open>
  A table is the list of its rows. Where a query leaves the order of rows open (rows that
  its \<^verbatim>\<open>ORDER BY\<close> does not separate, or no \<^verbatim>\<open>ORDER BY\<close> at all), the rows come in the
  order of this list: the list order stands for the choice of the data base.
\<close>

record database =
  wasmStateEvents :: "wasm_state_event list"
  transformations :: "transformation list"
  wasmTxEvents :: "wasm_tx_event list"
  bankBalances :: "bank_balance list"
  bankStateEvents :: "bank_state_event list"
  contracts :: "contract list"
  stakingSlashEvents :: "staking_slash_event list"
  govProposals :: "gov_proposal list"
  govProposalVotes :: "gov_proposal_vote list"
  communityPoolStateEvents :: "community_pool_state_event list"
  extractions :: "extraction list"
  feegrantAllowances :: "feegrant_allowance list"

datatype table =
    TWasmStateEvent
  | TWasmStateEventTransformation
  | TWasmTxEvent
  | TBankBalance
  | TBankStateEvent
  | TContract
  | TStakingSlashEvent
  | TGovProposal
  | TGovProposalVote
  | TDistributionCommunityPoolStateEvent
  | TExtraction
  | TFeegrantAllowance

text \<open>
  What a getter can throw: the type check of the environment, \<^verbatim>\<open>JSON.parse\<close>, the query
  layer when it is handed a condition it cannot render, and a property read on null.
\<close>

datatype error = IncorrectEventType | SyntaxError | QueryError | TypeError

section \<open>Dependent keys\<close>

record dependent_key =
  dk_key :: string
  dk_prefix :: bool

text \<open>
  Modelled from the spec: \<^verbatim>\<open>getDependentKey\<close> and the \<^verbatim>\<open>dependentKeyNamespace\<close>
  constants live in \<^verbatim>\<open>@/utils\<close> and the model classes, which are not among the
  sources. The spec gives the dependent key as the canonical string
  \<^verbatim>\<open>namespace:subject[:suffix]\<close> and says that each event family has a distinct
  namespace string.
\<close>

definition getDependentKey :: "string \<Rightarrow> string list \<Rightarrow> string" where
  "getDependentKey ns parts = ns @ concat (map (\<lambda>p. CHR '':'' # p) parts)"

definition WasmStateEvent_ns :: string where
  "WasmStateEvent_ns = ''wasm_state''"

definition WasmStateEventTransformation_ns :: string where
  "WasmStateEventTransformation_ns = ''wasm_state_transformation''"

definition WasmTxEvent_ns :: string where
  "WasmTxEvent_ns = ''wasm_tx''"

definition BankBalance_ns :: string where
  "BankBalance_ns = ''bank_balance''"

definition BankStateEvent_ns :: string where
  "BankStateEvent_ns = ''bank_state''"

definition StakingSlashEvent_ns :: string where
  "StakingSlashEvent_ns = ''staking_slash''"

definition GovProposal_ns :: string where
  "GovProposal_ns = ''gov_proposal''"

definition GovProposalVote_ns :: string where
  "GovProposalVote_ns = ''gov_proposal_vote''"

definition DistributionCommunityPoolStateEvent_ns :: string where
  "DistributionCommunityPoolStateEvent_ns = ''distribution_community_pool_state''"

definition Extraction_ns :: string where
  "Extraction_ns = ''extraction''"

definition FeegrantAllowance_ns :: string where
  "FeegrantAllowance_ns = ''feegrant_allowance''"

section \<open>The environment and its state\<close>

text \<open>
  \<^verbatim>\<open>getEnv\<close> closes over the target block, the optional \<^verbatim>\<open>onFetch\<close> hook, the
  optional \<^verbatim>\<open>dependentKeys\<close> array and the memo \<^verbatim>\<open>cache\<close>. The array and the memo
  are mutated by the getters, so they are state that every getter takes and returns.
  A memo entry \<^verbatim>\<open>cache.events[k]\<close> is \<open>None\<close> when undefined (never tried),
  \<open>Some None\<close> when null (tried, nothing there) and \<open>Some (Some rows)\<close> otherwise.

  The field \<open>trace\<close> is an observation log, not a variable of the source: it lists, in
  program order, every push to the dependency recorder, every data base query and every
  call of the hook, so that statements about the order and the number of these effects can
  be made.
\<close>

datatype action = Push dependent_key | Read table | OnFetch "event list"

record env_state =
  dependentKeys :: "dependent_key list option"
  cache_events :: "string \<Rightarrow> event list option option"
  cache_contracts :: "string \<Rightarrow> contract option option"
  trace :: "action list"

record env_options =
  opt_db :: database
  opt_block :: block
  opt_onFetch :: bool

text \<open>\<^verbatim>\<open>dependentKeys?.push(d)\<close>\<close>

definition push_dependentKey :: "dependent_key \<Rightarrow> env_state \<Rightarrow> env_state" where
  "push_dependentKey d st =
     (case dependentKeys st of
        None \<Rightarrow> st
      | Some ds \<Rightarrow> st\<lparr>dependentKeys := Some (ds @ [d]), trace := trace st @ [Push d]\<rparr>)"

text \<open>A round trip to the data base.\<close>

definition read_db :: "table \<Rightarrow> env_state \<Rightarrow> env_state" where
  "read_db t st = st\<lparr>trace := trace st @ [Read t]\<rparr>"

text \<open>\<^verbatim>\<open>await onFetch?.(rows)\<close>; the hook's result is discarded by every caller.\<close>

definition call_onFetch :: "env_options \<Rightarrow> event list \<Rightarrow> env_state \<Rightarrow> env_state" where
  "call_onFetch env rows st =
     (if opt_onFetch env then st\<lparr>trace := trace st @ [OnFetch rows]\<rparr> else st)"

definition set_cache_event :: "string \<Rightarrow> event list option \<Rightarrow> env_state \<Rightarrow> env_state" where
  "set_cache_event k v st = st\<lparr>cache_events := (cache_events st)(k := Some v)\<rparr>"

text \<open>\<^verbatim>\<open>cachedEvent?.[0]\<close>: undefined for null and for an empty array.\<close>

fun first_cached :: "event list option \<Rightarrow> event option" where
  "first_cached None = None"
| "first_cached (Some []) = None"
| "first_cached (Some (e # es)) = Some e"

section \<open>Queries\<close>

text \<open>
  \<^verbatim>\<open>findOne({where, order: [['blockHeight', 'DESC']]})\<close> returns a row of greatest block
  height among those the \<^verbatim>\<open>where\<close> clause keeps, or null. Among rows of equal height
  the model takes the first in table order.
\<close>

fun latest :: "('a \<Rightarrow> int) \<Rightarrow> 'a list \<Rightarrow> 'a option" where
  "latest h [] = None"
| "latest h (x # xs) =
     (case latest h xs of
        None \<Rightarrow> Some x
      | Some y \<Rightarrow> if h x < h y then Some y else Some x)"

text \<open>The \<^verbatim>\<open>where\<close> clause of the point read of \<^verbatim>\<open>get\<close>.\<close>

definition wasm_point_rows :: "database \<Rightarrow> string \<Rightarrow> string \<Rightarrow> int \<Rightarrow> wasm_state_event list" where
  "wasm_point_rows db contractAddress key h =
     filter (\<lambda>e. wse_contractAddress e = contractAddress \<and> wse_key e = key \<and>
                 wse_blockHeight e \<le> h) (wasmStateEvents db)"

definition WasmStateEvent_findOne :: "database \<Rightarrow> string \<Rightarrow> string \<Rightarrow> int \<Rightarrow> wasm_state_event option" where
  "WasmStateEvent_findOne db contractAddress key h =
     latest wse_blockHeight (wasm_point_rows db contractAddress key h)"

section \<open>The getter \<^verbatim>\<open>get\<close>\<close>

text \<open>
  JSON values. \<^verbatim>\<open>JSON.parse\<close> is a parameter of the getters; it returns \<open>None\<close> where
  it throws a SyntaxError. A number is kept as its literal.
\<close>

datatype json =
    JNull
  | JBool bool
  | JNumber string
  | JString string
  | JArray "json list"
  | JObject "(string \<times> json) list"

text \<open>
  A key segment is a string, a number or a Uint8Array. \<^verbatim>\<open>dbKeyForKeys\<close> (from
  \<^verbatim>\<open>@/utils\<close>, absent from the sources) composes segments into the key string of the
  table and is a parameter of the getters. The result \<open>Inr None\<close> of a getter is
  JavaScript's undefined.
\<close>

datatype key_part = KString string | KNumber int | KBytes "nat list"

definition parse_value :: "(string \<Rightarrow> json option) \<Rightarrow> string option \<Rightarrow> error + json option" where
  "parse_value JSON_parse v =
     (case JSON_parse (case v of None \<Rightarrow> ''null'' | Some s \<Rightarrow> s) of
        None \<Rightarrow> Inl SyntaxError
      | Some j \<Rightarrow> Inr (Some j))"

definition get ::
  "(string \<Rightarrow> json option) \<Rightarrow> (key_part list \<Rightarrow> string) \<Rightarrow> env_options \<Rightarrow> string \<Rightarrow>
   key_part list \<Rightarrow> env_state \<Rightarrow> (error + json option) \<times> env_state" where
  "get JSON_parse dbKeyForKeys env contractAddress keys st0 =
     (let key = dbKeyForKeys keys;
          dependentKey = getDependentKey WasmStateEvent_ns [contractAddress, key];
          st1 = push_dependentKey \<lparr>dk_key = dependentKey, dk_prefix = False\<rparr> st0;
          cachedEvent = cache_events st1 dependentKey;
          (event, st2) =
            (case cachedEvent of
               Some c \<Rightarrow> (first_cached c, st1)
             | None \<Rightarrow>
                 (map_option WasmStateEvent
                    (WasmStateEvent_findOne (opt_db env) contractAddress key
                       (blk_height (opt_block env))),
                  read_db TWasmStateEvent st1))
      in case event of
           None \<Rightarrow>
             (Inr None,
              if cachedEvent = None then set_cache_event dependentKey None st2 else st2)
         | Some (WasmStateEvent e) \<Rightarrow>
             (let st3 = (if cachedEvent = None
                         then set_cache_event dependentKey (Some [WasmStateEvent e]) st2
                         else st2);
                  st4 = call_onFetch env [WasmStateEvent e] st3
              in if wse_delete e then (Inr None, st4)
                 else (parse_value JSON_parse (wse_value e), st4))
         | Some _ \<Rightarrow> (Inl IncorrectEventType, st2))"

section \<open>Map reads and batch reads of contract state\<close>

text \<open>
  SQL \<^verbatim>\<open>LIKE\<close>: \<^verbatim>\<open>%\<close> matches any run of characters, \<^verbatim>\<open>_\<close> any one character, and a
  backslash takes the next pattern character literally.
\<close>

fun sql_like :: "string \<Rightarrow> string \<Rightarrow> bool" where
  "sql_like [] s = (s = [])"
| "sql_like (p # ps) [] = (p = CHR ''%'' \<and> sql_like ps [])"
| "sql_like (p # ps) (c # cs) =
     (if p = CHR ''%'' then sql_like ps (c # cs) \<or> sql_like (p # ps) cs
      else if p = CHR ''_'' then sql_like ps cs
      else if p = CHR 0x5C then
        (case ps of [] \<Rightarrow> False | q # qs \<Rightarrow> q = c \<and> sql_like qs cs)
      else p = c \<and> sql_like ps cs)"

text \<open>
  \<^verbatim>\<open>DISTINCT ON(key) ... ORDER BY key ASC, blockHeight DESC\<close>: one row for each distinct
  key, in ascending key order, the one of greatest block height. With two columns in
  \<^verbatim>\<open>DISTINCT ON\<close> the key is the pair, ordered by its first column and then its second.
\<close>

definition distinct_on_latest :: "('a \<Rightarrow> 'k::linorder) \<Rightarrow> ('a \<Rightarrow> int) \<Rightarrow> 'a list \<Rightarrow> 'a list" where
  "distinct_on_latest k h rows =
     List.map_filter (\<lambda>x. latest h (filter (\<lambda>r. k r = x) rows)) (sort (remdups (map k rows)))"


fun is_WasmStateEvent :: "event \<Rightarrow> bool" where
  "is_WasmStateEvent (WasmStateEvent _) = True"
| "is_WasmStateEvent _ = False"

fun the_WasmStateEvent :: "event \<Rightarrow> wasm_state_event option" where
  "the_WasmStateEvent (WasmStateEvent e) = Some e"
| "the_WasmStateEvent _ = None"





text \<open>
  An entry of the list given to \<^verbatim>\<open>prefetch\<close>: a single segment, or an object
  \<^verbatim>\<open>{keys, map}\<close> (\<^verbatim>\<open>map\<close> undefined counts as false).
\<close>

datatype prefetch_key = PKey key_part | PKeys "key_part list" bool

fun prefetch_dbKey :: "(key_part list \<Rightarrow> string) \<Rightarrow> prefetch_key \<Rightarrow> string" where
  "prefetch_dbKey dbKeyForKeys (PKey k) = dbKeyForKeys [k]"
| "prefetch_dbKey dbKeyForKeys (PKeys ks m) =
     (if \<not> m then dbKeyForKeys ks else dbKeyForKeys (ks @ [KString '''']) @ '','')"

text \<open>
  The two filters of \<^verbatim>\<open>prefetch\<close> test \<^verbatim>\<open>typeof key\<close> and \<^verbatim>\<open>key.map\<close>. For a
  Uint8Array, \<^verbatim>\<open>typeof\<close> is \<^verbatim>\<open>'object'\<close> and \<^verbatim>\<open>key.map\<close> is the array method, which
  is truthy.
\<close>

fun is_nonMapKey :: "prefetch_key \<Rightarrow> bool" where
  "is_nonMapKey (PKey (KString _)) = True"
| "is_nonMapKey (PKey (KNumber _)) = True"
| "is_nonMapKey (PKey (KBytes _)) = False"
| "is_nonMapKey (PKeys ks m) = (\<not> m)"

fun is_mapKeyPrefix :: "prefetch_key \<Rightarrow> bool" where
  "is_mapKeyPrefix (PKey (KString _)) = False"
| "is_mapKeyPrefix (PKey (KNumber _)) = False"
| "is_mapKeyPrefix (PKey (KBytes _)) = True"
| "is_mapKeyPrefix (PKeys ks m) = m"

definition ends_with :: "char \<Rightarrow> string \<Rightarrow> bool" where
  "ends_with c s = (s \<noteq> [] \<and> last s = c)"

text \<open>
  The key filter of the batch query. The regular expression
  \<^verbatim>\<open>^(p1|p2|...).+\<close> is built from composed keys, which are decimal bytes separated by
  commas and carry no metacharacter: it matches the keys that extend one of the prefixes
  by at least one character. With no key at all the filter is the empty object
  \<^verbatim>\<open>{}\<close>, which is no condition on a column: the query layer refuses it, and the result
  here is \<open>None\<close>.
\<close>

definition prefetch_keyFilter :: "string list \<Rightarrow> string list \<Rightarrow> (string \<Rightarrow> bool) option" where
  "prefetch_keyFilter nonMapKeys mapKeyPrefixes =
     (let nonMapKeyFilter =
            (if nonMapKeys \<noteq> [] then Some (\<lambda>key. key \<in> set nonMapKeys) else None);
          mapKeyFilter =
            (if mapKeyPrefixes \<noteq> []
             then Some (\<lambda>key. list_ex (\<lambda>p. strict_prefix p key) mapKeyPrefixes) else None)
      in case (nonMapKeyFilter, mapKeyFilter) of
           (Some f, Some g) \<Rightarrow> Some (\<lambda>key. f key \<or> g key)
         | (Some f, None) \<Rightarrow> Some f
         | (None, Some g) \<Rightarrow> Some g
         | (None, None) \<Rightarrow> None)"

definition prefetch_rows ::
  "database \<Rightarrow> string \<Rightarrow> (string \<Rightarrow> bool) \<Rightarrow> int \<Rightarrow> wasm_state_event list" where
  "prefetch_rows db contractAddress keyFilter h =
     filter (\<lambda>e. wse_contractAddress e = contractAddress \<and> keyFilter (wse_key e) \<and>
                 wse_blockHeight e \<le> h) (wasmStateEvents db)"

text \<open>The memo entry of a single row: null for a tombstone.\<close>

definition cache_entry_of :: "wasm_state_event \<Rightarrow> event list option" where
  "cache_entry_of e = (if wse_delete e then None else Some [WasmStateEvent e])"

definition cache_nonMapKey :: "string \<Rightarrow> wasm_state_event list \<Rightarrow> string \<Rightarrow> env_state \<Rightarrow> env_state" where
  "cache_nonMapKey contractAddress events key st =
     set_cache_event (getDependentKey WasmStateEvent_ns [contractAddress, key])
       (case find (\<lambda>e. wse_key e = key) events of
          None \<Rightarrow> None
        | Some e \<Rightarrow> cache_entry_of e) st"

definition cache_mapKeyPrefix :: "string \<Rightarrow> wasm_state_event list \<Rightarrow> string \<Rightarrow> env_state \<Rightarrow> env_state" where
  "cache_mapKeyPrefix contractAddress events keyPrefix st =
     (let eventsForPrefix = filter (\<lambda>e. prefix keyPrefix (wse_key e)) events;
          st' = set_cache_event (getDependentKey WasmStateEvent_ns [contractAddress, keyPrefix])
                  (if eventsForPrefix = [] then None
                   else Some (map WasmStateEvent eventsForPrefix)) st
      in fold (\<lambda>e. set_cache_event
                      (getDependentKey WasmStateEvent_ns [contractAddress, wse_key e])
                      (cache_entry_of e))
           eventsForPrefix st')"

definition prefetch ::
  "(key_part list \<Rightarrow> string) \<Rightarrow> env_options \<Rightarrow> string \<Rightarrow> prefetch_key list \<Rightarrow> env_state \<Rightarrow>
   (error + unit) \<times> env_state" where
  "prefetch dbKeyForKeys env contractAddress listOfKeys st0 =
     (let keys = map (prefetch_dbKey dbKeyForKeys) listOfKeys;
          st1 = fold (\<lambda>key. push_dependentKey
                        \<lparr>dk_key = getDependentKey WasmStateEvent_ns [contractAddress, key],
                         dk_prefix = ends_with CHR '','' key\<rparr>) keys st0;
          nonMapKeys = map fst (filter (\<lambda>(key, k). is_nonMapKey k) (zip keys listOfKeys));
          mapKeyPrefixes = map fst (filter (\<lambda>(key, k). is_mapKeyPrefix k) (zip keys listOfKeys))
      in case prefetch_keyFilter nonMapKeys mapKeyPrefixes of
           None \<Rightarrow> (Inl QueryError, st1)
         | Some keyFilter \<Rightarrow>
             (let events = distinct_on_latest wse_key wse_blockHeight
                             (prefetch_rows (opt_db env) contractAddress keyFilter
                                (blk_height (opt_block env)));
                  st2 = read_db TWasmStateEvent st1;
                  st3 = call_onFetch env (map WasmStateEvent events) st2;
                  st4 = fold (cache_nonMapKey contractAddress events) nonMapKeys st3
              in (Inr (), fold (cache_mapKeyPrefix contractAddress events) mapKeyPrefixes st4)))"

section \<open>Contracts and balances\<close>

text \<open>
  \<^verbatim>\<open>getContract\<close>. \<^verbatim>\<open>WasmCodeService.findWasmCodeIdsByKeys\<close> is a service outside the
  sources and is a parameter. An absent or empty filter means no filter
  (\<^verbatim>\<open>codeIdsKeysFilter?.length\<close> is falsy), in which case \<^verbatim>\<open>codeIds\<close> is null.
\<close>

definition Contract_findOne :: "database \<Rightarrow> string \<Rightarrow> contract option" where
  "Contract_findOne db contractAddress = find (\<lambda>c. ct_address c = contractAddress) (contracts db)"

definition getContract ::
  "(string list \<Rightarrow> int list) \<Rightarrow> env_options \<Rightarrow> string \<Rightarrow> string list option \<Rightarrow> env_state \<Rightarrow>
   contract option \<times> env_state" where
  "getContract findWasmCodeIdsByKeys env contractAddress codeIdsKeysFilter st =
     (let codeIds = (case codeIdsKeysFilter of
                       None \<Rightarrow> None
                     | Some ks \<Rightarrow> if ks = [] then None else Some (findWasmCodeIdsByKeys ks));
          matches = (\<lambda>c. case codeIds of None \<Rightarrow> True | Some ids \<Rightarrow> ct_codeId c \<in> set ids)
      in case cache_contracts st contractAddress of
           Some None \<Rightarrow> (None, st)
         | Some (Some c) \<Rightarrow> if \<not> matches c then (None, st) else (Some c, st)
         | None \<Rightarrow>
             (let contract = Contract_findOne (opt_db env) contractAddress;
                  st' = (read_db TContract st)
                          \<lparr>cache_contracts := (cache_contracts st)(contractAddress := Some contract)\<rparr>
              in case contract of
                   None \<Rightarrow> (None, st')
                 | Some c \<Rightarrow> if matches c then (Some c, st') else (None, st')))"

definition contractMatchesCodeIdKeys ::
  "(string list \<Rightarrow> int list) \<Rightarrow> env_options \<Rightarrow> string \<Rightarrow> string list \<Rightarrow> env_state \<Rightarrow>
   bool \<times> env_state" where
  "contractMatchesCodeIdKeys findWasmCodeIdsByKeys env contractAddress keys st =
     (let (c, st') = getContract findWasmCodeIdsByKeys env contractAddress (Some keys) st
      in (c \<noteq> None, st'))"

definition BankBalance_findOne :: "database \<Rightarrow> string \<Rightarrow> int \<Rightarrow> bank_balance option" where
  "BankBalance_findOne db address h =
     find (\<lambda>b. bb_address b = address \<and> bb_blockHeight b \<le> h) (bankBalances db)"

definition bank_point_rows :: "database \<Rightarrow> string \<Rightarrow> string \<Rightarrow> int \<Rightarrow> bank_state_event list" where
  "bank_point_rows db address denom h =
     filter (\<lambda>e. bse_address e = address \<and> bse_denom e = denom \<and> bse_blockHeight e \<le> h)
       (bankStateEvents db)"

definition BankStateEvent_findOne :: "database \<Rightarrow> string \<Rightarrow> string \<Rightarrow> int \<Rightarrow> bank_state_event option" where
  "BankStateEvent_findOne db address denom h =
     latest bse_blockHeight (bank_point_rows db address denom h)"

text \<open>
  The history fallback of \<^verbatim>\<open>getBalance\<close>, from the call of
  \<^verbatim>\<open>contractMatchesCodeIdKeys\<close> on. \<^verbatim>\<open>BANK_HISTORY_CODE_IDS_KEYS\<close> is a constant of the
  tracer's bank handler, which is not among the sources: a parameter.
\<close>

definition getBalance_history ::
  "(string list \<Rightarrow> int list) \<Rightarrow> string list \<Rightarrow> env_options \<Rightarrow> string \<Rightarrow> string \<Rightarrow> env_state \<Rightarrow>
   (error + string option) \<times> env_state" where
  "getBalance_history findWasmCodeIdsByKeys BANK_HISTORY_CODE_IDS_KEYS env address denom st2 =
     (let (historyExists, st3) =
            contractMatchesCodeIdKeys findWasmCodeIdsByKeys env address
              BANK_HISTORY_CODE_IDS_KEYS st2
      in if \<not> historyExists then (Inr None, st3)
         else
           (let dependentKey = getDependentKey BankStateEvent_ns [address, denom];
                st4 = push_dependentKey \<lparr>dk_key = dependentKey, dk_prefix = False\<rparr> st3;
                cachedEvent = cache_events st4 dependentKey;
                (event, st5) =
                  (case cachedEvent of
                     Some c \<Rightarrow> (first_cached c, st4)
                   | None \<Rightarrow>
                       (map_option BankStateEvent
                          (BankStateEvent_findOne (opt_db env) address denom
                             (blk_height (opt_block env))),
                        read_db TBankStateEvent st4))
            in case event of
                 None \<Rightarrow>
                   (Inr None,
                    if cachedEvent = None then set_cache_event dependentKey None st5 else st5)
               | Some (BankStateEvent e) \<Rightarrow>
                   (Inr (Some (bse_balance e)),
                    call_onFetch env [BankStateEvent e]
                      (if cachedEvent = None
                       then set_cache_event dependentKey (Some [BankStateEvent e]) st5
                       else st5))
               | Some _ \<Rightarrow> (Inl IncorrectEventType, st5)))"

definition getBalance ::
  "(string list \<Rightarrow> int list) \<Rightarrow> string list \<Rightarrow> env_options \<Rightarrow> string \<Rightarrow> string \<Rightarrow> env_state \<Rightarrow>
   (error + string option) \<times> env_state" where
  "getBalance findWasmCodeIdsByKeys BANK_HISTORY_CODE_IDS_KEYS env address denom st0 =
     (let bankBalanceDependentKey = getDependentKey BankBalance_ns [address];
          cachedBalance = cache_events st0 bankBalanceDependentKey
      in case cachedBalance of
           Some (Some [BankBalance b]) \<Rightarrow>
             (Inr (map_of (bb_balances b) denom), call_onFetch env [BankBalance b] st0)
         | _ \<Rightarrow>
             (let (bankBalance, st1) =
                    (case cachedBalance of
                       Some c \<Rightarrow> (first_cached c, st0)
                     | None \<Rightarrow>
                         (map_option BankBalance
                            (BankBalance_findOne (opt_db env) address
                               (blk_height (opt_block env))),
                          read_db TBankBalance st0));
                  st2 = (if cachedBalance = None
                         then set_cache_event bankBalanceDependentKey
                                (case bankBalance of None \<Rightarrow> None | Some e \<Rightarrow> Some [e]) st1
                         else st1)
              in case bankBalance of
                   Some (BankBalance b) \<Rightarrow>
                     (Inr (map_of (bb_balances b) denom),
                      call_onFetch env [BankBalance b] st2)
                 | _ \<Rightarrow>
                     getBalance_history findWasmCodeIdsByKeys BANK_HISTORY_CODE_IDS_KEYS
                       env address denom st2))"

section \<open>Transaction events and batch reads of transformations\<close>

text \<open>
  \<^verbatim>\<open>ORDER BY blockHeight DESC\<close> over several rows: by descending height, rows of equal
  height in table order.
\<close>

definition order_desc :: "('a \<Rightarrow> int) \<Rightarrow> 'a list \<Rightarrow> 'a list" where
  "order_desc h rows = sort_key (\<lambda>r. - h r) rows"

text \<open>
  \<^verbatim>\<open>getTxEvents\<close>. The optional \<^verbatim>\<open>where\<close> object is a list of entries, each a column or
  operator name with its condition on the row (absent: no entry). The source spreads it
  first and writes \<^verbatim>\<open>contractAddress\<close> and \<^verbatim>\<open>blockHeight\<close> after it, so the caller's
  entries under these two names are overwritten. \<^verbatim>\<open>toJSON\<close> is the row itself.
\<close>

type_synonym tx_where = "(string \<times> (wasm_tx_event \<Rightarrow> bool)) list"

definition getTxEvents ::
  "env_options \<Rightarrow> string \<Rightarrow> tx_where \<Rightarrow> env_state \<Rightarrow> wasm_tx_event list option \<times> env_state" where
  "getTxEvents env contractAddress where_clause st0 =
     (let st1 = push_dependentKey
                  \<lparr>dk_key = getDependentKey WasmTxEvent_ns [contractAddress], dk_prefix = True\<rparr>
                  st0;
          kept = filter (\<lambda>(name, cond). name \<noteq> ''contractAddress'' \<and> name \<noteq> ''blockHeight'')
                   where_clause;
          txEvents = order_desc tx_blockHeight
                       (filter (\<lambda>e. list_all (\<lambda>(name, cond). cond e) kept \<and>
                                    tx_contractAddress e = contractAddress \<and>
                                    tx_blockHeight e \<le> blk_height (opt_block env))
                          (wasmTxEvents (opt_db env)));
          st2 = read_db TWasmTxEvent st1
      in if txEvents = [] then (None, st2) else (Some txEvents, st2))"

text \<open>
  An entry of the list given to \<^verbatim>\<open>prefetchTransformations\<close>: a name, or an object
  \<^verbatim>\<open>{name, map}\<close>.
\<close>

datatype prefetch_name = PName string | PNameObj string bool

fun prefetch_name_of :: "prefetch_name \<Rightarrow> string" where
  "prefetch_name_of (PName n) = n"
| "prefetch_name_of (PNameObj n m) = n @ '':''"

fun is_nonMapName :: "prefetch_name \<Rightarrow> bool" where
  "is_nonMapName (PName _) = True"
| "is_nonMapName (PNameObj _ _) = False"

fun is_mapNamePrefix :: "prefetch_name \<Rightarrow> bool" where
  "is_mapNamePrefix (PName _) = False"
| "is_mapNamePrefix (PNameObj _ m) = m"

text \<open>
  The name filter of the batch query; with no name and no prefix it is the empty object,
  which the query layer refuses (\<open>None\<close>).
\<close>

definition prefetch_nameFilter :: "string list \<Rightarrow> string list \<Rightarrow> (string \<Rightarrow> bool) option" where
  "prefetch_nameFilter nonMapNames mapNamePrefixes =
     (let nonMapNameFilter =
            (if nonMapNames \<noteq> [] then Some (\<lambda>name. name \<in> set nonMapNames) else None);
          mapNameFilter =
            (if mapNamePrefixes \<noteq> []
             then Some (\<lambda>name. list_ex (\<lambda>p. sql_like (p @ ''%'') name) mapNamePrefixes)
             else None)
      in case (nonMapNameFilter, mapNameFilter) of
           (Some f, Some g) \<Rightarrow> Some (\<lambda>name. f name \<or> g name)
         | (Some f, None) \<Rightarrow> Some f
         | (None, Some g) \<Rightarrow> Some g
         | (None, None) \<Rightarrow> None)"

text \<open>A row as a query without \<^verbatim>\<open>include\<close> loads it, and as one with \<^verbatim>\<open>include: Contract\<close>.\<close>

definition without_contract :: "transformation \<Rightarrow> transformation" where
  "without_contract t = t\<lparr>tf_contract := None\<rparr>"

definition with_contract :: "database \<Rightarrow> transformation \<Rightarrow> transformation" where
  "with_contract db t = t\<lparr>tf_contract := Contract_findOne db (tf_contractAddress t)\<rparr>"

definition transformation_entry_of :: "transformation \<Rightarrow> event list option" where
  "transformation_entry_of t =
     (if tf_value t = None then None else Some [WasmStateEventTransformation t])"

definition cache_nonMapName :: "string \<Rightarrow> transformation list \<Rightarrow> string \<Rightarrow> env_state \<Rightarrow> env_state" where
  "cache_nonMapName contractAddress ts name st =
     set_cache_event (getDependentKey WasmStateEventTransformation_ns [contractAddress, name])
       (case find (\<lambda>t. tf_name t = name) ts of
          None \<Rightarrow> None
        | Some t \<Rightarrow> transformation_entry_of t) st"

definition cache_mapNamePrefix :: "string \<Rightarrow> transformation list \<Rightarrow> string \<Rightarrow> env_state \<Rightarrow> env_state" where
  "cache_mapNamePrefix contractAddress ts mapNamePrefix st =
     (let transformationsForPrefix = filter (\<lambda>t. prefix mapNamePrefix (tf_name t)) ts;
          st' = set_cache_event
                  (getDependentKey WasmStateEventTransformation_ns [contractAddress, mapNamePrefix])
                  (if transformationsForPrefix = [] then None
                   else Some (map WasmStateEventTransformation transformationsForPrefix)) st
      in fold (\<lambda>t. set_cache_event
                      (getDependentKey WasmStateEventTransformation_ns [contractAddress, tf_name t])
                      (transformation_entry_of t))
           transformationsForPrefix st')"

definition prefetchTransformations ::
  "env_options \<Rightarrow> string \<Rightarrow> prefetch_name list \<Rightarrow> env_state \<Rightarrow> (error + unit) \<times> env_state" where
  "prefetchTransformations env contractAddress listOfNames st0 =
     (let names = map prefetch_name_of listOfNames;
          st1 = fold (\<lambda>key. push_dependentKey
                        \<lparr>dk_key = getDependentKey WasmStateEventTransformation_ns
                                    [contractAddress, key],
                         dk_prefix = ends_with CHR '':'' key\<rparr>) names st0;
          nonMapNames = map fst (filter (\<lambda>(name, k). is_nonMapName k) (zip names listOfNames));
          mapNamePrefixes = map fst (filter (\<lambda>(name, k). is_mapNamePrefix k) (zip names listOfNames))
      in case prefetch_nameFilter nonMapNames mapNamePrefixes of
           None \<Rightarrow> (Inl QueryError, st1)
         | Some nameFilter \<Rightarrow>
             (let ts = map without_contract
                         (distinct_on_latest tf_name tf_blockHeight
                            (filter (\<lambda>t. tf_contractAddress t = contractAddress \<and>
                                         nameFilter (tf_name t) \<and>
                                         tf_blockHeight t \<le> blk_height (opt_block env))
                               (transformations (opt_db env))));
                  st2 = read_db TWasmStateEventTransformation st1;
                  st3 = call_onFetch env [] st2;
                  st4 = fold (cache_nonMapName contractAddress ts) nonMapNames st3
              in (Inr (), fold (cache_mapNamePrefix contractAddress ts) mapNamePrefixes st4)))"

section \<open>Example data\<close>

text \<open>
  The scenario of the spec: rows at heights 10, 20 and 30 for contract \<open>A\<close> and key
  \<open>k\<close> with values 1, 2 and 3, and a tombstone at height 25. Beside it, a map \<open>m\<close>
  with a live entry \<open>x\<close> and a deleted entry \<open>y\<close>, a map \<open>t\<close> whose only entry is
  deleted, a transformation, a transaction, a balance snapshot for address \<open>B\<close>, and
  balance history for contract \<open>C\<close>. The key composer of the examples joins the
  segments with commas, an empty last segment adding nothing, as the byte rendering of
  the real composer does; the parser of the examples reads \<^verbatim>\<open>null\<close> and takes any
  other text as a number literal.
\<close>

definition example_row :: "string \<Rightarrow> int \<Rightarrow> string option \<Rightarrow> bool \<Rightarrow> wasm_state_event" where
  "example_row k h v d =
     \<lparr>wse_contractAddress = ''A'', wse_key = k, wse_blockHeight = h,
      wse_blockTimeUnixMs = 100 * h, wse_value = v, wse_delete = d\<rparr>"

definition example_transformation :: transformation where
  "example_transformation =
     \<lparr>tf_contractAddress = ''A'', tf_name = ''config'', tf_blockHeight = 10,
      tf_blockTimeUnixMs = 1000, tf_value = Some ''1'', tf_contract = None\<rparr>"

definition example_tx :: wasm_tx_event where
  "example_tx =
     \<lparr>tx_contractAddress = ''A'', tx_blockHeight = 15, tx_blockTimeUnixMs = 1500,
      tx_sender = ''S'', tx_action = ''execute''\<rparr>"

definition example_db :: database where
  "example_db =
     \<lparr>wasmStateEvents =
        [example_row ''k'' 10 (Some ''1'') False,
         example_row ''k'' 20 (Some ''2'') False,
         example_row ''k'' 25 None True,
         example_row ''k'' 30 (Some ''3'') False,
         example_row ''m,x'' 12 (Some ''7'') False,
         example_row ''m,y'' 14 (Some ''8'') False,
         example_row ''m,y'' 18 None True,
         example_row ''t,a'' 5 (Some ''4'') False,
         example_row ''t,a'' 6 None True],
      transformations = [example_transformation],
      wasmTxEvents = [example_tx],
      bankBalances =
        [\<lparr>bb_address = ''B'', bb_balances = [(''ujuno'', ''5'')], bb_blockHeight = 8,
          bb_blockTimeUnixMs = 800\<rparr>],
      bankStateEvents =
        [\<lparr>bse_address = ''C'', bse_denom = ''ujuno'', bse_blockHeight = 7,
          bse_blockTimeUnixMs = 700, bse_balance = ''9''\<rparr>],
      contracts =
        [\<lparr>ct_address = ''C'', ct_codeId = 42\<rparr>, \<lparr>ct_address = ''D'', ct_codeId = 7\<rparr>],
      stakingSlashEvents = [],
      govProposals = [],
      govProposalVotes = [],
      communityPoolStateEvents = [],
      extractions = [],
      feegrantAllowances = []\<rparr>"

text \<open>
  A second table of contract state: contract \<open>A\<close> has a row under the key of a single
  Uint8Array segment (value 1) and a row under a longer key that starts with it (value 2);
  contract \<open>E\<close> has only the longer key.
\<close>

definition example_bytes_db :: database where
  "example_bytes_db =
     example_db\<lparr>wasmStateEvents :=
       [example_row ''*'' 10 (Some ''1'') False,
        example_row ''*,x'' 12 (Some ''2'') False,
        \<lparr>wse_contractAddress = ''E'', wse_key = ''*,x'', wse_blockHeight = 12,
         wse_blockTimeUnixMs = 1200, wse_value = Some ''2'', wse_delete = False\<rparr>]\<rparr>"

text \<open>
  A table of balance history: contract \<open>C\<close> has three rows for one denom, at heights 7, 9
  and 30, and a row for another denom at height 20; contract \<open>D\<close>, whose code id is not
  among those kept, has a row too.
\<close>

definition example_bank_db :: database where
  "example_bank_db =
     example_db\<lparr>bankStateEvents :=
       [\<lparr>bse_address = ''C'', bse_denom = ''ujuno'', bse_blockHeight = 7,
         bse_blockTimeUnixMs = 700, bse_balance = ''9''\<rparr>,
        \<lparr>bse_address = ''C'', bse_denom = ''ujuno'', bse_blockHeight = 9,
         bse_blockTimeUnixMs = 900, bse_balance = ''11''\<rparr>,
        \<lparr>bse_address = ''C'', bse_denom = ''ujuno'', bse_blockHeight = 30,
         bse_blockTimeUnixMs = 3000, bse_balance = ''99''\<rparr>,
        \<lparr>bse_address = ''C'', bse_denom = ''uatom'', bse_blockHeight = 20,
         bse_blockTimeUnixMs = 2000, bse_balance = ''77''\<rparr>,
        \<lparr>bse_address = ''D'', bse_denom = ''ujuno'', bse_blockHeight = 10,
         bse_blockTimeUnixMs = 1000, bse_balance = ''55''\<rparr>]\<rparr>"

definition env_at :: "database \<Rightarrow> int \<Rightarrow> env_options" where
  "env_at db h =
     \<lparr>opt_db = db, opt_block = \<lparr>blk_height = h, blk_timeUnixMs = 100 * h\<rparr>, opt_onFetch = True\<rparr>"

definition initial_state :: env_state where
  "initial_state =
     \<lparr>dependentKeys = Some [], cache_events = (\<lambda>_. None), cache_contracts = (\<lambda>_. None),
      trace = []\<rparr>"

fun key_part_text :: "key_part \<Rightarrow> string" where
  "key_part_text (KString s) = s"
| "key_part_text (KNumber n) = ''#''"
| "key_part_text (KBytes bs) = ''*''"

fun example_dbKeyForKeys :: "key_part list \<Rightarrow> string" where
  "example_dbKeyForKeys [] = []"
| "example_dbKeyForKeys [k] = key_part_text k"
| "example_dbKeyForKeys (k # k' # ks) =
     (if k' # ks = [KString ''''] then key_part_text k
      else key_part_text k @ '','' @ example_dbKeyForKeys (k' # ks))"

definition example_parse :: "string \<Rightarrow> json option" where
  "example_parse s = (if s = ''null'' then Some JNull else Some (JNumber s))"

section \<open>Derived notions used in the statements\<close>

text \<open>The number of data base reads made so far.\<close>

fun is_Read :: "action \<Rightarrow> bool" where
  "is_Read (Read _) = True"
| "is_Read _ = False"

definition reads :: "env_state \<Rightarrow> nat" where
  "reads st = length (filter is_Read (trace st))"

definition get_lookup :: "(key_part list \<Rightarrow> string) \<Rightarrow> env_options \<Rightarrow> string \<Rightarrow> key_part list \<Rightarrow> env_state \<Rightarrow> event option" where
  "get_lookup K env a ks st =
     (case cache_events st (getDependentKey WasmStateEvent_ns [a, K ks]) of
        Some c \<Rightarrow> first_cached c
      | None \<Rightarrow> map_option WasmStateEvent
                 (WasmStateEvent_findOne (opt_db env) a (K ks) (blk_height (opt_block env))))"

definition get_value :: "(string \<Rightarrow> json option) \<Rightarrow> event option \<Rightarrow> error + json option" where
  "get_value P ev =
     (case ev of
        None \<Rightarrow> Inr None
      | Some (WasmStateEvent e) \<Rightarrow> if wse_delete e then Inr None else parse_value P (wse_value e)
      | Some _ \<Rightarrow> Inl IncorrectEventType)"

text \<open>The memo entry that \<^verbatim>\<open>prefetch\<close> writes for an exact key.\<close>

definition prefetch_entry :: "wasm_state_event list \<Rightarrow> string \<Rightarrow> event list option" where
  "prefetch_entry events key =
     (case find (\<lambda>e. wse_key e = key) events of None \<Rightarrow> None | Some e \<Rightarrow> cache_entry_of e)"

text \<open>
  The exact keys, the map prefixes and the rows of a call of \<^verbatim>\<open>prefetch\<close>, as its body
  computes them.
\<close>

definition prefetch_nonMapKeys :: "(key_part list \<Rightarrow> string) \<Rightarrow> prefetch_key list \<Rightarrow> string list" where
  "prefetch_nonMapKeys dbKeyForKeys listOfKeys =
     map (prefetch_dbKey dbKeyForKeys) (filter is_nonMapKey listOfKeys)"

definition prefetch_mapKeyPrefixes :: "(key_part list \<Rightarrow> string) \<Rightarrow> prefetch_key list \<Rightarrow> string list" where
  "prefetch_mapKeyPrefixes dbKeyForKeys listOfKeys =
     map (prefetch_dbKey dbKeyForKeys) (filter is_mapKeyPrefix listOfKeys)"

definition prefetch_events ::
  "(key_part list \<Rightarrow> string) \<Rightarrow> env_options \<Rightarrow> string \<Rightarrow> prefetch_key list \<Rightarrow> wasm_state_event list" where
  "prefetch_events dbKeyForKeys env contractAddress listOfKeys =
     (case prefetch_keyFilter (prefetch_nonMapKeys dbKeyForKeys listOfKeys)
             (prefetch_mapKeyPrefixes dbKeyForKeys listOfKeys) of
        None \<Rightarrow> []
      | Some keyFilter \<Rightarrow>
          distinct_on_latest wse_key wse_blockHeight
            (prefetch_rows (opt_db env) contractAddress keyFilter (blk_height (opt_block env))))"

text \<open>The number of reads of one table made so far.\<close>

definition reads_of :: "table \<Rightarrow> env_state \<Rightarrow> nat" where
  "reads_of t st = length (filter (\<lambda>a. a = Read t) (trace st))"

text \<open>
  The actions a call appended to the observation log, and the log entries of a hook call.
\<close>

definition new_actions :: "env_state \<Rightarrow> env_state \<Rightarrow> action list" where
  "new_actions st st' = drop (length (trace st)) (trace st')"

definition hook_actions :: "env_options \<Rightarrow> event list \<Rightarrow> action list" where
  "hook_actions env rows = (if opt_onFetch env then [OnFetch rows] else [])"

section \<open>The compute endpoint\<close>

text \<open>
  The middleware \<^verbatim>\<open>computer\<close> of \<^verbatim>\<open>loadComputer\<close>. A query parameter of koa is
  undefined, a string, or an array of strings; the source accepts a parameter only under
  \<^verbatim>\<open>x && typeof x === 'string'\<close>, that is, a non-empty string.
\<close>

datatype qparam = QAbsent | QString string | QArray "string list"

fun supplied :: "qparam \<Rightarrow> string option" where
  "supplied (QString s) = (if s = [] then None else Some s)"
| "supplied _ = None"

type_synonym args = "(string \<times> qparam) list"

record request =
  rq_paths :: "string list"
  rq_apiKeyHeader :: qparam
  rq_ip :: string
  rq_block :: qparam
  rq_blocks :: qparam
  rq_blockStep :: qparam
  rq_time :: qparam
  rq_times :: qparam
  rq_timeStep :: qparam
  rq_args :: args

text \<open>
  \<^verbatim>\<open>rq_paths\<close> is \<^verbatim>\<open>ctx.path.split('/').slice(1)\<close>. The body of a response is a
  message, the value of a single computation, the processed range, or the message of an
  exception caught by the outer handler. Response headers are not modelled. Where the source
  sets a body and no status, the status is koa's: 204 for an undefined or null body, 200
  otherwise.
\<close>

datatype 'r body = Text string | Single "json option" | Ranged 'r | Exception

record 'r response =
  rsp_status :: nat
  rsp_body :: "'r body"

datatype formula_type = FormulaContract | FormulaGeneric | FormulaValidator | FormulaAccount

text \<open>
  A registered formula: the \<^verbatim>\<open>dynamic\<close> flag and the optional filter with its optional
  \<^verbatim>\<open>codeIdsKeys\<close>. The compute function itself is run by \<^verbatim>\<open>compute\<close> and
  \<^verbatim>\<open>computeRange\<close>.
\<close>

record formula =
  f_dynamic :: bool
  f_filter :: "string list option option"

record typed_formula =
  tfm_type :: formula_type
  tfm_name :: string
  tfm_formula :: formula

datatype formula_lookup = FormulaNotFound | FormulaLookupFailed | FormulaFound typed_formula

record account_key =
  ak_id :: int
  ak_isTest :: bool

datatype key_lookup = KeyLookupFailed | KeyUnknown | KeyFound account_key

record state =
  st_chainId :: string
  st_latestBlock :: block

text \<open>A stored Computation row and an output of the evaluators.\<close>

record computation =
  cmp_targetAddress :: string
  cmp_formula :: string
  cmp_args :: string
  cmp_block :: block
  cmp_output :: "string option"
  cmp_latestBlockHeightValid :: int

record computation_output =
  co_block :: block
  co_value :: "json option"
  co_latestBlockHeightValid :: int

record range_item =
  ri_value :: "json option"
  ri_block :: block

text \<open>
  The observation log of the endpoint: the calls that spend credit, evaluate a formula,
  or read or write the Computation table, in program order.
\<close>

datatype call =
    UseCredit int
  | Compute block
  | ComputeRange block block
  | FindStartComputation int
  | FindRestComputations int int
  | UpdateValidity computation int
  | CreateFromComputationOutputs "computation_output list"

text \<open>
  What the endpoint calls and does not define: helpers of \<^verbatim>\<open>@/utils\<close>,
  \<^verbatim>\<open>@/formulas\<close> and \<^verbatim>\<open>@/db\<close>, services, JavaScript built-ins, the configuration and
  the clock. They are parameters. An evaluator returns \<open>Inl\<close> with the message where it
  throws; \<^verbatim>\<open>validateBlockString\<close> likewise; \<^verbatim>\<open>BigInt\<close> and \<^verbatim>\<open>JSON.parse\<close> return
  \<open>None\<close> where they throw. The two methods that write the Computation table take the
  table and return it updated. Failures of the data base itself are not modelled.
\<close>

record 'r services =
  sv_ignoreApiKey :: bool
  sv_lookupAccountKey :: "string \<Rightarrow> key_lookup"
  sv_now :: int
  sv_validateBlockString :: "string \<Rightarrow> string \<Rightarrow> string + block"
  sv_BigInt :: "string \<Rightarrow> int option"
  sv_getTypedFormula :: "formula_type \<Rightarrow> string \<Rightarrow> formula_lookup"
  sv_Contract_findByPk :: "string \<Rightarrow> contract option"
  sv_Validator_findByPk :: "string \<Rightarrow> bool"
  sv_findWasmCodeIdsByKeys :: "string list \<Rightarrow> int list"
  sv_Block_getForTime :: "int \<Rightarrow> block option"
  sv_Block_getFirst :: "block option"
  sv_useCredit :: "account_key \<Rightarrow> int \<Rightarrow> bool"
  sv_creditsForBlockInterval :: "int \<Rightarrow> int"
  sv_compute :: "typed_formula \<Rightarrow> string \<Rightarrow> args \<Rightarrow> block \<Rightarrow> string + json option"
  sv_computeRange ::
    "typed_formula \<Rightarrow> string \<Rightarrow> args \<Rightarrow> block \<Rightarrow> block \<Rightarrow> string + computation_output list"
  sv_updateValidityUpToBlockHeight ::
    "computation \<Rightarrow> int \<Rightarrow> computation list \<Rightarrow> bool \<times> computation list"
  sv_createFromComputationOutputs ::
    "string \<Rightarrow> typed_formula \<Rightarrow> args \<Rightarrow> computation_output list \<Rightarrow> computation list \<Rightarrow>
     computation list \<times> computation list"
  sv_processComputationRange ::
    "range_item list \<Rightarrow> int option \<Rightarrow> int option \<Rightarrow> (block \<times> block) option \<Rightarrow>
     (int \<times> int option) option \<Rightarrow> 'r"
  sv_JSON_parse :: "string \<Rightarrow> json option"
  sv_JSON_stringify :: "json \<Rightarrow> string"
  sv_stringify_args :: "args \<Rightarrow> string"

text \<open>
  The state the middleware closes over: the State singleton and the rate-limit map of the
  test key.
\<close>

record server =
  srv_state :: state
  srv_testRateLimit :: "string \<Rightarrow> int option"

record 'r outcome =
  out_response :: "'r response"
  out_computations :: "computation list"
  out_calls :: "call list"
  out_testRateLimit :: "string \<Rightarrow> int option"

definition reply :: "nat \<Rightarrow> string \<Rightarrow> 'r response" where
  "reply code msg = \<lparr>rsp_status = code, rsp_body = Text msg\<rparr>"

subsection \<open>Route and API key\<close>

text \<open>
  Modelled from the spec: \<^verbatim>\<open>typeIsFormulaTypeOrWallet\<close> and \<^verbatim>\<open>FormulaTypeValues\<close> are
  in \<^verbatim>\<open>@/formulas\<close> and \<^verbatim>\<open>@/types\<close>, which are not among the sources. The spec lists
  the formula types contract, validator, account and generic; the endpoint's comment adds
  the deprecated name wallet for account.
\<close>

definition FormulaTypeValues :: "string list" where
  "FormulaTypeValues = [''contract'', ''generic'', ''validator'', ''account'']"

definition typeIsFormulaTypeOrWallet :: "string \<Rightarrow> bool" where
  "typeIsFormulaTypeOrWallet s = (s \<in> set FormulaTypeValues \<or> s = ''wallet'')"

definition formula_type_of :: "string \<Rightarrow> formula_type" where
  "formula_type_of s =
     (if s = ''wallet'' \<or> s = ''account'' then FormulaAccount
      else if s = ''contract'' then FormulaContract
      else if s = ''validator'' then FormulaValidator
      else FormulaGeneric)"

fun join_with :: "string \<Rightarrow> string list \<Rightarrow> string" where
  "join_with sep [] = []"
| "join_with sep [x] = x"
| "join_with sep (x # y # ys) = x @ sep @ join_with sep (y # ys)"

record route =
  rt_key :: "string option"
  rt_type :: formula_type
  rt_address :: string
  rt_formulaName :: string

definition parse_route :: "string \<Rightarrow> request \<Rightarrow> 'r response + route" where
  "parse_route chainId req =
     (let paths0 = rq_paths req;
          paths = (if paths0 \<noteq> [] \<and> hd paths0 = chainId then tl paths0 else paths0)
      in if length paths < 3 then Inl (reply 400 ''missing required parameters'')
         else if typeIsFormulaTypeOrWallet (paths ! 0) then
           Inr \<lparr>rt_key = (case rq_apiKeyHeader req of QString s \<Rightarrow> Some s | _ \<Rightarrow> None),
                rt_type = formula_type_of (paths ! 0),
                rt_address = paths ! 1,
                rt_formulaName = join_with ''/'' (drop 2 paths)\<rparr>
         else if typeIsFormulaTypeOrWallet (paths ! 1) then
           Inr \<lparr>rt_key = Some (paths ! 0),
                rt_type = formula_type_of (paths ! 1),
                rt_address = paths ! 2,
                rt_formulaName = join_with ''/'' (drop 3 paths)\<rparr>
         else Inl (reply 400 (''type must be one of: '' @ join_with '', '' FormulaTypeValues)))"

text \<open>
  The API key check. The Redis cache and the two lookups of \<^verbatim>\<open>AccountKey\<close> are one
  parameter, \<open>sv_lookupAccountKey\<close>, which fails where the source's \<^verbatim>\<open>try\<close> catches.
\<close>

definition authenticate :: "'r services \<Rightarrow> string option \<Rightarrow> 'r response + account_key option" where
  "authenticate sv key =
     (if sv_ignoreApiKey sv then Inr None
      else case key of
             None \<Rightarrow> Inl (reply 401 ''missing API key'')
           | Some k \<Rightarrow>
               if k = [] then Inl (reply 401 ''missing API key'')
               else case sv_lookupAccountKey sv k of
                      KeyLookupFailed \<Rightarrow> Inl (reply 500 ''internal server error'')
                    | KeyUnknown \<Rightarrow> Inl (reply 401 ''invalid API key'')
                    | KeyFound ak \<Rightarrow> Inr (Some ak))"

definition testCooldownSeconds :: int where
  "testCooldownSeconds = 10"

text \<open>
  The rate limit of the test key: old entries are dropped from the map, then the caller's
  entry is read; the caller is refused or its entry is set to the current time.
\<close>

definition rate_limit ::
  "int \<Rightarrow> string \<Rightarrow> (string \<Rightarrow> int option) \<Rightarrow> 'r response option \<times> (string \<Rightarrow> int option)" where
  "rate_limit now ip m =
     (let m' = (\<lambda>i. case m i of
                       None \<Rightarrow> None
                     | Some lastUsed \<Rightarrow>
                         if now - lastUsed \<ge> testCooldownSeconds * 1000 then None
                         else Some lastUsed)
      in case m' ip of
           Some lastUsed \<Rightarrow>
             if lastUsed \<noteq> 0 \<and> now - lastUsed < testCooldownSeconds * 1000
             then (Some (reply 429 ''10 second test rate limit exceeded''), m')
             else (None, m'(ip \<mapsto> now))
         | None \<Rightarrow> (None, m'(ip \<mapsto> now)))"

text \<open>
  Everything before the query parameters are read: route, API key, rate limit, address
  and formula name.
\<close>

record admission =
  ad_accountKey :: "account_key option"
  ad_type :: formula_type
  ad_address :: string
  ad_formulaName :: string
  ad_testRateLimit :: "string \<Rightarrow> int option"

definition admit ::
  "'r services \<Rightarrow> server \<Rightarrow> request \<Rightarrow> ('r response \<times> (string \<Rightarrow> int option)) + admission" where
  "admit sv srv req =
     (case parse_route (st_chainId (srv_state srv)) req of
        Inl r \<Rightarrow> Inl (r, srv_testRateLimit srv)
      | Inr rt \<Rightarrow>
          (case authenticate sv (rt_key rt) of
             Inl r \<Rightarrow> Inl (r, srv_testRateLimit srv)
           | Inr accountKey \<Rightarrow>
               (case (if (case accountKey of Some ak \<Rightarrow> ak_isTest ak | None \<Rightarrow> False)
                      then rate_limit (sv_now sv) (rq_ip req) (srv_testRateLimit srv)
                      else (None, srv_testRateLimit srv)) of
                  (Some r, m) \<Rightarrow> Inl (r, m)
                | (None, m) \<Rightarrow>
                    if rt_address rt = [] then Inl (reply 400 ''missing address'', m)
                    else if rt_formulaName rt = [] then Inl (reply 400 ''missing formula'', m)
                    else Inr \<lparr>ad_accountKey = accountKey, ad_type = rt_type rt,
                              ad_address = rt_address rt,
                              ad_formulaName = rt_formulaName rt,
                              ad_testRateLimit = m\<rparr>)))"

subsection \<open>Validation of the query parameters\<close>

text \<open>\<^verbatim>\<open>s.split('..')\<close>\<close>

fun split_dots :: "string \<Rightarrow> string \<Rightarrow> string list" where
  "split_dots acc [] = [rev acc]"
| "split_dots acc [c] = [rev (c # acc)]"
| "split_dots acc (c # d # cs) =
     (if c = CHR ''.'' \<and> d = CHR ''.'' then rev acc # split_dots [] cs
      else split_dots (c # acc) (d # cs))"

text \<open>An element of a destructured array, when it is there and truthy (not empty).\<close>

definition truthy_at :: "string list \<Rightarrow> nat \<Rightarrow> string option" where
  "truthy_at xs i = (if i < length xs \<and> xs ! i \<noteq> [] then Some (xs ! i) else None)"

record query =
  q_block :: "block option"
  q_blocks :: "(block \<times> block) option"
  q_blockStep :: "int option"
  q_time :: "int option"
  q_times :: "(int \<times> int option) option"
  q_timeStep :: "int option"

definition validate_block :: "'r services \<Rightarrow> request \<Rightarrow> 'r response + block option" where
  "validate_block sv req =
     (case supplied (rq_block req) of
        None \<Rightarrow> Inr None
      | Some s \<Rightarrow>
          (case sv_validateBlockString sv s ''block'' of
             Inl msg \<Rightarrow> Inl (reply 400 msg)
           | Inr b \<Rightarrow> Inr (Some b)))"

definition validate_step ::
  "'r services \<Rightarrow> qparam \<Rightarrow> string \<Rightarrow> 'r response + int option" where
  "validate_step sv p msg =
     (case supplied p of
        None \<Rightarrow> Inr None
      | Some s \<Rightarrow>
          (case sv_BigInt sv s of
             None \<Rightarrow> Inl (reply 400 msg)
           | Some n \<Rightarrow> if n < 1 then Inl (reply 400 msg) else Inr (Some n)))"

text \<open>The block step is read only inside the branch that has read a block range.\<close>

definition validate_blocks ::
  "'r services \<Rightarrow> request \<Rightarrow> 'r response + ((block \<times> block) option \<times> int option)" where
  "validate_blocks sv req =
     (case supplied (rq_blocks req) of
        None \<Rightarrow> Inr (None, None)
      | Some s \<Rightarrow>
          (case (truthy_at (split_dots [] s) 0, truthy_at (split_dots [] s) 1) of
             (Some startBlock, Some endBlock) \<Rightarrow>
               (case sv_validateBlockString sv startBlock ''the start block'' of
                  Inl msg \<Rightarrow> Inl (reply 400 msg)
                | Inr b0 \<Rightarrow>
                    (case sv_validateBlockString sv endBlock ''the end block'' of
                       Inl msg \<Rightarrow> Inl (reply 400 msg)
                     | Inr b1 \<Rightarrow>
                         if blk_height b0 \<ge> blk_height b1 \<or>
                            blk_timeUnixMs b0 \<ge> blk_timeUnixMs b1
                         then Inl (reply 400 ''the start block must be before the end block'')
                         else
                           (case validate_step sv (rq_blockStep req)
                                   ''block step must be a positive integer'' of
                              Inl r \<Rightarrow> Inl r
                            | Inr blockStep \<Rightarrow> Inr (Some (b0, b1), blockStep))))
           | _ \<Rightarrow> Inl (reply 400 ''blocks must be a range of two blocks'')))"

definition validate_time :: "'r services \<Rightarrow> request \<Rightarrow> 'r response + int option" where
  "validate_time sv req =
     (case supplied (rq_time req) of
        None \<Rightarrow> Inr None
      | Some s \<Rightarrow>
          (case sv_BigInt sv s of
             None \<Rightarrow> Inl (reply 400 ''time must be an integer greater than or equal to zero'')
           | Some t \<Rightarrow>
               if t < 0
               then Inl (reply 400 ''time must be an integer greater than or equal to zero'')
               else Inr (Some t)))"

text \<open>The time step is read only inside the branch that has read a time range.\<close>

definition validate_times ::
  "'r services \<Rightarrow> request \<Rightarrow> 'r response + ((int \<times> int option) option \<times> int option)" where
  "validate_times sv req =
     (case supplied (rq_times req) of
        None \<Rightarrow> Inr (None, None)
      | Some s \<Rightarrow>
          (case truthy_at (split_dots [] s) 0 of
             None \<Rightarrow>
               Inl (reply 400 ''times must be just a start time or both a start and end time'')
           | Some startTime \<Rightarrow>
               (case sv_BigInt sv startTime of
                  None \<Rightarrow> Inl (reply 400 ''times must be integers'')
                | Some t0 \<Rightarrow>
                    (case (case truthy_at (split_dots [] s) 1 of
                             None \<Rightarrow> Some None
                           | Some endTime \<Rightarrow> map_option Some (sv_BigInt sv endTime)) of
                       None \<Rightarrow> Inl (reply 400 ''times must be integers'')
                     | Some t1 \<Rightarrow>
                         if (case t1 of None \<Rightarrow> False | Some e \<Rightarrow> t0 \<ge> e)
                         then Inl (reply 400 ''the start time must be less than the end time'')
                         else
                           (case validate_step sv (rq_timeStep req)
                                   ''time step must be a positive integer'' of
                              Inl r \<Rightarrow> Inl r
                            | Inr timeStep \<Rightarrow> Inr (Some (t0, t1), timeStep))))))"

definition validate_query :: "'r services \<Rightarrow> request \<Rightarrow> 'r response + query" where
  "validate_query sv req =
     (case validate_block sv req of
        Inl r \<Rightarrow> Inl r
      | Inr block \<Rightarrow>
          (case validate_blocks sv req of
             Inl r \<Rightarrow> Inl r
           | Inr (blocks, blockStep) \<Rightarrow>
               (case validate_time sv req of
                  Inl r \<Rightarrow> Inl r
                | Inr time \<Rightarrow>
                    (case validate_times sv req of
                       Inl r \<Rightarrow> Inl r
                     | Inr (timesRange, timeStep) \<Rightarrow>
                         Inr \<lparr>q_block = block, q_blocks = blocks, q_blockStep = blockStep,
                              q_time = time, q_times = timesRange, q_timeStep = timeStep\<rparr>))))"

subsection \<open>Formula, target and range resolution\<close>

text \<open>A contract formula needs the contract, and its code id inside the filter if any;
  a validator formula needs the validator.\<close>

definition check_target ::
  "'r services \<Rightarrow> typed_formula \<Rightarrow> string \<Rightarrow> string \<Rightarrow> 'r response option" where
  "check_target sv typedFormula address formulaName =
     (if tfm_type typedFormula = FormulaContract then
        (case sv_Contract_findByPk sv address of
           None \<Rightarrow> Some (reply 404 ''contract not found'')
         | Some contract \<Rightarrow>
             (case f_filter (tfm_formula typedFormula) of
                None \<Rightarrow> None
              | Some flt \<Rightarrow>
                  (let allowed =
                         (case flt of
                            None \<Rightarrow> True
                          | Some codeIdKeys \<Rightarrow>
                              if codeIdKeys = [] then True
                              else ct_codeId contract
                                     \<in> set (sv_findWasmCodeIdsByKeys sv codeIdKeys))
                   in if \<not> allowed
                      then Some (reply 405 (''the '' @ formulaName @
                                   '' formula does not apply to contract '' @ address))
                      else None)))
      else if tfm_type typedFormula = FormulaValidator then
        (if \<not> sv_Validator_findByPk sv address
         then Some (reply 404 ''validator not found'') else None)
      else None)"

definition dynamic_over_range_message :: string where
  "dynamic_over_range_message =
     ''cannot compute dynamic formula over a range (compute it for a specific block/time instead)''"

text \<open>\<^verbatim>\<open>if (time) { ... block = (await Block.getForTime(time))?.block }\<close>; the bigint 0 is
  falsy.\<close>

definition resolve_time :: "'r services \<Rightarrow> query \<Rightarrow> block option" where
  "resolve_time sv q =
     (case q_time q of
        None \<Rightarrow> q_block q
      | Some t \<Rightarrow>
          if t = 0 then q_block q
          else sv_Block_getForTime sv (if t < 0 then t + sv_now sv else t))"

text \<open>
  \<^verbatim>\<open>if (times && !accountKey?.isTest)\<close>: negative times are taken from the current time and
  the two ends are turned into blocks, which replace the block range when both are found.
\<close>

definition resolve_times ::
  "'r services \<Rightarrow> state \<Rightarrow> bool \<Rightarrow> query \<Rightarrow> (block \<times> block) option \<times> (int \<times> int option) option" where
  "resolve_times sv st isTest q =
     (case q_times q of
        None \<Rightarrow> (q_blocks q, None)
      | Some (t0, t1) \<Rightarrow>
          if isTest then (q_blocks q, Some (t0, t1))
          else
            (let t0' = (if t0 < 0 then t0 + sv_now sv else t0);
                 t1' = (case t1 of
                          None \<Rightarrow> None
                        | Some e \<Rightarrow> if e \<noteq> 0 \<and> e < 0 then Some (e + sv_now sv) else Some e);
                 startBlock = (case sv_Block_getForTime sv t0' of
                                 Some b \<Rightarrow> Some b
                               | None \<Rightarrow> sv_Block_getFirst sv);
                 endBlock = (case t1' of
                               None \<Rightarrow> Some (st_latestBlock st)
                             | Some e \<Rightarrow>
                                 if e = 0 then Some (st_latestBlock st)
                                 else sv_Block_getForTime sv e)
             in case (startBlock, endBlock) of
                  (Some s, Some e) \<Rightarrow> (Some (s, e), Some (t0', t1'))
                | _ \<Rightarrow> (q_blocks q, Some (t0', t1'))))"

subsection \<open>Reuse of stored computations over a range\<close>

definition computationWhere :: "'r services \<Rightarrow> string \<Rightarrow> string \<Rightarrow> args \<Rightarrow> computation \<Rightarrow> bool" where
  "computationWhere sv address formulaName as c =
     (cmp_targetAddress c = address \<and> cmp_formula c = formulaName \<and>
      cmp_args c = sv_stringify_args sv as)"

definition cmp_blockHeight :: "computation \<Rightarrow> int" where
  "cmp_blockHeight c = blk_height (cmp_block c)"

text \<open>\<^verbatim>\<open>Computation.findOne\<close> at or below the start block, most recent first.\<close>

definition existingStartComputation ::
  "'r services \<Rightarrow> string \<Rightarrow> string \<Rightarrow> args \<Rightarrow> int \<Rightarrow> computation list \<Rightarrow> computation option" where
  "existingStartComputation sv address formulaName as startHeight stored =
     latest cmp_blockHeight
       (filter (\<lambda>c. computationWhere sv address formulaName as c \<and>
                    cmp_blockHeight c \<le> startHeight) stored)"

text \<open>\<^verbatim>\<open>Computation.findAll\<close> above the start block up to the end block, ascending.\<close>

definition existingRestComputations ::
  "'r services \<Rightarrow> string \<Rightarrow> string \<Rightarrow> args \<Rightarrow> int \<Rightarrow> int \<Rightarrow> computation list \<Rightarrow> computation list" where
  "existingRestComputations sv address formulaName as startHeight endHeight stored =
     sort_key cmp_blockHeight
       (filter (\<lambda>c. computationWhere sv address formulaName as c \<and>
                    startHeight < cmp_blockHeight c \<and> cmp_blockHeight c \<le> endHeight) stored)"

text \<open>
  \<^verbatim>\<open>existingComputations.every((computation, i) => i === length - 1 ||
  BigInt(computation.latestBlockHeightValid) === BigInt(next.blockHeight) - 1n)\<close>
\<close>

definition isRangeCoveredBeforeEnd :: "computation list \<Rightarrow> bool" where
  "isRangeCoveredBeforeEnd existingComputations =
     list_all (\<lambda>i. i = length existingComputations - 1 \<or>
                   cmp_latestBlockHeightValid (existingComputations ! i) =
                     cmp_blockHeight (existingComputations ! (i + 1)) - 1)
       [0 ..< length existingComputations]"

text \<open>\<^verbatim>\<open>value: output && JSON.parse(output)\<close>; \<open>None\<close> where \<^verbatim>\<open>JSON.parse\<close> throws.\<close>

definition stored_item :: "'r services \<Rightarrow> computation \<Rightarrow> range_item option" where
  "stored_item sv c =
     (case cmp_output c of
        None \<Rightarrow> Some \<lparr>ri_value = Some JNull, ri_block = cmp_block c\<rparr>
      | Some s \<Rightarrow>
          if s = [] then Some \<lparr>ri_value = Some (JString []), ri_block = cmp_block c\<rparr>
          else (case sv_JSON_parse sv s of
                  None \<Rightarrow> None
                | Some j \<Rightarrow> Some \<lparr>ri_value = Some j, ri_block = cmp_block c\<rparr>))"

fun all_some :: "'a option list \<Rightarrow> 'a list option" where
  "all_some [] = Some []"
| "all_some (None # xs) = None"
| "all_some (Some x # xs) = map_option ((#) x) (all_some xs)"

datatype reuse = ReuseFormulaError string | ReuseException | ReuseNone | ReuseAll "range_item list"

definition reuse_of :: "'r services \<Rightarrow> computation list \<Rightarrow> reuse" where
  "reuse_of sv existingComputations =
     (case all_some (map (stored_item sv) existingComputations) of
        None \<Rightarrow> ReuseException
      | Some items \<Rightarrow> ReuseAll items)"

text \<open>
  The block of the source from \<^verbatim>\<open>Computation.findOne\<close> to \<^verbatim>\<open>existingUsed = true\<close>.
  The result is the reuse made, the Computation table and the calls.
\<close>

definition range_reuse ::
  "'r services \<Rightarrow> typed_formula \<Rightarrow> string \<Rightarrow> string \<Rightarrow> args \<Rightarrow> block \<times> block \<Rightarrow>
   computation list \<Rightarrow> reuse \<times> computation list \<times> call list" where
  "range_reuse sv typedFormula address formulaName as blocks stored =
     (let b0 = fst blocks; b1 = snd blocks;
          calls0 = [FindStartComputation (blk_height b0)]
      in case existingStartComputation sv address formulaName as (blk_height b0) stored of
           None \<Rightarrow> (ReuseNone, stored, calls0)
         | Some existingStart \<Rightarrow>
             (let existingComputations =
                    existingStart #
                    existingRestComputations sv address formulaName as
                      (blk_height b0) (blk_height b1) stored;
                  calls1 = calls0 @ [FindRestComputations (blk_height b0) (blk_height b1)]
              in if \<not> isRangeCoveredBeforeEnd existingComputations
                 then (ReuseNone, stored, calls1)
                 else
                   (let (entireRangeValid, stored1) =
                          sv_updateValidityUpToBlockHeight sv (last existingComputations)
                            (blk_height b1) stored;
                        calls2 = calls1 @
                          [UpdateValidity (last existingComputations) (blk_height b1)]
                    in if entireRangeValid
                       then (reuse_of sv existingComputations, stored1, calls2)
                       else
                         (let calls3 = calls2 @
                                [ComputeRange (cmp_block (last existingComputations)) b1]
                          in case sv_computeRange sv typedFormula address as
                                    (cmp_block (last existingComputations)) b1 of
                               Inl msg \<Rightarrow> (ReuseFormulaError msg, stored1, calls3)
                             | Inr computed \<Rightarrow>
                                 (let missingComputations = tl computed;
                                      (created, stored2) =
                                        sv_createFromComputationOutputs sv address
                                          typedFormula as missingComputations stored1;
                                      extended = existingComputations @ created;
                                      (valid, stored3) =
                                        sv_updateValidityUpToBlockHeight sv (last extended)
                                          (blk_height b1) stored2;
                                      calls4 = calls3 @
                                        [CreateFromComputationOutputs missingComputations,
                                         UpdateValidity (last extended) (blk_height b1)]
                                  in if valid then (reuse_of sv extended, stored3, calls4)
                                     else (ReuseNone, stored3, calls4))))))"

subsection \<open>Evaluation\<close>

definition output_item :: "computation_output \<Rightarrow> range_item" where
  "output_item out = \<lparr>ri_value = co_value out, ri_block = co_block out\<rparr>"

text \<open>
  The range branch, \<^verbatim>\<open>if (blocks && !accountKey?.isTest)\<close>: the end block is capped at the
  latest block, credit is spent, stored computations are looked at only when no step is
  defined, and the range is computed whole when they were not used.
\<close>

definition compute_ranged ::
  "'r services \<Rightarrow> state \<Rightarrow> account_key option \<Rightarrow> typed_formula \<Rightarrow> string \<Rightarrow> string \<Rightarrow> args \<Rightarrow>
   block \<times> block \<Rightarrow> (int \<times> int option) option \<Rightarrow> int option \<Rightarrow> int option \<Rightarrow>
   computation list \<Rightarrow> 'r response \<times> computation list \<times> call list" where
  "compute_ranged sv st accountKey typedFormula address formulaName as blocks0 timesRange
     blockStep timeStep stored =
     (let blocks = (if blk_height (snd blocks0) > blk_height (st_latestBlock st)
                    then (fst blocks0, st_latestBlock st) else blocks0);
          credits = sv_creditsForBlockInterval sv
                      (blk_height (snd blocks) - blk_height (fst blocks) + 1);
          calls0 = (case accountKey of None \<Rightarrow> [] | Some ak \<Rightarrow> [UseCredit credits])
      in if (case accountKey of None \<Rightarrow> False | Some ak \<Rightarrow> \<not> sv_useCredit sv ak credits)
         then (reply 402 ''insufficient credits'', stored, calls0)
         else
           (let (reused, stored1, calls1) =
                  (if blockStep = None \<and> timeStep = None
                   then range_reuse sv typedFormula address formulaName as blocks stored
                   else (ReuseNone, stored, []))
            in case reused of
                 ReuseFormulaError msg \<Rightarrow> (reply 400 msg, stored1, calls0 @ calls1)
               | ReuseException \<Rightarrow>
                   (\<lparr>rsp_status = 500, rsp_body = Exception\<rparr>, stored1, calls0 @ calls1)
               | ReuseAll items \<Rightarrow>
                   (\<lparr>rsp_status = 200,
                     rsp_body = Ranged (sv_processComputationRange sv items blockStep timeStep
                                          (Some blocks) timesRange)\<rparr>,
                    stored1, calls0 @ calls1)
               | ReuseNone \<Rightarrow>
                   (case sv_computeRange sv typedFormula address as (fst blocks) (snd blocks) of
                      Inl msg \<Rightarrow>
                        (reply 400 msg, stored1,
                         calls0 @ calls1 @ [ComputeRange (fst blocks) (snd blocks)])
                    | Inr computed \<Rightarrow>
                        (\<lparr>rsp_status = 200,
                          rsp_body = Ranged (sv_processComputationRange sv
                                               (map output_item computed) blockStep timeStep
                                               (Some blocks) timesRange)\<rparr>,
                         stored1,
                         calls0 @ calls1 @ [ComputeRange (fst blocks) (snd blocks)]))))"

text \<open>
  The single-block branch: the credit check and the evaluation are started together,
  nothing is stored, and a string result is encoded as JSON. The source sets the body and
  no status: for a body that is undefined or null koa answers 204, otherwise 200.
\<close>

definition compute_single ::
  "'r services \<Rightarrow> state \<Rightarrow> account_key option \<Rightarrow> typed_formula \<Rightarrow> string \<Rightarrow> args \<Rightarrow>
   block option \<Rightarrow> computation list \<Rightarrow> 'r response \<times> computation list \<times> call list" where
  "compute_single sv st accountKey typedFormula address as block stored =
     (let target = (case block of None \<Rightarrow> st_latestBlock st | Some b \<Rightarrow> b);
          calls = (case accountKey of None \<Rightarrow> [] | Some ak \<Rightarrow> [UseCredit 1]) @ [Compute target]
      in if (case accountKey of None \<Rightarrow> False | Some ak \<Rightarrow> \<not> sv_useCredit sv ak 1)
         then (reply 402 ''insufficient credits'', stored, calls)
         else
           (case sv_compute sv typedFormula address as target of
              Inl msg \<Rightarrow> (reply 400 msg, stored, calls)
            | Inr v \<Rightarrow>
                (\<lparr>rsp_status = (if v = None \<or> v = Some JNull then 204 else 200),
                  rsp_body = (case v of
                                Some (JString s) \<Rightarrow> Text (sv_JSON_stringify sv (JString s))
                              | _ \<Rightarrow> Single v)\<rparr>,
                 stored, calls)))"

text \<open>From the formula lookup to the response.\<close>

definition evaluate ::
  "'r services \<Rightarrow> state \<Rightarrow> admission \<Rightarrow> args \<Rightarrow> query \<Rightarrow> computation list \<Rightarrow>
   'r response \<times> computation list \<times> call list" where
  "evaluate sv st ad as q stored =
     (case sv_getTypedFormula sv (ad_type ad) (ad_formulaName ad) of
        FormulaNotFound \<Rightarrow> (reply 404 ''formula not found'', stored, [])
      | FormulaLookupFailed \<Rightarrow> (reply 500 ''internal server error'', stored, [])
      | FormulaFound typedFormula \<Rightarrow>
          (case check_target sv typedFormula (ad_address ad) (ad_formulaName ad) of
             Some r \<Rightarrow> (r, stored, [])
           | None \<Rightarrow>
               if f_dynamic (tfm_formula typedFormula) \<and>
                  (q_blocks q \<noteq> None \<or> q_times q \<noteq> None)
               then (reply 400 dynamic_over_range_message, stored, [])
               else
                 (let isTest = (case ad_accountKey ad of
                                  None \<Rightarrow> False | Some ak \<Rightarrow> ak_isTest ak);
                      block = resolve_time sv q;
                      (blocks, timesRange) = resolve_times sv st isTest q
                  in case blocks of
                       Some bs \<Rightarrow>
                         if \<not> isTest
                         then compute_ranged sv st (ad_accountKey ad) typedFormula
                                (ad_address ad) (ad_formulaName ad) as bs timesRange
                                (q_blockStep q) (q_timeStep q) stored
                         else compute_single sv st (ad_accountKey ad) typedFormula
                                (ad_address ad) as block stored
                     | None \<Rightarrow>
                         compute_single sv st (ad_accountKey ad) typedFormula
                           (ad_address ad) as block stored)))"

definition computer ::
  "'r services \<Rightarrow> server \<Rightarrow> computation list \<Rightarrow> request \<Rightarrow> 'r outcome" where
  "computer sv srv stored req =
     (case admit sv srv req of
        Inl (r, m) \<Rightarrow>
          \<lparr>out_response = r, out_computations = stored, out_calls = [],
           out_testRateLimit = m\<rparr>
      | Inr ad \<Rightarrow>
          (case validate_query sv req of
             Inl r \<Rightarrow>
               \<lparr>out_response = r, out_computations = stored, out_calls = [],
                out_testRateLimit = ad_testRateLimit ad\<rparr>
           | Inr q \<Rightarrow>
               (let (r, stored', calls) = evaluate sv (srv_state srv) ad (rq_args req) q stored
                in \<lparr>out_response = r, out_computations = stored', out_calls = calls,
                    out_testRateLimit = ad_testRateLimit ad\<rparr>)))"

subsection \<open>Example services\<close>

text \<open>
  Stand-ins for the parameters of the endpoint, for the concrete instances below: two
  block strings and a few integers parse, the formula \<open>now\<close> is dynamic and \<open>item\<close> is
  not, contract \<open>A\<close> exists, the block at time \<open>t\<close> has height \<open>t div 100\<close>, credit is
  always granted, a range evaluation yields a piece valid through height 24 and a piece at
  block 25 valid through the end, and a stored computation can be validated through a
  height only when it is already valid there.
\<close>

definition example_block :: "int \<Rightarrow> block" where
  "example_block h = \<lparr>blk_height = h, blk_timeUnixMs = 100 * h\<rparr>"

definition example_formula :: "formula_type \<Rightarrow> string \<Rightarrow> bool \<Rightarrow> typed_formula" where
  "example_formula t n d =
     \<lparr>tfm_type = t, tfm_name = n, tfm_formula = \<lparr>f_dynamic = d, f_filter = None\<rparr>\<rparr>"

definition example_computation :: "int \<Rightarrow> int \<Rightarrow> string \<Rightarrow> computation" where
  "example_computation h v out =
     \<lparr>cmp_targetAddress = ''A'', cmp_formula = ''item'', cmp_args = ''{}'',
      cmp_block = example_block h, cmp_output = Some out, cmp_latestBlockHeightValid = v\<rparr>"

definition example_services :: "(range_item list) services" where
  "example_services =
     \<lparr>sv_ignoreApiKey = True,
      sv_lookupAccountKey = (\<lambda>k. KeyUnknown),
      sv_now = 0,
      sv_validateBlockString =
        (\<lambda>s subject.
           if s = ''10:1000'' then Inr (example_block 10)
           else if s = ''30:3000'' then Inr (example_block 30)
           else Inl (subject @ '' must be a height:timeUnixMs pair'')),
      sv_BigInt =
        (\<lambda>s. if s = ''0'' then Some 0 else if s = ''5'' then Some 5
              else if s = ''1000'' then Some 1000 else if s = ''3000'' then Some 3000
              else None),
      sv_getTypedFormula =
        (\<lambda>t n. if n = ''now'' then FormulaFound (example_formula t n True)
                else if n = ''item'' then FormulaFound (example_formula t n False)
                else FormulaNotFound),
      sv_Contract_findByPk =
        (\<lambda>a. if a = ''A'' then Some \<lparr>ct_address = ''A'', ct_codeId = 42\<rparr> else None),
      sv_Validator_findByPk = (\<lambda>a. False),
      sv_findWasmCodeIdsByKeys = (\<lambda>ks. [42]),
      sv_Block_getForTime = (\<lambda>t. if 1000 \<le> t then Some (example_block (t div 100)) else None),
      sv_Block_getFirst = Some (example_block 1),
      sv_useCredit = (\<lambda>ak n. True),
      sv_creditsForBlockInterval = (\<lambda>n. n),
      sv_compute = (\<lambda>f a as b. Inr (Some (JNumber ''1''))),
      sv_computeRange =
        (\<lambda>f a as b0 b1.
           Inr [\<lparr>co_block = b0, co_value = Some (JNumber ''1''), co_latestBlockHeightValid = 24\<rparr>,
                \<lparr>co_block = example_block 25, co_value = Some (JNumber ''2''),
                 co_latestBlockHeightValid = blk_height b1\<rparr>]),
      sv_updateValidityUpToBlockHeight =
        (\<lambda>c h stored. (h \<le> cmp_latestBlockHeightValid c, stored)),
      sv_createFromComputationOutputs =
        (\<lambda>a f as outs stored.
           (map (\<lambda>out. \<lparr>cmp_targetAddress = a, cmp_formula = tfm_name f, cmp_args = ''{}'',
                         cmp_block = co_block out, cmp_output = Some ''2'',
                         cmp_latestBlockHeightValid = co_latestBlockHeightValid out\<rparr>) outs,
            stored @
            map (\<lambda>out. \<lparr>cmp_targetAddress = a, cmp_formula = tfm_name f, cmp_args = ''{}'',
                         cmp_block = co_block out, cmp_output = Some ''2'',
                         cmp_latestBlockHeightValid = co_latestBlockHeightValid out\<rparr>) outs)),
      sv_processComputationRange = (\<lambda>items blockStep timeStep blocks timesRange. items),
      sv_JSON_parse = example_parse,
      sv_JSON_stringify = (\<lambda>j. ''string''),
      sv_stringify_args = (\<lambda>as. ''{}'')\<rparr>"

definition example_server :: server where
  "example_server =
     \<lparr>srv_state = \<lparr>st_chainId = ''juno-1'', st_latestBlock = example_block 40\<rparr>,
      srv_testRateLimit = (\<lambda>ip. None)\<rparr>"

definition example_request :: "string \<Rightarrow> qparam \<Rightarrow> qparam \<Rightarrow> qparam \<Rightarrow> qparam \<Rightarrow> request" where
  "example_request formulaName blocks blockStep timesRange timeStep =
     \<lparr>rq_paths = [''contract'', ''A'', formulaName], rq_apiKeyHeader = QAbsent, rq_ip = ''ip'',
      rq_block = QAbsent, rq_blocks = blocks, rq_blockStep = blockStep, rq_time = QAbsent,
      rq_times = timesRange, rq_timeStep = timeStep, rq_args = []\<rparr>"

text \<open>As above, under a test key: the key is looked up and found to be a test key.\<close>

definition example_test_services :: "(range_item list) services" where
  "example_test_services =
     example_services\<lparr>sv_ignoreApiKey := False,
                       sv_lookupAccountKey := (\<lambda>k. KeyFound \<lparr>ak_id = 1, ak_isTest = True\<rparr>)\<rparr>"

text \<open>The calls that read or write the Computation table.\<close>

fun is_store_call :: "call \<Rightarrow> bool" where
  "is_store_call (FindStartComputation _) = True"
| "is_store_call (FindRestComputations _ _) = True"
| "is_store_call (UpdateValidity _ _) = True"
| "is_store_call (CreateFromComputationOutputs _) = True"
| "is_store_call _ = False"

text \<open>The end block of a range as the range branch caps it: at the latest block.\<close>

definition capped :: "state \<Rightarrow> block \<Rightarrow> block" where
  "capped st b = (if blk_height b > blk_height (st_latestBlock st) then st_latestBlock st else b)"

section \<open>Facts about the queries\<close>

lemma latest_None_iff: "latest h xs = None \<longleftrightarrow> xs = []"
  by (induction xs) (auto split: option.splits)

lemma latest_Some_max:
  "latest h xs = Some e \<Longrightarrow> e \<in> set xs \<and> (\<forall>r \<in> set xs. h r \<le> h e)"
proof (induction xs arbitrary: e)
  case Nil
  then show ?case by simp
next
  case (Cons x xs)
  show ?case
  proof (cases "latest h xs")
    case None
    then have "xs = []" by (simp add: latest_None_iff)
    with Cons.prems show ?thesis by simp
  next
    case (Some y)
    from Cons.IH [OF Some] have y: "y \<in> set xs" "\<forall>r \<in> set xs. h r \<le> h y" by simp_all
    show ?thesis
    proof (cases "h x < h y")
      case True
      with Some Cons.prems have "e = y" by simp
      with y True show ?thesis by auto
    next
      case False
      with Some Cons.prems have "e = x" by simp
      with y False show ?thesis by fastforce
    qed
  qed
qed

lemma push_fields [simp]:
  "cache_events (push_dependentKey d st) = cache_events st"
  "cache_contracts (push_dependentKey d st) = cache_contracts st"
  "reads (push_dependentKey d st) = reads st"
  by (simp_all add: push_dependentKey_def reads_def split: option.splits)

lemma read_db_fields [simp]:
  "cache_events (read_db t st) = cache_events st"
  "cache_contracts (read_db t st) = cache_contracts st"
  "dependentKeys (read_db t st) = dependentKeys st"
  "trace (read_db t st) = trace st @ [Read t]"
  "reads (read_db t st) = Suc (reads st)"
  by (simp_all add: read_db_def reads_def)

lemma call_onFetch_fields [simp]:
  "cache_events (call_onFetch env rows st) = cache_events st"
  "cache_contracts (call_onFetch env rows st) = cache_contracts st"
  "dependentKeys (call_onFetch env rows st) = dependentKeys st"
  "reads (call_onFetch env rows st) = reads st"
  by (simp_all add: call_onFetch_def reads_def)

lemma set_cache_event_fields [simp]:
  "cache_events (set_cache_event k v st) = (cache_events st)(k := Some v)"
  "cache_contracts (set_cache_event k v st) = cache_contracts st"
  "dependentKeys (set_cache_event k v st) = dependentKeys st"
  "trace (set_cache_event k v st) = trace st"
  "reads (set_cache_event k v st) = reads st"
  by (simp_all add: set_cache_event_def reads_def)

lemma get_result: "fst (get P K env a ks st) = get_value P (get_lookup K env a ks st)"
proof (cases "cache_events st (getDependentKey WasmStateEvent_ns [a, K ks])")
  case None
  then show ?thesis
    by (simp add: get_def Let_def get_lookup_def get_value_def split: option.splits)
next
  case (Some c)
  then show ?thesis
    by (simp add: get_def Let_def get_lookup_def get_value_def split: option.splits event.splits)
qed

lemma get_reads:
  "reads (snd (get P K env a ks st)) =
     (if cache_events st (getDependentKey WasmStateEvent_ns [a, K ks]) = None
      then Suc (reads st) else reads st)"
proof (cases "cache_events st (getDependentKey WasmStateEvent_ns [a, K ks])")
  case None
  then show ?thesis
    by (simp add: get_def Let_def split: option.splits)
next
  case (Some c)
  then show ?thesis
    by (simp add: get_def Let_def split: option.splits event.splits)
qed

lemma get_cache:
  "cache_events (snd (get P K env a ks st)) (getDependentKey WasmStateEvent_ns [a, K ks]) =
     (case cache_events st (getDependentKey WasmStateEvent_ns [a, K ks]) of
        Some c \<Rightarrow> Some c
      | None \<Rightarrow> Some (case WasmStateEvent_findOne (opt_db env) a (K ks) (blk_height (opt_block env)) of
                       None \<Rightarrow> None | Some e \<Rightarrow> Some [WasmStateEvent e]))"
proof (cases "cache_events st (getDependentKey WasmStateEvent_ns [a, K ks])")
  case None
  then show ?thesis
    by (simp add: get_def Let_def split: option.splits)
next
  case (Some c)
  then show ?thesis
    by (simp add: get_def Let_def split: option.splits event.splits)
qed

lemma get_twice:
  "fst (get P K env a ks (snd (get P K env a ks st))) = fst (get P K env a ks st) \<and>
   reads (snd (get P K env a ks (snd (get P K env a ks st)))) = reads (snd (get P K env a ks st))"
  by (simp add: get_result get_reads get_cache get_lookup_def split: option.splits)

lemma latest_in_set: "latest h xs = Some e \<Longrightarrow> e \<in> set xs"
  using latest_Some_max by fastforce

lemma map_filter_keys:
  "(\<And>y. y \<in> set ys \<Longrightarrow> \<exists>e. f y = Some e \<and> k e = y) \<Longrightarrow> map k (List.map_filter f ys) = ys"
proof (induction ys)
  case Nil
  show ?case by (simp add: map_filter_simps)
next
  case (Cons y ys)
  from Cons.prems [of y] obtain e where e: "f y = Some e" "k e = y" by auto
  have "map k (List.map_filter f ys) = ys"
    by (rule Cons.IH) (simp add: Cons.prems)
  with e show ?case by (simp add: map_filter_simps)
qed

lemma latest_filter_key:
  assumes "x \<in> set (map k rows)"
  shows "\<exists>e. latest h (filter (\<lambda>r. k r = x) rows) = Some e \<and> k e = x"
proof -
  from assms have "filter (\<lambda>r. k r = x) rows \<noteq> []"
    by (auto simp: filter_empty_conv)
  then obtain e where e: "latest h (filter (\<lambda>r. k r = x) rows) = Some e"
    using latest_None_iff [of h "filter (\<lambda>r. k r = x) rows"] by fastforce
  from latest_in_set [OF e] have "k e = x" by simp
  with e show ?thesis by simp
qed

lemma distinct_on_latest_keys:
  "map k (distinct_on_latest k h rows) = sort (remdups (map k rows))"
  unfolding distinct_on_latest_def
proof (rule map_filter_keys)
  fix y
  assume "y \<in> set (sort (remdups (map k rows)))"
  then have "y \<in> set (map k rows)" by simp
  then show "\<exists>e. latest h (filter (\<lambda>r. k r = y) rows) = Some e \<and> k e = y"
    by (rule latest_filter_key)
qed

lemma distinct_on_latest_distinct: "distinct (map k (distinct_on_latest k h rows))"
  by (simp add: distinct_on_latest_keys)


lemma map_filter_subset:
  "(\<And>y e. y \<in> set ys \<Longrightarrow> f y = Some e \<Longrightarrow> P e) \<Longrightarrow> e \<in> set (List.map_filter f ys) \<Longrightarrow> P e"
  by (induction ys) (auto simp: map_filter_simps split: option.splits)

lemma distinct_on_latest_member:
  assumes "e \<in> set (distinct_on_latest k h rows)"
  shows "e \<in> set rows \<and> latest h (filter (\<lambda>r. k r = k e) rows) = Some e"
proof -
  have "e \<in> set rows \<and> latest h (filter (\<lambda>r. k r = k e) rows) = Some e"
  proof (rule map_filter_subset [where f = "\<lambda>x. latest h (filter (\<lambda>r. k r = x) rows)"
        and ys = "sort (remdups (map k rows))"
        and P = "\<lambda>e. e \<in> set rows \<and> latest h (filter (\<lambda>r. k r = k e) rows) = Some e"])
    fix y e'
    assume "latest h (filter (\<lambda>r. k r = y) rows) = Some e'"
    moreover from this have "e' \<in> set (filter (\<lambda>r. k r = y) rows)" by (rule latest_in_set)
    ultimately show "e' \<in> set rows \<and> latest h (filter (\<lambda>r. k r = k e') rows) = Some e'"
      by simp
  next
    show "e \<in> set (List.map_filter (\<lambda>x. latest h (filter (\<lambda>r. k r = x) rows))
                     (sort (remdups (map k rows))))"
      using assms by (simp add: distinct_on_latest_def)
  qed
  then show ?thesis .
qed

lemma find_distinct_key:
  "distinct (map k es) \<Longrightarrow> e \<in> set es \<Longrightarrow> find (\<lambda>x. k x = k e) es = Some e"
proof (induction es)
  case Nil
  then show ?case by simp
next
  case (Cons a es)
  show ?case
  proof (cases "a = e")
    case True
    then show ?thesis by simp
  next
    case False
    with Cons.prems have "e \<in> set es" "k a \<notin> k ` set es" by auto
    then have "k a \<noteq> k e" by blast
    moreover have "find (\<lambda>x. k x = k e) es = Some e"
      using Cons.IH Cons.prems(1) \<open>e \<in> set es\<close> by simp
    ultimately show ?thesis by simp
  qed
qed

lemma find_key_None: "x \<notin> set (map k es) \<Longrightarrow> find (\<lambda>e. k e = x) es = None"
  by (induction es) auto

lemma distinct_on_latest_find:
  "find (\<lambda>e. k e = x) (distinct_on_latest k h rows) = latest h (filter (\<lambda>r. k r = x) rows)"
proof (cases "x \<in> set (map k rows)")
  case True
  from latest_filter_key [OF True, of h]
  obtain e where e: "latest h (filter (\<lambda>r. k r = x) rows) = Some e" "k e = x"
    by blast
  have "x \<in> set (map k (distinct_on_latest k h rows))"
    using True by (simp add: distinct_on_latest_keys)
  then obtain e' where e': "e' \<in> set (distinct_on_latest k h rows)" "k e' = x" by auto
  from distinct_on_latest_member [OF e'(1)] e'(2) e have "e' = e" by simp
  with e' have "find (\<lambda>y. k y = k e) (distinct_on_latest k h rows) = Some e"
    using find_distinct_key [OF distinct_on_latest_distinct, of e k h rows] by simp
  with e show ?thesis by simp
next
  case False
  then have "filter (\<lambda>r. k r = x) rows = []" by (auto simp: filter_empty_conv)
  moreover from False have "x \<notin> set (map k (distinct_on_latest k h rows))"
    by (simp add: distinct_on_latest_keys)
  ultimately show ?thesis by (simp add: find_key_None)
qed

lemma getDependentKey_inj [simp]:
  "getDependentKey ns [a, k] = getDependentKey ns [a, k'] \<longleftrightarrow> k = k'"
  by (simp add: getDependentKey_def)

lemma fold_push_fields [simp]:
  "cache_events (fold (\<lambda>key. push_dependentKey (f key)) ks st) = cache_events st"
  "cache_contracts (fold (\<lambda>key. push_dependentKey (f key)) ks st) = cache_contracts st"
  "reads (fold (\<lambda>key. push_dependentKey (f key)) ks st) = reads st"
  by (induction ks arbitrary: st) simp_all

lemma zip_filter_map:
  "map fst (filter (\<lambda>(key, k). P k) (zip (map f L) L)) = map f (filter P L)"
  by (induction L) simp_all

lemma cache_nonMapKey_fields [simp]:
  "cache_events (cache_nonMapKey a evs key st) =
     (cache_events st)(getDependentKey WasmStateEvent_ns [a, key] := Some (prefetch_entry evs key))"
  "reads (cache_nonMapKey a evs key st) = reads st"
  by (simp_all add: cache_nonMapKey_def prefetch_entry_def)

lemma fold_cache_nonMapKey:
  "cache_events (fold (cache_nonMapKey a evs) ks st) (getDependentKey WasmStateEvent_ns [a, k]) =
     (if k \<in> set ks then Some (prefetch_entry evs k)
      else cache_events st (getDependentKey WasmStateEvent_ns [a, k]))"
  by (induction ks arbitrary: st) auto

lemma fold_cache_nonMapKey_reads [simp]:
  "reads (fold (cache_nonMapKey a evs) ks st) = reads st"
  by (induction ks arbitrary: st) simp_all

lemma fold_entries:
  assumes "\<And>e. e \<in> set es \<Longrightarrow> wse_key e = k \<Longrightarrow> cache_entry_of e = v"
  shows "cache_events
           (fold (\<lambda>e. set_cache_event (getDependentKey WasmStateEvent_ns [a, wse_key e])
                         (cache_entry_of e)) es st)
           (getDependentKey WasmStateEvent_ns [a, k]) =
         (if k \<in> wse_key ` set es then Some v
          else cache_events st (getDependentKey WasmStateEvent_ns [a, k]))"
  using assms
proof (induction es arbitrary: st)
  case Nil
  show ?case by simp
next
  case (Cons e es)
  have IH: "cache_events
           (fold (\<lambda>e. set_cache_event (getDependentKey WasmStateEvent_ns [a, wse_key e])
                         (cache_entry_of e)) es
              (set_cache_event (getDependentKey WasmStateEvent_ns [a, wse_key e])
                 (cache_entry_of e) st))
           (getDependentKey WasmStateEvent_ns [a, k]) =
         (if k \<in> wse_key ` set es then Some v
          else cache_events (set_cache_event (getDependentKey WasmStateEvent_ns [a, wse_key e])
                 (cache_entry_of e) st) (getDependentKey WasmStateEvent_ns [a, k]))"
    by (rule Cons.IH) (simp add: Cons.prems)
  show ?case
  proof (cases "wse_key e = k")
    case True
    then have "cache_entry_of e = v" using Cons.prems [of e] by simp
    with True IH show ?thesis by simp
  next
    case False
    with IH show ?thesis by auto
  qed
qed

lemma fold_entries_reads [simp]:
  "reads (fold (\<lambda>e. set_cache_event (f e) (g e)) es st) = reads st"
  by (induction es arbitrary: st) simp_all

lemma cache_mapKeyPrefix_reads [simp]:
  "reads (cache_mapKeyPrefix a evs p st) = reads st"
  by (simp add: cache_mapKeyPrefix_def Let_def)

lemma fold_cache_mapKeyPrefix_reads [simp]:
  "reads (fold (cache_mapKeyPrefix a evs) ps st) = reads st"
  by (induction ps arbitrary: st) simp_all

lemma cache_mapKeyPrefix_at:
  assumes "\<And>e. e \<in> set evs \<Longrightarrow> wse_key e = k \<Longrightarrow> cache_entry_of e = v"
    and "k \<noteq> p"
  shows "cache_events (cache_mapKeyPrefix a evs p st) (getDependentKey WasmStateEvent_ns [a, k]) =
         (if prefix p k \<and> k \<in> wse_key ` set evs then Some v
          else cache_events st (getDependentKey WasmStateEvent_ns [a, k]))"
proof -
  let ?es = "filter (\<lambda>e. prefix p (wse_key e)) evs"
  have "\<And>e. e \<in> set ?es \<Longrightarrow> wse_key e = k \<Longrightarrow> cache_entry_of e = v"
    using assms(1) by simp
  from fold_entries [where es = ?es and k = k and v = v and a = a
      and st = "set_cache_event (getDependentKey WasmStateEvent_ns [a, p])
                 (if ?es = [] then None else Some (map WasmStateEvent ?es)) st", OF this]
  have "cache_events (cache_mapKeyPrefix a evs p st) (getDependentKey WasmStateEvent_ns [a, k]) =
        (if k \<in> wse_key ` set ?es then Some v
         else cache_events (set_cache_event (getDependentKey WasmStateEvent_ns [a, p])
                 (if ?es = [] then None else Some (map WasmStateEvent ?es)) st)
               (getDependentKey WasmStateEvent_ns [a, k]))"
    by (simp add: cache_mapKeyPrefix_def Let_def)
  moreover have "k \<in> wse_key ` set ?es \<longleftrightarrow> prefix p k \<and> k \<in> wse_key ` set evs"
    by auto
  ultimately show ?thesis using assms(2) by simp
qed

lemma fold_cache_mapKeyPrefix:
  assumes "\<And>e. e \<in> set evs \<Longrightarrow> wse_key e = k \<Longrightarrow> cache_entry_of e = v"
    and "k \<notin> set ps"
  shows "cache_events (fold (cache_mapKeyPrefix a evs) ps st)
           (getDependentKey WasmStateEvent_ns [a, k]) =
         (if (\<exists>p \<in> set ps. prefix p k) \<and> k \<in> wse_key ` set evs then Some v
          else cache_events st (getDependentKey WasmStateEvent_ns [a, k]))"
  using assms(2)
proof (induction ps arbitrary: st)
  case Nil
  show ?case by simp
next
  case (Cons p ps)
  then have kp: "k \<noteq> p" and kps: "k \<notin> set ps" by auto
  note step = cache_mapKeyPrefix_at [where a = a and st = st, OF assms(1) kp]
  show ?case
    using Cons.IH [OF kps, of "cache_mapKeyPrefix a evs p st"] step by auto
qed

lemma prefetch_keyFilter_Some:
  "nm \<noteq> [] \<or> mp \<noteq> [] \<Longrightarrow>
     prefetch_keyFilter nm mp = Some (\<lambda>k. k \<in> set nm \<or> list_ex (\<lambda>p. strict_prefix p k) mp)"
  by (auto simp: prefetch_keyFilter_def fun_eq_iff)

lemma prefetch_keyFilter_None:
  "prefetch_keyFilter nm mp = None \<longleftrightarrow> nm = [] \<and> mp = []"
  by (auto simp: prefetch_keyFilter_def)

lemma prefetch_keys_Nil:
  "prefetch_nonMapKeys K L = [] \<and> prefetch_mapKeyPrefixes K L = [] \<longleftrightarrow> L = []"
proof (cases L)
  case Nil
  then show ?thesis by (simp add: prefetch_nonMapKeys_def prefetch_mapKeyPrefixes_def)
next
  case (Cons pk L')
  have "is_nonMapKey pk \<or> is_mapKeyPrefix pk"
    by (cases pk rule: is_nonMapKey.cases) simp_all
  with Cons show ?thesis
    by (auto simp: prefetch_nonMapKeys_def prefetch_mapKeyPrefixes_def)
qed

lemma prefetch_filter_of:
  assumes "L \<noteq> []"
  shows "prefetch_keyFilter (prefetch_nonMapKeys K L) (prefetch_mapKeyPrefixes K L) =
           Some (\<lambda>k. k \<in> set (prefetch_nonMapKeys K L) \<or>
                      list_ex (\<lambda>p. strict_prefix p k) (prefetch_mapKeyPrefixes K L))"
  using assms prefetch_keys_Nil [of K L] by (intro prefetch_keyFilter_Some) blast

lemma prefetch_unfold:
  assumes "L \<noteq> []"
  shows "prefetch K env a L st =
     (Inr (),
      fold (cache_mapKeyPrefix a (prefetch_events K env a L)) (prefetch_mapKeyPrefixes K L)
        (fold (cache_nonMapKey a (prefetch_events K env a L)) (prefetch_nonMapKeys K L)
           (call_onFetch env (map WasmStateEvent (prefetch_events K env a L))
              (read_db TWasmStateEvent
                 (fold (\<lambda>key. push_dependentKey
                          \<lparr>dk_key = getDependentKey WasmStateEvent_ns [a, key],
                           dk_prefix = ends_with CHR '','' key\<rparr>)
                    (map (prefetch_dbKey K) L) st)))))"
  using prefetch_filter_of [OF assms, of K]
  by (simp add: prefetch_def Let_def prefetch_events_def prefetch_nonMapKeys_def
      prefetch_mapKeyPrefixes_def zip_filter_map)

lemma prefetch_empty:
  "prefetch K env a [] st = (Inl QueryError, st)"
  by (simp add: prefetch_def prefetch_keyFilter_def)

lemma prefetch_reads: "L \<noteq> [] \<Longrightarrow> reads (snd (prefetch K env a L st)) = Suc (reads st)"
  by (simp add: prefetch_unfold)

lemma prefetch_events_entry:
  assumes "e \<in> set (prefetch_events K env a L)"
  shows "cache_entry_of e = prefetch_entry (prefetch_events K env a L) (wse_key e)"
proof -
  have "distinct (map wse_key (prefetch_events K env a L))"
    by (simp add: prefetch_events_def distinct_on_latest_distinct split: option.splits)
  from find_distinct_key [OF this assms] show ?thesis
    by (simp add: prefetch_entry_def)
qed

lemma prefetch_cache:
  assumes "k \<notin> set (prefetch_mapKeyPrefixes K L)" and "L \<noteq> []"
  shows "cache_events (snd (prefetch K env a L st)) (getDependentKey WasmStateEvent_ns [a, k]) =
         (if (\<exists>p \<in> set (prefetch_mapKeyPrefixes K L). prefix p k) \<and>
             k \<in> wse_key ` set (prefetch_events K env a L)
          then Some (prefetch_entry (prefetch_events K env a L) k)
          else if k \<in> set (prefetch_nonMapKeys K L)
          then Some (prefetch_entry (prefetch_events K env a L) k)
          else cache_events st (getDependentKey WasmStateEvent_ns [a, k]))"
proof -
  have ent: "\<And>e. e \<in> set (prefetch_events K env a L) \<Longrightarrow> wse_key e = k \<Longrightarrow>
               cache_entry_of e = prefetch_entry (prefetch_events K env a L) k"
    using prefetch_events_entry by blast
  show ?thesis
    unfolding prefetch_unfold [OF assms(2)] snd_conv
    by (simp only: fold_cache_mapKeyPrefix [where evs = "prefetch_events K env a L" and k = k
          and v = "prefetch_entry (prefetch_events K env a L) k", OF ent assms(1)]
        fold_cache_nonMapKey call_onFetch_fields read_db_fields fold_push_fields)
qed

lemma prefetch_rows_key:
  "filter (\<lambda>r. wse_key r = k) (prefetch_rows db a f h) =
     (if f k then wasm_point_rows db a k h else [])"
  by (auto simp: prefetch_rows_def wasm_point_rows_def filter_empty_conv intro: filter_cong)

lemma prefetch_entry_findOne:
  assumes "prefetch_keyFilter (prefetch_nonMapKeys K L) (prefetch_mapKeyPrefixes K L) = Some f"
    and "f k"
  shows "find (\<lambda>e. wse_key e = k) (prefetch_events K env a L) =
           WasmStateEvent_findOne (opt_db env) a k (blk_height (opt_block env))"
  using assms
  by (simp add: prefetch_events_def distinct_on_latest_find prefetch_rows_key
      WasmStateEvent_findOne_def)

lemma get_memoised:
  assumes "cache_events st (getDependentKey WasmStateEvent_ns [a, K ks]) =
             Some (case WasmStateEvent_findOne (opt_db env) a (K ks) (blk_height (opt_block env)) of
                     None \<Rightarrow> None | Some e \<Rightarrow> cache_entry_of e)"
  shows "fst (get P K env a ks st) =
           get_value P (map_option WasmStateEvent
             (WasmStateEvent_findOne (opt_db env) a (K ks) (blk_height (opt_block env)))) \<and>
         reads (snd (get P K env a ks st)) = reads st"
  using assms
  by (simp add: get_result get_reads get_lookup_def get_value_def cache_entry_of_def
      split: option.splits)

lemmas example_defs = example_db_def example_row_def env_at_def initial_state_def
  example_parse_def example_transformation_def example_tx_def

lemmas getter_defs = get_def Let_def WasmStateEvent_findOne_def wasm_point_rows_def
  push_dependentKey_def read_db_def call_onFetch_def set_cache_event_def parse_value_def
  reads_def getDependentKey_def

lemma ev1: "prefetch_events example_dbKeyForKeys (env_at example_db 27) ''A'' [PKeys [KString ''m''] True]
   = [example_row ''m,x'' 12 (Some ''7'') False, example_row ''m,y'' 18 None True]"
  by (simp add: prefetch_events_def prefetch_rows_def prefetch_keyFilter_def distinct_on_latest_def
    prefetch_nonMapKeys_def prefetch_mapKeyPrefixes_def example_defs map_filter_simps Let_def)


lemma get_fresh:
  "fst (get P K env a ks (st\<lparr>cache_events := \<lambda>_. None\<rparr>)) =
     get_value P (map_option WasmStateEvent
       (WasmStateEvent_findOne (opt_db env) a (K ks) (blk_height (opt_block env))))"
  by (simp add: get_result get_lookup_def)

text \<open>The keys that the filter of a call of \<^verbatim>\<open>prefetch\<close> lets through.\<close>

lemma prefetch_fetched:
  assumes "L \<noteq> []"
    and "k \<in> set (prefetch_nonMapKeys K L) \<or>
         (\<exists>p \<in> set (prefetch_mapKeyPrefixes K L). strict_prefix p k)"
  shows "find (\<lambda>e. wse_key e = k) (prefetch_events K env a L) =
           WasmStateEvent_findOne (opt_db env) a k (blk_height (opt_block env))"
  using assms(2)
  by (intro prefetch_entry_findOne [OF prefetch_filter_of [OF assms(1)]])
    (auto simp: list_ex_iff)

lemma prefetch_then_get:
  assumes ne: "L \<noteq> []"
    and filt: "K ks \<in> set (prefetch_nonMapKeys K L) \<or>
               (\<exists>p \<in> set (prefetch_mapKeyPrefixes K L). strict_prefix p (K ks))"
    and hit: "K ks \<in> set (prefetch_nonMapKeys K L) \<or>
              ((\<exists>p \<in> set (prefetch_mapKeyPrefixes K L). prefix p (K ks)) \<and>
               K ks \<in> wse_key ` set (prefetch_events K env a L))"
    and nopre: "K ks \<notin> set (prefetch_mapKeyPrefixes K L)"
  shows "fst (get P K env a ks (snd (prefetch K env a L st))) =
           fst (get P K env a ks (st\<lparr>cache_events := \<lambda>_. None\<rparr>)) \<and>
         reads (snd (get P K env a ks (snd (prefetch K env a L st)))) =
           reads (snd (prefetch K env a L st))"
proof -
  have "cache_events (snd (prefetch K env a L st)) (getDependentKey WasmStateEvent_ns [a, K ks]) =
          Some (prefetch_entry (prefetch_events K env a L) (K ks))"
    using hit by (simp only: prefetch_cache [OF nopre ne]) auto
  then have "cache_events (snd (prefetch K env a L st))
               (getDependentKey WasmStateEvent_ns [a, K ks]) =
          Some (case WasmStateEvent_findOne (opt_db env) a (K ks) (blk_height (opt_block env)) of
                  None \<Rightarrow> None | Some e \<Rightarrow> cache_entry_of e)"
    by (simp add: prefetch_entry_def prefetch_fetched [OF ne filt])
  from get_memoised [where K = K and ks = ks and P = P, OF this] show ?thesis
    by (simp add: get_fresh)
qed

lemma prefetch_events_has_key:
  assumes "L \<noteq> []"
    and "k \<in> set (prefetch_nonMapKeys K L) \<or>
         (\<exists>p \<in> set (prefetch_mapKeyPrefixes K L). strict_prefix p k)"
  shows "k \<in> wse_key ` set (prefetch_events K env a L) \<longleftrightarrow>
         wasm_point_rows (opt_db env) a k (blk_height (opt_block env)) \<noteq> []"
proof -
  have "k \<in> wse_key ` set (prefetch_events K env a L) \<longleftrightarrow>
        find (\<lambda>e. wse_key e = k) (prefetch_events K env a L) \<noteq> None"
    by (auto simp: find_None_iff)
  also have "\<dots> \<longleftrightarrow> wasm_point_rows (opt_db env) a k (blk_height (opt_block env)) \<noteq> []"
    by (simp add: prefetch_fetched [OF assms] WasmStateEvent_findOne_def latest_None_iff)
  finally show ?thesis .
qed

lemma mapKeyPrefix_member:
  "PKeys ns True \<in> set L \<Longrightarrow>
     prefetch_dbKey K (PKeys ns True) \<in> set (prefetch_mapKeyPrefixes K L)"
  unfolding prefetch_mapKeyPrefixes_def set_map by (rule imageI) simp

lemma nonMapKey_member:
  "pk \<in> set L \<Longrightarrow> is_nonMapKey pk \<Longrightarrow>
     prefetch_dbKey K pk \<in> set (prefetch_nonMapKeys K L)"
  unfolding prefetch_nonMapKeys_def set_map by (rule imageI) simp

lemma not_wasm_map [simp]: "list_ex (\<lambda>e. \<not> is_WasmStateEvent e) (map WasmStateEvent xs) = False"
  by (induction xs) simp_all

lemma the_wasm_map [simp]: "List.map_filter the_WasmStateEvent (map WasmStateEvent xs) = xs"
  by (induction xs) (simp_all add: map_filter_simps)


lemma reads_of_fields [simp]:
  "reads_of t (push_dependentKey d st) = reads_of t st"
  "reads_of t (read_db t' st) = (if t' = t then Suc (reads_of t st) else reads_of t st)"
  "reads_of t (call_onFetch env rows st) = reads_of t st"
  "reads_of t (set_cache_event k v st) = reads_of t st"
  by (auto simp: reads_of_def push_dependentKey_def read_db_def call_onFetch_def
      set_cache_event_def split: option.splits)

lemma reads_of_cache_contracts [simp]:
  "reads_of t (st\<lparr>cache_contracts := c\<rparr>) = reads_of t st"
  by (simp add: reads_of_def)

lemma cache_events_cache_contracts [simp]:
  "cache_events (st\<lparr>cache_contracts := c\<rparr>) = cache_events st"
  by simp

lemma contractMatches_result:
  assumes "cache_contracts st a = None \<or> cache_contracts st a = Some (Contract_findOne (opt_db env) a)"
    and "keys \<noteq> []"
  shows "fst (contractMatchesCodeIdKeys F env a keys st) \<longleftrightarrow>
           (\<exists>c. Contract_findOne (opt_db env) a = Some c \<and> ct_codeId c \<in> set (F keys))"
  using assms
  by (auto simp: contractMatchesCodeIdKeys_def getContract_def Let_def split: option.splits)

lemma contractMatches_state:
  "cache_events (snd (contractMatchesCodeIdKeys F env a keys st)) = cache_events st"
  "reads_of TBankStateEvent (snd (contractMatchesCodeIdKeys F env a keys st)) =
     reads_of TBankStateEvent st"
  "dependentKeys (snd (contractMatchesCodeIdKeys F env a keys st)) = dependentKeys st"
  by (auto simp: contractMatchesCodeIdKeys_def getContract_def Let_def split: option.splits)

lemma bank_keys_differ [simp]:
  "getDependentKey BankStateEvent_ns [a, d] \<noteq> getDependentKey BankBalance_ns [a']"
  by (simp add: getDependentKey_def BankStateEvent_ns_def BankBalance_ns_def)

lemma history_no_match:
  assumes "\<not> fst (contractMatchesCodeIdKeys F env a BK st)"
  shows "fst (getBalance_history F BK env a denom st) = Inr None \<and>
         reads_of TBankStateEvent (snd (getBalance_history F BK env a denom st)) =
           reads_of TBankStateEvent st \<and>
         dependentKeys (snd (getBalance_history F BK env a denom st)) = dependentKeys st"
  using assms contractMatches_state [of F env a BK st]
  by (simp add: getBalance_history_def Let_def split_def)

lemma history_match_fresh:
  assumes "fst (contractMatchesCodeIdKeys F env a BK st)"
    and "cache_events st (getDependentKey BankStateEvent_ns [a, denom]) = None"
  shows "fst (getBalance_history F BK env a denom st) =
           Inr (map_option bse_balance
                  (BankStateEvent_findOne (opt_db env) a denom (blk_height (opt_block env)))) \<and>
         reads_of TBankStateEvent (snd (getBalance_history F BK env a denom st)) =
           Suc (reads_of TBankStateEvent st)"
  using assms contractMatches_state [of F env a BK st]
  by (simp add: getBalance_history_def Let_def split_def split: option.splits)

lemma getBalance_fresh:
  assumes "cache_events st (getDependentKey BankBalance_ns [a]) = None"
  shows "getBalance F BK env a denom st =
           (case BankBalance_findOne (opt_db env) a (blk_height (opt_block env)) of
              Some b \<Rightarrow>
                (Inr (map_of (bb_balances b) denom),
                 call_onFetch env [BankBalance b]
                   (set_cache_event (getDependentKey BankBalance_ns [a]) (Some [BankBalance b])
                      (read_db TBankBalance st)))
            | None \<Rightarrow>
                getBalance_history F BK env a denom
                  (set_cache_event (getDependentKey BankBalance_ns [a]) None
                     (read_db TBankBalance st)))"
  using assms by (simp add: getBalance_def Let_def split: option.splits)


lemma trace_call_onFetch [simp]:
  "trace (call_onFetch env rows st) = trace st @ hook_actions env rows"
  by (simp add: call_onFetch_def hook_actions_def)

lemma new_actions_append [simp]: "trace st' = trace st @ xs \<Longrightarrow> new_actions st st' = xs"
  by (simp add: new_actions_def)





lemma contractMatches_trace:
  "trace (snd (contractMatchesCodeIdKeys F env a keys st)) =
     trace st @ (if cache_contracts st a = None then [Read TContract] else [])"
  by (auto simp: contractMatchesCodeIdKeys_def getContract_def Let_def split: option.splits)






lemmas balance_defs = getBalance_def getBalance_history_def contractMatchesCodeIdKeys_def
  getContract_def Contract_findOne_def BankBalance_findOne_def BankStateEvent_findOne_def
  bank_point_rows_def


lemma reply_status [simp]: "rsp_status (reply c m) = c"
  by (simp add: reply_def)

lemma validate_step_400: "validate_step sv p msg = Inl r \<Longrightarrow> rsp_status r = 400"
  by (auto simp: validate_step_def split: option.splits if_splits)

lemma validate_block_400: "validate_block sv req = Inl r \<Longrightarrow> rsp_status r = 400"
  by (auto simp: validate_block_def split: option.splits sum.splits)

lemma validate_blocks_400: "validate_blocks sv req = Inl r \<Longrightarrow> rsp_status r = 400"
  by (auto simp: validate_blocks_def split: option.splits sum.splits if_splits
      dest: validate_step_400)

lemma validate_time_400: "validate_time sv req = Inl r \<Longrightarrow> rsp_status r = 400"
  by (auto simp: validate_time_def split: option.splits if_splits)

lemma validate_times_400: "validate_times sv req = Inl r \<Longrightarrow> rsp_status r = 400"
  by (auto simp: validate_times_def split: option.splits sum.splits if_splits
      dest: validate_step_400)

lemma validate_query_400: "validate_query sv req = Inl r \<Longrightarrow> rsp_status r = 400"
  by (auto simp: validate_query_def split: sum.splits prod.splits
      dest: validate_block_400 validate_blocks_400 validate_time_400 validate_times_400)

lemma validate_query_blocks_Inl:
  "validate_blocks sv req = Inl r \<Longrightarrow> \<exists>r'. validate_query sv req = Inl r'"
  by (simp add: validate_query_def split: sum.splits)

lemma validate_query_times_Inl:
  "validate_times sv req = Inl r \<Longrightarrow> \<exists>r'. validate_query sv req = Inl r'"
  by (simp add: validate_query_def split: sum.splits prod.splits)

lemma computer_rejects:
  "admit sv srv req = Inr ad \<Longrightarrow> validate_query sv req = Inl r \<Longrightarrow>
     computer sv srv stored req =
       \<lparr>out_response = r, out_computations = stored, out_calls = [],
        out_testRateLimit = ad_testRateLimit ad\<rparr>"
  by (simp add: computer_def)

lemma bad_step:
  "supplied p = Some s \<Longrightarrow> (\<forall>n. sv_BigInt sv s = Some n \<longrightarrow> n < 1) \<Longrightarrow>
     \<exists>r. validate_step sv p msg = Inl r"
  by (auto simp: validate_step_def split: option.splits)

lemma blocks_bad_step:
  assumes "supplied (rq_blocks req) \<noteq> None" "supplied (rq_blockStep req) = Some s"
    "\<forall>n. sv_BigInt sv s = Some n \<longrightarrow> n < 1"
  shows "\<exists>r. validate_blocks sv req = Inl r"
  using assms bad_step [OF assms(2,3), of "''block step must be a positive integer''"]
  by (auto simp: validate_blocks_def split: option.splits sum.splits)

lemma times_bad_step:
  assumes "supplied (rq_times req) \<noteq> None" "supplied (rq_timeStep req) = Some s"
    "\<forall>n. sv_BigInt sv s = Some n \<longrightarrow> n < 1"
  shows "\<exists>r. validate_times sv req = Inl r"
  using assms bad_step [OF assms(2,3), of "''time step must be a positive integer''"]
  by (auto simp: validate_times_def split: option.splits sum.splits)

lemma blocks_bad_order:
  assumes "supplied (rq_blocks req) = Some s"
    "truthy_at (split_dots [] s) 0 = Some a" "truthy_at (split_dots [] s) 1 = Some b"
    "sv_validateBlockString sv a ''the start block'' = Inr b0"
    "sv_validateBlockString sv b ''the end block'' = Inr b1"
    "blk_height b1 \<le> blk_height b0"
  shows "\<exists>r. validate_blocks sv req = Inl r"
  using assms by (simp add: validate_blocks_def)

lemma times_bad_order:
  assumes "supplied (rq_times req) = Some s"
    "truthy_at (split_dots [] s) 0 = Some a" "truthy_at (split_dots [] s) 1 = Some b"
    "sv_BigInt sv a = Some t0" "sv_BigInt sv b = Some t1" "t1 \<le> t0"
  shows "\<exists>r. validate_times sv req = Inl r"
  using assms by (simp add: validate_times_def)

lemmas endpoint_defs = computer_def admit_def parse_route_def authenticate_def
  typeIsFormulaTypeOrWallet_def FormulaTypeValues_def formula_type_of_def
  validate_query_def validate_block_def validate_blocks_def validate_time_def
  validate_times_def validate_step_def truthy_at_def evaluate_def check_target_def
  resolve_time_def resolve_times_def compute_ranged_def compute_single_def range_reuse_def
  existingStartComputation_def existingRestComputations_def computationWhere_def
  cmp_blockHeight_def isRangeCoveredBeforeEnd_def reuse_of_def stored_item_def
  output_item_def reply_def Let_def

lemmas example_endpoint_defs = example_services_def example_server_def example_request_def
  example_block_def example_formula_def example_computation_def example_parse_def

lemma example_admit:
  "admit example_services example_server (example_request n bs bstep ts tstep) =
     Inr \<lparr>ad_accountKey = None, ad_type = FormulaContract, ad_address = ''A'',
          ad_formulaName = n, ad_testRateLimit = (\<lambda>ip. None)\<rparr> \<or> n = []"
  by (simp add: admit_def parse_route_def authenticate_def typeIsFormulaTypeOrWallet_def
      FormulaTypeValues_def formula_type_of_def example_endpoint_defs Let_def)

lemma validate_step_supplied:
  "validate_step sv p msg = Inr step \<Longrightarrow> (step = None \<longleftrightarrow> supplied p = None)"
proof (cases "supplied p")
  case None
  assume "validate_step sv p msg = Inr step"
  with None show ?thesis by (simp add: validate_step_def)
next
  case (Some s)
  assume v: "validate_step sv p msg = Inr step"
  show ?thesis
  proof (cases "sv_BigInt sv s")
    case None
    with v Some show ?thesis by (simp add: validate_step_def)
  next
    case (Some n)
    have "validate_step sv p msg = (if n < 1 then Inl (reply 400 msg) else Inr (Some n))"
      by (simp add: validate_step_def Some \<open>supplied p = Some s\<close>)
    with v have "step = Some n" by (cases "n < 1") simp_all
    with \<open>supplied p = Some s\<close> show ?thesis by simp
  qed
qed

lemma validate_blocks_supplied:
  "validate_blocks sv req = Inr (bs, step) \<Longrightarrow>
     (bs = None \<longleftrightarrow> supplied (rq_blocks req) = None) \<and>
     (step = None \<longleftrightarrow> supplied (rq_blocks req) = None \<or> supplied (rq_blockStep req) = None)"
  by (auto simp: validate_blocks_def split: option.splits sum.splits if_splits
      dest: validate_step_supplied)

lemma validate_times_supplied:
  "validate_times sv req = Inr (ts, step) \<Longrightarrow>
     (ts = None \<longleftrightarrow> supplied (rq_times req) = None) \<and>
     (step = None \<longleftrightarrow> supplied (rq_times req) = None \<or> supplied (rq_timeStep req) = None)"
  by (auto simp: validate_times_def split: option.splits sum.splits if_splits
      dest: validate_step_supplied)

lemma validate_query_supplied:
  assumes "validate_query sv req = Inr q"
  shows "(q_blocks q = None \<longleftrightarrow> supplied (rq_blocks req) = None)"
    "(q_times q = None \<longleftrightarrow> supplied (rq_times req) = None)"
    "(q_blockStep q = None \<longleftrightarrow>
        supplied (rq_blocks req) = None \<or> supplied (rq_blockStep req) = None)"
    "(q_timeStep q = None \<longleftrightarrow>
        supplied (rq_times req) = None \<or> supplied (rq_timeStep req) = None)"
proof -
  from assms obtain b bs bstep t ts tstep where
    vb: "validate_blocks sv req = Inr (bs, bstep)" and
    vt: "validate_times sv req = Inr (ts, tstep)" and
    q: "q = \<lparr>q_block = b, q_blocks = bs, q_blockStep = bstep,
             q_time = t, q_times = ts, q_timeStep = tstep\<rparr>"
    by (auto simp: validate_query_def split: sum.splits prod.splits)
  from validate_blocks_supplied [OF vb] validate_times_supplied [OF vt] q
  show "(q_blocks q = None \<longleftrightarrow> supplied (rq_blocks req) = None)"
    "(q_times q = None \<longleftrightarrow> supplied (rq_times req) = None)"
    "(q_blockStep q = None \<longleftrightarrow>
        supplied (rq_blocks req) = None \<or> supplied (rq_blockStep req) = None)"
    "(q_timeStep q = None \<longleftrightarrow>
        supplied (rq_times req) = None \<or> supplied (rq_timeStep req) = None)"
    by simp_all
qed

lemma check_target_status:
  "check_target sv tf a n = Some r \<Longrightarrow> rsp_status r = 404 \<or> rsp_status r = 405"
  by (auto simp: check_target_def Let_def split: if_splits option.splits)

lemma evaluate_dynamic:
  assumes "sv_getTypedFormula sv (ad_type ad) (ad_formulaName ad) = FormulaFound tf"
    and "f_dynamic (tfm_formula tf)"
    and "q_blocks q \<noteq> None \<or> q_times q \<noteq> None"
  shows "evaluate sv st ad as q stored =
           (case check_target sv tf (ad_address ad) (ad_formulaName ad) of
              Some r \<Rightarrow> (r, stored, [])
            | None \<Rightarrow> (reply 400 dynamic_over_range_message, stored, []))"
  using assms by (simp add: evaluate_def split: option.splits)

lemma compute_ranged_step:
  assumes "blockStep \<noteq> None \<or> timeStep \<noteq> None"
  shows "compute_ranged sv st ak tf a n as blocks0 ts blockStep timeStep stored =
     (let blocks = (if blk_height (snd blocks0) > blk_height (st_latestBlock st)
                    then (fst blocks0, st_latestBlock st) else blocks0);
          credits = sv_creditsForBlockInterval sv
                      (blk_height (snd blocks) - blk_height (fst blocks) + 1);
          calls0 = (case ak of None \<Rightarrow> [] | Some k \<Rightarrow> [UseCredit credits])
      in if (case ak of None \<Rightarrow> False | Some k \<Rightarrow> \<not> sv_useCredit sv k credits)
         then (reply 402 ''insufficient credits'', stored, calls0)
         else
           (case sv_computeRange sv tf a as (fst blocks) (snd blocks) of
              Inl msg \<Rightarrow>
                (reply 400 msg, stored, calls0 @ [ComputeRange (fst blocks) (snd blocks)])
            | Inr computed \<Rightarrow>
                (\<lparr>rsp_status = 200,
                  rsp_body = Ranged (sv_processComputationRange sv
                                       (map output_item computed) blockStep timeStep
                                       (Some blocks) ts)\<rparr>,
                 stored, calls0 @ [ComputeRange (fst blocks) (snd blocks)])))"
  using assms by (auto simp: compute_ranged_def Let_def split: sum.splits)

lemma compute_single_calls:
  "list_all (\<lambda>c. \<not> is_store_call c) (snd (snd (compute_single sv st ak tf a as b stored))) \<and>
   fst (snd (compute_single sv st ak tf a as b stored)) = stored"
  by (auto simp: compute_single_def Let_def split: option.splits sum.splits)

lemma compute_single_stored:
  "fst (compute_single sv st ak tf a as b stored) =
     fst (compute_single sv st ak tf a as b stored')"
  by (auto simp: compute_single_def Let_def split: option.splits sum.splits)

lemma compute_ranged_step_props:
  assumes "blockStep \<noteq> None \<or> timeStep \<noteq> None"
  shows "list_all (\<lambda>c. \<not> is_store_call c)
           (snd (snd (compute_ranged sv st ak tf a n as bs ts blockStep timeStep stored)))"
    and "fst (snd (compute_ranged sv st ak tf a n as bs ts blockStep timeStep stored)) = stored"
    and "fst (compute_ranged sv st ak tf a n as bs ts blockStep timeStep stored) =
         fst (compute_ranged sv st ak tf a n as bs ts blockStep timeStep stored')"
  by (auto simp: compute_ranged_step [OF assms] Let_def split: option.splits sum.splits)


lemma evaluate_step_props:
  assumes "q_blockStep q \<noteq> None \<or> q_timeStep q \<noteq> None"
  shows "list_all (\<lambda>c. \<not> is_store_call c) (snd (snd (evaluate sv st ad as q stored))) \<and>
         fst (snd (evaluate sv st ad as q stored)) = stored \<and>
         fst (evaluate sv st ad as q stored) = fst (evaluate sv st ad as q stored')"
proof -
  note r = compute_ranged_step_props [OF assms]
  note s = compute_single_calls compute_single_stored
  show ?thesis
    unfolding evaluate_def Let_def split_def
    by (auto split: formula_lookup.splits option.splits simp: r(1,2) s(1)
        intro: r(3) s(2))
qed

lemma admit_ignores_steps:
  "admit sv srv (req\<lparr>rq_blockStep := p\<rparr>) = admit sv srv req"
  "admit sv srv (req\<lparr>rq_timeStep := p\<rparr>) = admit sv srv req"
  by (simp_all add: admit_def parse_route_def cong: sum.case_cong option.case_cong
      prod.case_cong if_cong)

lemma validate_parts_ignore_steps:
  "validate_block sv (req\<lparr>rq_blockStep := p\<rparr>) = validate_block sv req"
  "validate_time sv (req\<lparr>rq_blockStep := p\<rparr>) = validate_time sv req"
  "validate_times sv (req\<lparr>rq_blockStep := p\<rparr>) = validate_times sv req"
  "validate_block sv (req\<lparr>rq_timeStep := p\<rparr>) = validate_block sv req"
  "validate_time sv (req\<lparr>rq_timeStep := p\<rparr>) = validate_time sv req"
  "validate_blocks sv (req\<lparr>rq_timeStep := p\<rparr>) = validate_blocks sv req"
  by (simp_all add: validate_block_def validate_time_def validate_times_def validate_blocks_def
      cong: sum.case_cong option.case_cong prod.case_cong if_cong)

lemma validate_blocks_ignores_blockStep:
  "supplied (rq_blocks req) = None \<Longrightarrow>
     validate_blocks sv (req\<lparr>rq_blockStep := p\<rparr>) = validate_blocks sv req"
  by (simp add: validate_blocks_def)

lemma validate_times_ignores_timeStep:
  "supplied (rq_times req) = None \<Longrightarrow>
     validate_times sv (req\<lparr>rq_timeStep := p\<rparr>) = validate_times sv req"
  by (simp add: validate_times_def)

lemma validate_ignores_blockStep:
  assumes "supplied (rq_blocks req) = None"
  shows "validate_query sv (req\<lparr>rq_blockStep := p\<rparr>) = validate_query sv req"
  unfolding validate_query_def validate_parts_ignore_steps
    validate_blocks_ignores_blockStep [OF assms] ..

lemma validate_ignores_timeStep:
  assumes "supplied (rq_times req) = None"
  shows "validate_query sv (req\<lparr>rq_timeStep := p\<rparr>) = validate_query sv req"
  unfolding validate_query_def validate_parts_ignore_steps
    validate_times_ignores_timeStep [OF assms] ..

lemma computer_ignores_unpaired_step:
  "supplied (rq_blocks req) = None \<Longrightarrow>
     computer sv srv stored (req\<lparr>rq_blockStep := p\<rparr>) = computer sv srv stored req"
  "supplied (rq_times req) = None \<Longrightarrow>
     computer sv srv stored (req\<lparr>rq_timeStep := p\<rparr>) = computer sv srv stored req"
  by (simp_all add: computer_def admit_ignores_steps validate_ignores_blockStep
      validate_ignores_timeStep cong: sum.case_cong)

lemma evaluate_ranged:
  assumes "sv_getTypedFormula sv (ad_type ad) (ad_formulaName ad) = FormulaFound tf"
    and "check_target sv tf (ad_address ad) (ad_formulaName ad) = None"
    and "\<not> f_dynamic (tfm_formula tf)"
    and "\<not> (\<exists>k. ad_accountKey ad = Some k \<and> ak_isTest k)"
    and "fst (resolve_times sv st False q) = Some bs"
  shows "evaluate sv st ad as q stored =
           compute_ranged sv st (ad_accountKey ad) tf (ad_address ad) (ad_formulaName ad) as bs
             (snd (resolve_times sv st False q)) (q_blockStep q) (q_timeStep q) stored"
proof -
  from assms(4) have t: "(case ad_accountKey ad of None \<Rightarrow> False | Some ak \<Rightarrow> ak_isTest ak) = False"
    by (cases "ad_accountKey ad") simp_all
  show ?thesis
    using assms(1,2,3,5) by (simp add: evaluate_def Let_def split_def t)
qed

lemma evaluate_single:
  assumes "sv_getTypedFormula sv (ad_type ad) (ad_formulaName ad) = FormulaFound tf"
    and "check_target sv tf (ad_address ad) (ad_formulaName ad) = None"
    and "\<not> f_dynamic (tfm_formula tf)"
    and "(\<exists>k. ad_accountKey ad = Some k \<and> ak_isTest k) \<or>
         fst (resolve_times sv st False q) = None"
  shows "evaluate sv st ad as q stored =
           compute_single sv st (ad_accountKey ad) tf (ad_address ad) as (resolve_time sv q) stored"
proof (cases "\<exists>k. ad_accountKey ad = Some k \<and> ak_isTest k")
  case True
  then have t: "(case ad_accountKey ad of None \<Rightarrow> False | Some ak \<Rightarrow> ak_isTest ak) = True"
    by auto
  show ?thesis
    using assms(1,2,3) by (simp add: evaluate_def Let_def split_def t split: option.splits)
next
  case False
  then have t: "(case ad_accountKey ad of None \<Rightarrow> False | Some ak \<Rightarrow> ak_isTest ak) = False"
    by (cases "ad_accountKey ad") simp_all
  from False assms(4) have "fst (resolve_times sv st False q) = None" by blast
  then show ?thesis
    using assms(1,2,3) by (simp add: evaluate_def Let_def split_def t)
qed

lemma compute_single_call_list:
  "snd (snd (compute_single sv st ak tf a as b stored)) =
     (case ak of None \<Rightarrow> [] | Some k \<Rightarrow> [UseCredit 1]) @
     [Compute (case b of None \<Rightarrow> st_latestBlock st | Some x \<Rightarrow> x)]"
  by (simp add: compute_single_def Let_def split: option.splits sum.splits)

lemma covered_iff:
  "isRangeCoveredBeforeEnd cs \<longleftrightarrow>
     (\<forall>i. Suc i < length cs \<longrightarrow>
        cmp_latestBlockHeightValid (cs ! i) = cmp_blockHeight (cs ! Suc i) - 1)"
proof
  assume "isRangeCoveredBeforeEnd cs"
  then have all: "\<And>i. i < length cs \<Longrightarrow> i = length cs - 1 \<or>
      cmp_latestBlockHeightValid (cs ! i) = cmp_blockHeight (cs ! (i + 1)) - 1"
    by (simp add: isRangeCoveredBeforeEnd_def list_all_iff)
  show "\<forall>i. Suc i < length cs \<longrightarrow>
        cmp_latestBlockHeightValid (cs ! i) = cmp_blockHeight (cs ! Suc i) - 1"
  proof (intro allI impI)
    fix i
    assume "Suc i < length cs"
    then have "i < length cs" "i \<noteq> length cs - 1" by arith+
    with all [of i] show "cmp_latestBlockHeightValid (cs ! i) = cmp_blockHeight (cs ! Suc i) - 1"
      by simp
  qed
next
  assume pairs: "\<forall>i. Suc i < length cs \<longrightarrow>
        cmp_latestBlockHeightValid (cs ! i) = cmp_blockHeight (cs ! Suc i) - 1"
  have "i = length cs - 1 \<or>
      cmp_latestBlockHeightValid (cs ! i) = cmp_blockHeight (cs ! (i + 1)) - 1"
    if "i < length cs" for i
  proof (cases "i = length cs - 1")
    case True
    then show ?thesis by simp
  next
    case False
    with that have "Suc i < length cs" by arith
    with pairs show ?thesis by simp
  qed
  then show "isRangeCoveredBeforeEnd cs"
    by (simp add: isRangeCoveredBeforeEnd_def list_all_iff)
qed

lemma existingStart_most_recent:
  assumes "existingStartComputation sv a n as h0 stored = Some s"
  shows "s \<in> set stored \<and> computationWhere sv a n as s \<and> cmp_blockHeight s \<le> h0 \<and>
         (\<forall>c \<in> set stored. computationWhere sv a n as c \<and> cmp_blockHeight c \<le> h0 \<longrightarrow>
            cmp_blockHeight c \<le> cmp_blockHeight s)"
  using latest_Some_max [OF assms [unfolded existingStartComputation_def]] by auto

lemma existingRest_ascending:
  "set (existingRestComputations sv a n as h0 h1 stored) =
     {c \<in> set stored. computationWhere sv a n as c \<and> h0 < cmp_blockHeight c \<and>
                       cmp_blockHeight c \<le> h1} \<and>
   sorted (map cmp_blockHeight (existingRestComputations sv a n as h0 h1 stored))"
  by (auto simp: existingRestComputations_def)

lemma range_reuse_unfold:
  assumes "existingStartComputation sv a n as (blk_height b0) stored = Some s"
  shows "range_reuse sv tf a n as (b0, b1) stored =
     (let cs = s # existingRestComputations sv a n as (blk_height b0) (blk_height b1) stored;
          calls1 = [FindStartComputation (blk_height b0),
                    FindRestComputations (blk_height b0) (blk_height b1)]
      in if \<not> isRangeCoveredBeforeEnd cs then (ReuseNone, stored, calls1)
         else
           (let u = sv_updateValidityUpToBlockHeight sv (last cs) (blk_height b1) stored;
                calls2 = calls1 @ [UpdateValidity (last cs) (blk_height b1)]
            in if fst u then (reuse_of sv cs, snd u, calls2)
               else
                 (case sv_computeRange sv tf a as (cmp_block (last cs)) b1 of
                    Inl msg \<Rightarrow>
                      (ReuseFormulaError msg, snd u,
                       calls2 @ [ComputeRange (cmp_block (last cs)) b1])
                  | Inr computed \<Rightarrow>
                      (let c = sv_createFromComputationOutputs sv a tf as (tl computed) (snd u);
                           v = sv_updateValidityUpToBlockHeight sv (last (cs @ fst c))
                                 (blk_height b1) (snd c)
                       in (if fst v then reuse_of sv (cs @ fst c) else ReuseNone, snd v,
                           calls2 @
                           [ComputeRange (cmp_block (last cs)) b1,
                            CreateFromComputationOutputs (tl computed),
                            UpdateValidity (last (cs @ fst c)) (blk_height b1)])))))"
  using assms
  by (simp add: range_reuse_def Let_def split_def split: sum.splits)

lemma trace_push_any:
  "trace (push_dependentKey d st) =
     trace st @ (case dependentKeys st of None \<Rightarrow> [] | Some ds \<Rightarrow> [Push d])"
  by (simp add: push_dependentKey_def split: option.splits)

lemma history_extends:
  "\<exists>rest. trace (snd (getBalance_history F BK env a denom st)) = trace st @ rest"
  by (simp add: getBalance_history_def Let_def split_def trace_push_any contractMatches_trace
      split: option.splits event.splits)

lemma bank_findOne_rows:
  "(BankStateEvent_findOne db a denom h = None \<longleftrightarrow>
      (\<forall>e \<in> set (bankStateEvents db).
         \<not> (bse_address e = a \<and> bse_denom e = denom \<and> bse_blockHeight e \<le> h))) \<and>
   (BankStateEvent_findOne db a denom h = Some e \<longrightarrow>
      e \<in> set (bankStateEvents db) \<and> bse_address e = a \<and> bse_denom e = denom \<and>
      bse_blockHeight e \<le> h \<and>
      (\<forall>r \<in> set (bankStateEvents db).
         bse_address r = a \<and> bse_denom r = denom \<and> bse_blockHeight r \<le> h \<longrightarrow>
         bse_blockHeight r \<le> bse_blockHeight e))"
proof (intro conjI impI)
  show "BankStateEvent_findOne db a denom h = None \<longleftrightarrow>
      (\<forall>e \<in> set (bankStateEvents db).
         \<not> (bse_address e = a \<and> bse_denom e = denom \<and> bse_blockHeight e \<le> h))"
    by (auto simp: BankStateEvent_findOne_def bank_point_rows_def latest_None_iff
        filter_empty_conv)
next
  assume "BankStateEvent_findOne db a denom h = Some e"
  from latest_Some_max [OF this [unfolded BankStateEvent_findOne_def]]
  show "e \<in> set (bankStateEvents db)" "bse_address e = a" "bse_denom e = denom"
    "bse_blockHeight e \<le> h"
    "\<forall>r \<in> set (bankStateEvents db).
         bse_address r = a \<and> bse_denom r = denom \<and> bse_blockHeight r \<le> h \<longrightarrow>
         bse_blockHeight r \<le> bse_blockHeight e"
    by (auto simp: bank_point_rows_def)
qed

text \<open>
  With no memo entry for the key, \<^verbatim>\<open>get\<close> answers from the table: undefined when no row
  of the contract and key lies at or below the target block, and otherwise from a row of
  greatest height among those.
\<close>

lemma get_empty_memo_most_recent:
  assumes "cache_events st (getDependentKey WasmStateEvent_ns [addr, dbKeyForKeys keys]) = None"
  shows "((\<forall>r \<in> set (wasmStateEvents (opt_db env)).
             \<not> (wse_contractAddress r = addr \<and> wse_key r = dbKeyForKeys keys \<and>
                wse_blockHeight r \<le> blk_height (opt_block env))) \<and>
          fst (get JSON_parse dbKeyForKeys env addr keys st) = Inr None) \<or>
         (\<exists>e \<in> set (wasmStateEvents (opt_db env)).
            wse_contractAddress e = addr \<and> wse_key e = dbKeyForKeys keys \<and>
            wse_blockHeight e \<le> blk_height (opt_block env) \<and>
            (\<forall>r \<in> set (wasmStateEvents (opt_db env)).
               wse_contractAddress r = addr \<and> wse_key r = dbKeyForKeys keys \<and>
               wse_blockHeight r \<le> blk_height (opt_block env) \<longrightarrow>
               wse_blockHeight r \<le> wse_blockHeight e) \<and>
            fst (get JSON_parse dbKeyForKeys env addr keys st) =
              (if wse_delete e then Inr None else parse_value JSON_parse (wse_value e)))"
proof -
  let ?rows = "wasm_point_rows (opt_db env) addr (dbKeyForKeys keys) (blk_height (opt_block env))"
  let ?dk = "getDependentKey WasmStateEvent_ns [addr, dbKeyForKeys keys]"
  have fresh: "cache_events (push_dependentKey \<lparr>dk_key = ?dk, dk_prefix = False\<rparr> st) ?dk = None"
    using assms by (simp add: push_dependentKey_def split: option.splits)
  have rows: "set ?rows =
      {r \<in> set (wasmStateEvents (opt_db env)).
         wse_contractAddress r = addr \<and> wse_key r = dbKeyForKeys keys \<and>
         wse_blockHeight r \<le> blk_height (opt_block env)}"
    by (simp add: wasm_point_rows_def)
  show ?thesis
  proof (cases "latest wse_blockHeight ?rows")
    case None
    then have "set ?rows = {}" by (simp add: latest_None_iff)
    then have "\<forall>r \<in> set (wasmStateEvents (opt_db env)).
             \<not> (wse_contractAddress r = addr \<and> wse_key r = dbKeyForKeys keys \<and>
                wse_blockHeight r \<le> blk_height (opt_block env))"
      unfolding rows by blast
    moreover have "fst (get JSON_parse dbKeyForKeys env addr keys st) = Inr None"
      using None fresh by (simp add: get_def Let_def WasmStateEvent_findOne_def)
    ultimately show ?thesis by blast
  next
    case (Some e)
    from latest_Some_max [OF Some]
    have e: "e \<in> set ?rows" "\<forall>r \<in> set ?rows. wse_blockHeight r \<le> wse_blockHeight e"
      by simp_all
    have "fst (get JSON_parse dbKeyForKeys env addr keys st) =
            (if wse_delete e then Inr None else parse_value JSON_parse (wse_value e))"
      using Some fresh by (simp add: get_def Let_def WasmStateEvent_findOne_def)
    with e show ?thesis unfolding rows by blast
  qed
qed

section \<open>Claims\<close>

text \<open>
  C1 says that \<^verbatim>\<open>get\<close> returns the value of the row of greatest block height at or below
  the target block for its contract address and composed key, undefined when there is
  none or when that row is a tombstone. With no memo entry for the key it does
  (\<open>get_empty_memo_most_recent\<close>). After a \<^verbatim>\<open>prefetch\<close> that was given the key as a
  Uint8Array segment it does not. \<^verbatim>\<open>prefetch\<close> composes a Uint8Array as it composes a
  string key, but its two filters test \<^verbatim>\<open>key.map\<close>, which for a Uint8Array is the array
  method: the key is fetched and memoised as a map prefix, that is, the row of the key
  itself is not fetched and the memo entry of the key receives the rows of the longer keys.

  Contract \<open>A\<close> holds value 1 under the key and value 2 under a longer key that starts
  with it. At block 24 the only row of the key is the one of value 1 and a first \<^verbatim>\<open>get\<close>
  returns 1, but \<^verbatim>\<open>get\<close> after the \<^verbatim>\<open>prefetch\<close> returns 2. Contract \<open>E\<close> has only the
  longer key: a first \<^verbatim>\<open>get\<close> of the key returns undefined, and \<^verbatim>\<open>get\<close> after a
  \<^verbatim>\<open>prefetch\<close> that lists the key both as a string and as a Uint8Array returns 2.
\<close>

theorem get_after_prefetch_wrong_row:
  "filter (\<lambda>r. wse_contractAddress r = ''A'' \<and>
               wse_key r = example_dbKeyForKeys [KBytes [1]] \<and> wse_blockHeight r \<le> 24)
     (wasmStateEvents example_bytes_db) = [example_row ''*'' 10 (Some ''1'') False] \<and>
   fst (get example_parse example_dbKeyForKeys (env_at example_bytes_db 24) ''A'' [KBytes [1]]
          initial_state) = Inr (Some (JNumber ''1'')) \<and>
   fst (prefetch example_dbKeyForKeys (env_at example_bytes_db 24) ''A'' [PKey (KBytes [1])]
          initial_state) = Inr () \<and>
   fst (get example_parse example_dbKeyForKeys (env_at example_bytes_db 24) ''A'' [KBytes [1]]
          (snd (prefetch example_dbKeyForKeys (env_at example_bytes_db 24) ''A''
                  [PKey (KBytes [1])] initial_state))) = Inr (Some (JNumber ''2'')) \<and>
   filter (\<lambda>r. wse_contractAddress r = ''E'' \<and>
               wse_key r = example_dbKeyForKeys [KBytes [1]] \<and> wse_blockHeight r \<le> 24)
     (wasmStateEvents example_bytes_db) = [] \<and>
   fst (get example_parse example_dbKeyForKeys (env_at example_bytes_db 24) ''E'' [KBytes [1]]
          initial_state) = Inr None \<and>
   fst (get example_parse example_dbKeyForKeys (env_at example_bytes_db 24) ''E'' [KBytes [1]]
          (snd (prefetch example_dbKeyForKeys (env_at example_bytes_db 24) ''E''
                  [PKey (KString ''*''), PKey (KBytes [1])] initial_state))) =
     Inr (Some (JNumber ''2''))"
  by (simp add: get_def prefetch_def prefetch_keyFilter_def prefetch_rows_def
      cache_nonMapKey_def cache_mapKeyPrefix_def cache_entry_of_def distinct_on_latest_def
      WasmStateEvent_findOne_def wasm_point_rows_def push_dependentKey_def read_db_def
      call_onFetch_def set_cache_event_def parse_value_def getDependentKey_def ends_with_def
      map_filter_simps Let_def example_bytes_db_def example_defs)

text \<open>
  C8, as the code has it. Within one evaluation, a second call of \<^verbatim>\<open>get\<close> with the same
  contract address and composed key makes no data base read and returns what the first
  call returned. After a \<^verbatim>\<open>prefetch\<close> that lists the key as an exact key, and after a
  \<^verbatim>\<open>prefetch\<close> of a map prefix that the key extends when a row of that key lies at or
  below the target block, \<^verbatim>\<open>get\<close> makes no data base read and returns what a first
  access with an empty memo returns, provided the composed key is not itself one of the
  strings that this \<^verbatim>\<open>prefetch\<close> files among its map prefixes. (That is where it files a
  Uint8Array segment; what \<^verbatim>\<open>get\<close> returns then is the defect shown for C1, and nothing
  is said about it here.) The memo holds no negative entry for the absent members of a
  prefetched prefix: for a key that extends a prefetched map prefix, has no row at or
  below the target block, is not listed as an exact key or filed as a prefix, and had no
  memo entry before, the \<^verbatim>\<open>get\<close> that follows makes one data base read, and returns
  what a first access returns.
\<close>

theorem memo_reread:
  "(fst (get P K env a ks (snd (get P K env a ks st))) = fst (get P K env a ks st) \<and>
    reads (snd (get P K env a ks (snd (get P K env a ks st)))) =
      reads (snd (get P K env a ks st))) \<and>
   (pk \<in> set L \<and> is_nonMapKey pk \<and> K ks = prefetch_dbKey K pk \<and>
    K ks \<notin> set (prefetch_mapKeyPrefixes K L) \<longrightarrow>
      fst (get P K env a ks (snd (prefetch K env a L st))) =
        fst (get P K env a ks (st\<lparr>cache_events := \<lambda>_. None\<rparr>)) \<and>
      reads (snd (get P K env a ks (snd (prefetch K env a L st)))) =
        reads (snd (prefetch K env a L st))) \<and>
   (PKeys ns True \<in> set L \<and> strict_prefix (prefetch_dbKey K (PKeys ns True)) (K ks) \<and>
    (\<exists>r \<in> set (wasmStateEvents (opt_db env)).
       wse_contractAddress r = a \<and> wse_key r = K ks \<and>
       wse_blockHeight r \<le> blk_height (opt_block env)) \<and>
    K ks \<notin> set (prefetch_mapKeyPrefixes K L) \<longrightarrow>
      fst (get P K env a ks (snd (prefetch K env a L st))) =
        fst (get P K env a ks (st\<lparr>cache_events := \<lambda>_. None\<rparr>)) \<and>
      reads (snd (get P K env a ks (snd (prefetch K env a L st)))) =
        reads (snd (prefetch K env a L st))) \<and>
   (PKeys ns True \<in> set L \<and> strict_prefix (prefetch_dbKey K (PKeys ns True)) (K ks) \<and>
    (\<forall>r \<in> set (wasmStateEvents (opt_db env)).
       \<not> (wse_contractAddress r = a \<and> wse_key r = K ks \<and>
          wse_blockHeight r \<le> blk_height (opt_block env))) \<and>
    K ks \<notin> set (prefetch_nonMapKeys K L) \<and> K ks \<notin> set (prefetch_mapKeyPrefixes K L) \<and>
    cache_events st (getDependentKey WasmStateEvent_ns [a, K ks]) = None \<longrightarrow>
      fst (get P K env a ks (snd (prefetch K env a L st))) =
        fst (get P K env a ks (st\<lparr>cache_events := \<lambda>_. None\<rparr>)) \<and>
      reads (snd (get P K env a ks (snd (prefetch K env a L st)))) =
        Suc (reads (snd (prefetch K env a L st))))"
proof (intro conjI impI)
  show "fst (get P K env a ks (snd (get P K env a ks st))) = fst (get P K env a ks st)"
    "reads (snd (get P K env a ks (snd (get P K env a ks st)))) = reads (snd (get P K env a ks st))"
    using get_twice by blast+
next
  assume h: "pk \<in> set L \<and> is_nonMapKey pk \<and> K ks = prefetch_dbKey K pk \<and>
    K ks \<notin> set (prefetch_mapKeyPrefixes K L)"
  then have mem: "K ks \<in> set (prefetch_nonMapKeys K L)"
    using nonMapKey_member [of pk L K] by simp
  from h have ne: "L \<noteq> []" by auto
  from prefetch_then_get [OF ne, of K ks env a P st] mem h
  show "fst (get P K env a ks (snd (prefetch K env a L st))) =
        fst (get P K env a ks (st\<lparr>cache_events := \<lambda>_. None\<rparr>))"
    "reads (snd (get P K env a ks (snd (prefetch K env a L st)))) =
       reads (snd (prefetch K env a L st))"
    by blast+
next
  assume h: "PKeys ns True \<in> set L \<and> strict_prefix (prefetch_dbKey K (PKeys ns True)) (K ks) \<and>
    (\<exists>r \<in> set (wasmStateEvents (opt_db env)).
       wse_contractAddress r = a \<and> wse_key r = K ks \<and>
       wse_blockHeight r \<le> blk_height (opt_block env)) \<and>
    K ks \<notin> set (prefetch_mapKeyPrefixes K L)"
  then have p: "prefetch_dbKey K (PKeys ns True) \<in> set (prefetch_mapKeyPrefixes K L)"
    using mapKeyPrefix_member [of ns L K] by blast
  from h have ne: "L \<noteq> []" by auto
  from h have sp: "strict_prefix (prefetch_dbKey K (PKeys ns True)) (K ks)" by blast
  with p have filt: "K ks \<in> set (prefetch_nonMapKeys K L) \<or>
      (\<exists>p \<in> set (prefetch_mapKeyPrefixes K L). strict_prefix p (K ks))"
    by blast
  from h have rows: "wasm_point_rows (opt_db env) a (K ks) (blk_height (opt_block env)) \<noteq> []"
    by (auto simp: wasm_point_rows_def filter_empty_conv)
  have "K ks \<in> wse_key ` set (prefetch_events K env a L)"
    using rows by (simp add: prefetch_events_has_key [OF ne filt])
  moreover have "prefix (prefetch_dbKey K (PKeys ns True)) (K ks)"
    using sp by (simp add: strict_prefix_def)
  ultimately have hit: "K ks \<in> set (prefetch_nonMapKeys K L) \<or>
              ((\<exists>p \<in> set (prefetch_mapKeyPrefixes K L). prefix p (K ks)) \<and>
               K ks \<in> wse_key ` set (prefetch_events K env a L))"
    using p by blast
  from prefetch_then_get [OF ne filt hit, of P st] h
  show "fst (get P K env a ks (snd (prefetch K env a L st))) =
        fst (get P K env a ks (st\<lparr>cache_events := \<lambda>_. None\<rparr>))"
    "reads (snd (get P K env a ks (snd (prefetch K env a L st)))) =
       reads (snd (prefetch K env a L st))"
    by blast+
next
  assume h: "PKeys ns True \<in> set L \<and> strict_prefix (prefetch_dbKey K (PKeys ns True)) (K ks) \<and>
    (\<forall>r \<in> set (wasmStateEvents (opt_db env)).
       \<not> (wse_contractAddress r = a \<and> wse_key r = K ks \<and>
          wse_blockHeight r \<le> blk_height (opt_block env))) \<and>
    K ks \<notin> set (prefetch_nonMapKeys K L) \<and> K ks \<notin> set (prefetch_mapKeyPrefixes K L) \<and>
    cache_events st (getDependentKey WasmStateEvent_ns [a, K ks]) = None"
  then have p: "prefetch_dbKey K (PKeys ns True) \<in> set (prefetch_mapKeyPrefixes K L)"
    using mapKeyPrefix_member [of ns L K] by blast
  from h have ne: "L \<noteq> []" by auto
  from h have sp: "strict_prefix (prefetch_dbKey K (PKeys ns True)) (K ks)" by blast
  with p have filt: "K ks \<in> set (prefetch_nonMapKeys K L) \<or>
      (\<exists>p \<in> set (prefetch_mapKeyPrefixes K L). strict_prefix p (K ks))"
    by blast
  from h have rows: "wasm_point_rows (opt_db env) a (K ks) (blk_height (opt_block env)) = []"
    by (auto simp: wasm_point_rows_def filter_empty_conv)
  have nokey: "K ks \<notin> wse_key ` set (prefetch_events K env a L)"
    using rows by (simp add: prefetch_events_has_key [OF ne filt])
  from h have nopre: "K ks \<notin> set (prefetch_mapKeyPrefixes K L)" by blast
  have none: "cache_events (snd (prefetch K env a L st))
                (getDependentKey WasmStateEvent_ns [a, K ks]) = None"
    using h nokey by (simp only: prefetch_cache [OF nopre ne]) simp
  then show "reads (snd (get P K env a ks (snd (prefetch K env a L st)))) =
        Suc (reads (snd (prefetch K env a L st)))"
    by (simp add: get_reads)
  from none show "fst (get P K env a ks (snd (prefetch K env a L st))) =
        fst (get P K env a ks (st\<lparr>cache_events := \<lambda>_. None\<rparr>))"
    by (simp add: get_result get_lookup_def)
qed

theorem memo_reread_witness:
  "fst (get example_parse example_dbKeyForKeys (env_at example_db 24) ''A'' [KString ''k'']
          (snd (get example_parse example_dbKeyForKeys (env_at example_db 24) ''A''
                  [KString ''k''] initial_state))) = Inr (Some (JNumber ''2'')) \<and>
   reads (snd (get example_parse example_dbKeyForKeys (env_at example_db 24) ''A''
                 [KString ''k'']
                 (snd (get example_parse example_dbKeyForKeys (env_at example_db 24) ''A''
                         [KString ''k''] initial_state)))) = 1 \<and>
   is_nonMapKey (PKey (KString ''k'')) \<and>
   example_dbKeyForKeys [KString ''k''] \<notin>
     set (prefetch_mapKeyPrefixes example_dbKeyForKeys
            [PKey (KString ''k''), PKeys [KString ''m''] True]) \<and>
   fst (get example_parse example_dbKeyForKeys (env_at example_db 24) ''A'' [KString ''k'']
          (snd (prefetch example_dbKeyForKeys (env_at example_db 24) ''A''
                  [PKey (KString ''k''), PKeys [KString ''m''] True] initial_state))) =
     Inr (Some (JNumber ''2'')) \<and>
   reads (snd (get example_parse example_dbKeyForKeys (env_at example_db 24) ''A''
                 [KString ''k'']
                 (snd (prefetch example_dbKeyForKeys (env_at example_db 24) ''A''
                         [PKey (KString ''k''), PKeys [KString ''m''] True] initial_state)))) = 1 \<and>
   strict_prefix (prefetch_dbKey example_dbKeyForKeys (PKeys [KString ''m''] True))
     (example_dbKeyForKeys [KString ''m'', KString ''x'']) \<and>
   example_row ''m,x'' 12 (Some ''7'') False \<in> set (wasmStateEvents example_db) \<and>
   fst (get example_parse example_dbKeyForKeys (env_at example_db 24) ''A''
          [KString ''m'', KString ''x'']
          (snd (prefetch example_dbKeyForKeys (env_at example_db 24) ''A''
                  [PKey (KString ''k''), PKeys [KString ''m''] True] initial_state))) =
     Inr (Some (JNumber ''7'')) \<and>
   reads (snd (get example_parse example_dbKeyForKeys (env_at example_db 24) ''A''
                 [KString ''m'', KString ''x'']
                 (snd (prefetch example_dbKeyForKeys (env_at example_db 24) ''A''
                         [PKey (KString ''k''), PKeys [KString ''m''] True] initial_state)))) = 1 \<and>
   fst (get example_parse example_dbKeyForKeys (env_at example_db 24) ''A''
          [KString ''m'', KString ''z'']
          (snd (prefetch example_dbKeyForKeys (env_at example_db 24) ''A''
                  [PKey (KString ''k''), PKeys [KString ''m''] True] initial_state))) = Inr None \<and>
   reads (snd (get example_parse example_dbKeyForKeys (env_at example_db 24) ''A''
                 [KString ''m'', KString ''z'']
                 (snd (prefetch example_dbKeyForKeys (env_at example_db 24) ''A''
                         [PKey (KString ''k''), PKeys [KString ''m''] True] initial_state)))) = 2"
proof -
  let ?env = "env_at example_db 24"
  let ?L = "[PKey (KString ''k''), PKeys [KString ''m''] True]"
  let ?pre = "snd (prefetch example_dbKeyForKeys ?env ''A'' ?L initial_state)"
  let ?fresh = "initial_state\<lparr>cache_events := \<lambda>_. None\<rparr>"
  have db: "opt_db ?env = example_db" "blk_height (opt_block ?env) = 24"
    by (simp_all add: env_at_def)
  have pre: "reads ?pre = 1"
    by (simp add: prefetch_reads) (simp add: reads_def initial_state_def)
  have one: "reads (snd (get example_parse example_dbKeyForKeys ?env ''A'' [KString ''k'']
                initial_state)) = 1"
    by (simp add: get_reads) (simp add: reads_def initial_state_def)
  have vk: "fst (get example_parse example_dbKeyForKeys ?env ''A'' [KString ''k''] ?fresh) =
              Inr (Some (JNumber ''2''))"
    by (simp only: get_fresh)
      (simp add: get_value_def WasmStateEvent_findOne_def wasm_point_rows_def
        parse_value_def example_defs)
  have vk0: "fst (get example_parse example_dbKeyForKeys ?env ''A'' [KString ''k'']
                initial_state) = Inr (Some (JNumber ''2''))"
    by (simp only: get_result)
      (simp add: get_lookup_def get_value_def WasmStateEvent_findOne_def
        wasm_point_rows_def parse_value_def example_defs)
  have vx: "fst (get example_parse example_dbKeyForKeys ?env ''A''
                   [KString ''m'', KString ''x''] ?fresh) = Inr (Some (JNumber ''7''))"
    by (simp only: get_fresh)
      (simp add: get_value_def WasmStateEvent_findOne_def wasm_point_rows_def
        parse_value_def example_defs)
  have vz: "fst (get example_parse example_dbKeyForKeys ?env ''A''
                   [KString ''m'', KString ''z''] ?fresh) = Inr None"
    by (simp only: get_fresh)
      (simp add: get_value_def WasmStateEvent_findOne_def wasm_point_rows_def
        parse_value_def example_defs)
  have rowx: "example_row ''m,x'' 12 (Some ''7'') False \<in> set (wasmStateEvents example_db)"
    by (simp add: example_db_def)
  have hk: "PKey (KString ''k'') \<in> set ?L \<and> is_nonMapKey (PKey (KString ''k'')) \<and>
            example_dbKeyForKeys [KString ''k''] =
              prefetch_dbKey example_dbKeyForKeys (PKey (KString ''k'')) \<and>
            example_dbKeyForKeys [KString ''k''] \<notin>
              set (prefetch_mapKeyPrefixes example_dbKeyForKeys ?L)"
    by (simp add: prefetch_mapKeyPrefixes_def)
  have hx: "PKeys [KString ''m''] True \<in> set ?L \<and>
            strict_prefix (prefetch_dbKey example_dbKeyForKeys (PKeys [KString ''m''] True))
              (example_dbKeyForKeys [KString ''m'', KString ''x'']) \<and>
            (\<exists>r \<in> set (wasmStateEvents (opt_db ?env)).
               wse_contractAddress r = ''A'' \<and>
               wse_key r = example_dbKeyForKeys [KString ''m'', KString ''x''] \<and>
               wse_blockHeight r \<le> blk_height (opt_block ?env)) \<and>
            example_dbKeyForKeys [KString ''m'', KString ''x''] \<notin>
              set (prefetch_mapKeyPrefixes example_dbKeyForKeys ?L)"
    by (simp add: prefetch_mapKeyPrefixes_def example_defs)
  have hz: "PKeys [KString ''m''] True \<in> set ?L \<and>
            strict_prefix (prefetch_dbKey example_dbKeyForKeys (PKeys [KString ''m''] True))
              (example_dbKeyForKeys [KString ''m'', KString ''z'']) \<and>
            (\<forall>r \<in> set (wasmStateEvents (opt_db ?env)).
               \<not> (wse_contractAddress r = ''A'' \<and>
                  wse_key r = example_dbKeyForKeys [KString ''m'', KString ''z''] \<and>
                  wse_blockHeight r \<le> blk_height (opt_block ?env))) \<and>
            example_dbKeyForKeys [KString ''m'', KString ''z''] \<notin>
              set (prefetch_nonMapKeys example_dbKeyForKeys ?L) \<and>
            example_dbKeyForKeys [KString ''m'', KString ''z''] \<notin>
              set (prefetch_mapKeyPrefixes example_dbKeyForKeys ?L) \<and>
            cache_events initial_state
              (getDependentKey WasmStateEvent_ns
                 [''A'', example_dbKeyForKeys [KString ''m'', KString ''z'']]) = None"
    by (simp add: prefetch_mapKeyPrefixes_def prefetch_nonMapKeys_def example_defs)
  note k = memo_reread [of example_parse example_dbKeyForKeys ?env "''A''" "[KString ''k'']"
      initial_state "PKey (KString ''k'')" ?L "[KString ''m'']"]
  note x = memo_reread [of example_parse example_dbKeyForKeys ?env "''A''"
      "[KString ''m'', KString ''x'']" initial_state "PKey (KString ''k'')" ?L "[KString ''m'']"]
  note z = memo_reread [of example_parse example_dbKeyForKeys ?env "''A''"
      "[KString ''m'', KString ''z'']" initial_state "PKey (KString ''k'')" ?L "[KString ''m'']"]
  from k hk have k1:
    "fst (get example_parse example_dbKeyForKeys ?env ''A'' [KString ''k'']
            (snd (get example_parse example_dbKeyForKeys ?env ''A'' [KString ''k'']
                    initial_state))) =
       fst (get example_parse example_dbKeyForKeys ?env ''A'' [KString ''k''] initial_state)"
    "reads (snd (get example_parse example_dbKeyForKeys ?env ''A'' [KString ''k'']
            (snd (get example_parse example_dbKeyForKeys ?env ''A'' [KString ''k'']
                    initial_state)))) =
       reads (snd (get example_parse example_dbKeyForKeys ?env ''A'' [KString ''k'']
                initial_state))"
    "fst (get example_parse example_dbKeyForKeys ?env ''A'' [KString ''k''] ?pre) =
       fst (get example_parse example_dbKeyForKeys ?env ''A'' [KString ''k''] ?fresh)"
    "reads (snd (get example_parse example_dbKeyForKeys ?env ''A'' [KString ''k''] ?pre)) =
       reads ?pre"
    by blast+
  from x hx have x1:
    "fst (get example_parse example_dbKeyForKeys ?env ''A'' [KString ''m'', KString ''x''] ?pre) =
       fst (get example_parse example_dbKeyForKeys ?env ''A'' [KString ''m'', KString ''x'']
              ?fresh)"
    "reads (snd (get example_parse example_dbKeyForKeys ?env ''A''
                   [KString ''m'', KString ''x''] ?pre)) = reads ?pre"
    by blast+
  from z hz have z1:
    "fst (get example_parse example_dbKeyForKeys ?env ''A'' [KString ''m'', KString ''z''] ?pre) =
       fst (get example_parse example_dbKeyForKeys ?env ''A'' [KString ''m'', KString ''z'']
              ?fresh)"
    "reads (snd (get example_parse example_dbKeyForKeys ?env ''A''
                   [KString ''m'', KString ''z''] ?pre)) = Suc (reads ?pre)"
    by blast+
  show ?thesis
    using hk hx rowx k1 x1 z1 pre one vk vk0 vx vz by (simp add: db)
qed

text \<open>
  The claim as stated fails for a key inside a prefetched prefix that has no row: after
  prefetching the map \<open>m\<close>, reading its absent entry \<open>z\<close> costs a second data base read.
\<close>

theorem memo_miss_counterexample:
  "reads (snd (prefetch example_dbKeyForKeys (env_at example_db 27) ''A''
                 [PKeys [KString ''m''] True] initial_state)) = 1 \<and>
   reads (snd (get example_parse example_dbKeyForKeys (env_at example_db 27) ''A''
                 [KString ''m'', KString ''z'']
                 (snd (prefetch example_dbKeyForKeys (env_at example_db 27) ''A''
                         [PKeys [KString ''m''] True] initial_state)))) = 2"
proof -
  let ?st = "snd (prefetch example_dbKeyForKeys (env_at example_db 27) ''A''
                    [PKeys [KString ''m''] True] initial_state)"
  have r: "reads ?st = 1"
    by (simp add: prefetch_reads) (simp add: reads_def initial_state_def)
  have "cache_events ?st (getDependentKey WasmStateEvent_ns [''A'', ''m,z'']) = None"
    by (subst prefetch_cache)
      (simp_all add: prefetch_mapKeyPrefixes_def prefetch_nonMapKeys_def ev1 example_row_def
        initial_state_def)
  then show ?thesis using r by (simp add: get_reads)
qed



text \<open>
  C4. For every address and denom, on the first balance read of the address in an
  evaluation (no memo entry for its snapshot yet; the contract memo, if filled, holds the
  Contract row of the address) and with a non-empty list of bank-history code-id keys:
  the first effect of \<^verbatim>\<open>getBalance\<close> is the read of the BankBalance table. When a
  BankBalance row of the address lies at or below the target height, the result is the
  balance for the denom of such a row, and no BankStateEvent read is made. When there is
  none and the address is not a contract whose code id is among the code ids of the
  configured keys, the result is undefined and no BankStateEvent read is made. When there
  is none and the address is such a contract (and the history of the denom has no memo
  entry yet), one BankStateEvent read is made, and the result is undefined when no
  BankStateEvent row of the address and denom lies at or below the target height, and
  otherwise the balance of a row of greatest height among those.
\<close>

theorem getBalance_snapshot_then_history:
  assumes "cache_events st (getDependentKey BankBalance_ns [a]) = None"
    and "cache_contracts st a = None \<or>
         cache_contracts st a = Some (find (\<lambda>c. ct_address c = a) (contracts (opt_db env)))"
    and "BANK_HISTORY_CODE_IDS_KEYS \<noteq> []"
  shows
    "(\<exists>rest. new_actions st (snd (getBalance F BANK_HISTORY_CODE_IDS_KEYS env a denom st)) =
        Read TBankBalance # rest) \<and>
     ((\<exists>b \<in> set (bankBalances (opt_db env)).
          bb_address b = a \<and> bb_blockHeight b \<le> blk_height (opt_block env)) \<longrightarrow>
        (\<exists>b \<in> set (bankBalances (opt_db env)).
           bb_address b = a \<and> bb_blockHeight b \<le> blk_height (opt_block env) \<and>
           fst (getBalance F BANK_HISTORY_CODE_IDS_KEYS env a denom st) =
             Inr (map_of (bb_balances b) denom)) \<and>
        reads_of TBankStateEvent (snd (getBalance F BANK_HISTORY_CODE_IDS_KEYS env a denom st)) =
          reads_of TBankStateEvent st) \<and>
     ((\<forall>b \<in> set (bankBalances (opt_db env)).
          \<not> (bb_address b = a \<and> bb_blockHeight b \<le> blk_height (opt_block env))) \<and>
      \<not> (\<exists>c. find (\<lambda>c. ct_address c = a) (contracts (opt_db env)) = Some c \<and>
              ct_codeId c \<in> set (F BANK_HISTORY_CODE_IDS_KEYS)) \<longrightarrow>
        fst (getBalance F BANK_HISTORY_CODE_IDS_KEYS env a denom st) = Inr None \<and>
        reads_of TBankStateEvent (snd (getBalance F BANK_HISTORY_CODE_IDS_KEYS env a denom st)) =
          reads_of TBankStateEvent st) \<and>
     ((\<forall>b \<in> set (bankBalances (opt_db env)).
          \<not> (bb_address b = a \<and> bb_blockHeight b \<le> blk_height (opt_block env))) \<and>
      (\<exists>c. find (\<lambda>c. ct_address c = a) (contracts (opt_db env)) = Some c \<and>
            ct_codeId c \<in> set (F BANK_HISTORY_CODE_IDS_KEYS)) \<and>
      cache_events st (getDependentKey BankStateEvent_ns [a, denom]) = None \<longrightarrow>
        reads_of TBankStateEvent (snd (getBalance F BANK_HISTORY_CODE_IDS_KEYS env a denom st)) =
          Suc (reads_of TBankStateEvent st) \<and>
        (((\<forall>e \<in> set (bankStateEvents (opt_db env)).
             \<not> (bse_address e = a \<and> bse_denom e = denom \<and>
                bse_blockHeight e \<le> blk_height (opt_block env))) \<and>
          fst (getBalance F BANK_HISTORY_CODE_IDS_KEYS env a denom st) = Inr None) \<or>
         (\<exists>e \<in> set (bankStateEvents (opt_db env)).
            bse_address e = a \<and> bse_denom e = denom \<and>
            bse_blockHeight e \<le> blk_height (opt_block env) \<and>
            (\<forall>r \<in> set (bankStateEvents (opt_db env)).
               bse_address r = a \<and> bse_denom r = denom \<and>
               bse_blockHeight r \<le> blk_height (opt_block env) \<longrightarrow>
               bse_blockHeight r \<le> bse_blockHeight e) \<and>
            fst (getBalance F BANK_HISTORY_CODE_IDS_KEYS env a denom st) =
              Inr (Some (bse_balance e)))))"
proof (intro conjI impI)
  let ?db = "opt_db env" and ?h = "blk_height (opt_block env)"
  let ?BK = BANK_HISTORY_CODE_IDS_KEYS
  let ?st2 = "set_cache_event (getDependentKey BankBalance_ns [a]) None (read_db TBankBalance st)"
  note fresh = getBalance_fresh [OF assms(1), of F ?BK env denom]
  have memo2: "cache_contracts ?st2 a = None \<or>
               cache_contracts ?st2 a = Some (Contract_findOne ?db a)"
    using assms(2) by (simp add: Contract_findOne_def)
  note cm = contractMatches_result [OF memo2 assms(3), of F, unfolded Contract_findOne_def]
  have none: "BankBalance_findOne ?db a ?h = None"
    if "\<forall>b \<in> set (bankBalances ?db). \<not> (bb_address b = a \<and> bb_blockHeight b \<le> ?h)"
    using that by (auto simp: BankBalance_findOne_def find_None_iff)
  show "\<exists>rest. new_actions st (snd (getBalance F ?BK env a denom st)) = Read TBankBalance # rest"
  proof (cases "BankBalance_findOne ?db a ?h")
    case None
    from history_extends [of F ?BK env a denom ?st2]
    obtain rest where "trace (snd (getBalance_history F ?BK env a denom ?st2)) =
        trace ?st2 @ rest" by blast
    with None show ?thesis by (simp add: fresh)
  next
    case (Some b)
    then show ?thesis by (simp add: fresh)
  qed
  {
    assume "\<exists>b \<in> set (bankBalances ?db). bb_address b = a \<and> bb_blockHeight b \<le> ?h"
    then obtain b where b: "BankBalance_findOne ?db a ?h = Some b"
      by (cases "BankBalance_findOne ?db a ?h")
        (auto simp: BankBalance_findOne_def find_None_iff)
    then have "b \<in> set (bankBalances ?db)" "bb_address b = a" "bb_blockHeight b \<le> ?h"
      by (auto simp: BankBalance_findOne_def find_Some_iff)
    moreover from b have "fst (getBalance F ?BK env a denom st) =
        Inr (map_of (bb_balances b) denom)"
      by (simp add: fresh)
    ultimately show "\<exists>b \<in> set (bankBalances ?db).
           bb_address b = a \<and> bb_blockHeight b \<le> ?h \<and>
           fst (getBalance F ?BK env a denom st) = Inr (map_of (bb_balances b) denom)"
      by blast
    from b show "reads_of TBankStateEvent (snd (getBalance F ?BK env a denom st)) =
         reads_of TBankStateEvent st"
      by (simp add: fresh)
  next
    assume h: "(\<forall>b \<in> set (bankBalances ?db). \<not> (bb_address b = a \<and> bb_blockHeight b \<le> ?h)) \<and>
      \<not> (\<exists>c. find (\<lambda>c. ct_address c = a) (contracts ?db) = Some c \<and>
              ct_codeId c \<in> set (F ?BK))"
    from h cm have "\<not> fst (contractMatchesCodeIdKeys F env a ?BK ?st2)" by blast
    from history_no_match [OF this, of denom] none h
    show "fst (getBalance F ?BK env a denom st) = Inr None"
      "reads_of TBankStateEvent (snd (getBalance F ?BK env a denom st)) =
         reads_of TBankStateEvent st"
      by (simp_all add: fresh)
  next
    assume h: "(\<forall>b \<in> set (bankBalances ?db). \<not> (bb_address b = a \<and> bb_blockHeight b \<le> ?h)) \<and>
      (\<exists>c. find (\<lambda>c. ct_address c = a) (contracts ?db) = Some c \<and>
            ct_codeId c \<in> set (F ?BK)) \<and>
      cache_events st (getDependentKey BankStateEvent_ns [a, denom]) = None"
    from h cm have m: "fst (contractMatchesCodeIdKeys F env a ?BK ?st2)" by blast
    from h have "cache_events ?st2 (getDependentKey BankStateEvent_ns [a, denom]) = None"
      by simp
    from history_match_fresh [OF m this] none h
    have res: "fst (getBalance F ?BK env a denom st) =
          Inr (map_option bse_balance (BankStateEvent_findOne ?db a denom ?h))"
      and rd: "reads_of TBankStateEvent (snd (getBalance F ?BK env a denom st)) =
         Suc (reads_of TBankStateEvent st)"
      by (simp_all add: fresh)
    from rd show "reads_of TBankStateEvent (snd (getBalance F ?BK env a denom st)) =
         Suc (reads_of TBankStateEvent st)" .
    show "((\<forall>e \<in> set (bankStateEvents ?db).
             \<not> (bse_address e = a \<and> bse_denom e = denom \<and> bse_blockHeight e \<le> ?h)) \<and>
          fst (getBalance F ?BK env a denom st) = Inr None) \<or>
         (\<exists>e \<in> set (bankStateEvents ?db).
            bse_address e = a \<and> bse_denom e = denom \<and> bse_blockHeight e \<le> ?h \<and>
            (\<forall>r \<in> set (bankStateEvents ?db).
               bse_address r = a \<and> bse_denom r = denom \<and> bse_blockHeight r \<le> ?h \<longrightarrow>
               bse_blockHeight r \<le> bse_blockHeight e) \<and>
            fst (getBalance F ?BK env a denom st) = Inr (Some (bse_balance e)))"
    proof (cases "BankStateEvent_findOne ?db a denom ?h")
      case None
      with res bank_findOne_rows [of ?db a denom ?h] show ?thesis by simp
    next
      case (Some e)
      with res bank_findOne_rows [of ?db a denom ?h e] show ?thesis by auto
    qed
  }
qed

theorem getBalance_snapshot_then_history_witness:
  "cache_events initial_state (getDependentKey BankBalance_ns [''C'']) = None \<and>
   cache_contracts initial_state ''C'' = None \<and>
   [''dao-dao-core''] \<noteq> [] \<and>
   fst (getBalance (\<lambda>ks. [42]) [''dao-dao-core''] (env_at example_bank_db 8) ''B'' ''ujuno''
          initial_state) = Inr (Some ''5'') \<and>
   reads_of TBankStateEvent
     (snd (getBalance (\<lambda>ks. [42]) [''dao-dao-core''] (env_at example_bank_db 8) ''B'' ''ujuno''
             initial_state)) = 0 \<and>
   fst (getBalance (\<lambda>ks. [42]) [''dao-dao-core''] (env_at example_bank_db 7) ''B'' ''ujuno''
          initial_state) = Inr None \<and>
   fst (getBalance (\<lambda>ks. [42]) [''dao-dao-core''] (env_at example_bank_db 24) ''D'' ''ujuno''
          initial_state) = Inr None \<and>
   reads_of TBankStateEvent
     (snd (getBalance (\<lambda>ks. [42]) [''dao-dao-core''] (env_at example_bank_db 24) ''D'' ''ujuno''
             initial_state)) = 0 \<and>
   fst (getBalance (\<lambda>ks. [42]) [''dao-dao-core''] (env_at example_bank_db 24) ''C'' ''ujuno''
          initial_state) = Inr (Some ''11'') \<and>
   fst (getBalance (\<lambda>ks. [42]) [''dao-dao-core''] (env_at example_bank_db 9) ''C'' ''ujuno''
          initial_state) = Inr (Some ''11'') \<and>
   fst (getBalance (\<lambda>ks. [42]) [''dao-dao-core''] (env_at example_bank_db 8) ''C'' ''ujuno''
          initial_state) = Inr (Some ''9'') \<and>
   fst (getBalance (\<lambda>ks. [42]) [''dao-dao-core''] (env_at example_bank_db 24) ''C'' ''uatom''
          initial_state) = Inr (Some ''77'') \<and>
   fst (getBalance (\<lambda>ks. [42]) [''dao-dao-core''] (env_at example_bank_db 6) ''C'' ''ujuno''
          initial_state) = Inr None \<and>
   reads_of TBankStateEvent
     (snd (getBalance (\<lambda>ks. [42]) [''dao-dao-core''] (env_at example_bank_db 24) ''C'' ''ujuno''
             initial_state)) = 1 \<and>
   new_actions initial_state
     (snd (getBalance (\<lambda>ks. [42]) [''dao-dao-core''] (env_at example_bank_db 24) ''C'' ''ujuno''
             initial_state)) =
     [Read TBankBalance, Read TContract,
      Push \<lparr>dk_key = getDependentKey BankStateEvent_ns [''C'', ''ujuno''], dk_prefix = False\<rparr>,
      Read TBankStateEvent,
      OnFetch [BankStateEvent \<lparr>bse_address = ''C'', bse_denom = ''ujuno'', bse_blockHeight = 9,
                                bse_blockTimeUnixMs = 900, bse_balance = ''11''\<rparr>]]"
proof -
  let ?env = "env_at example_bank_db 24"
  let ?F = "\<lambda>ks::string list. [42::int]"
  let ?BK = "[''dao-dao-core'']"
  note defs = new_actions_def balance_defs Let_def example_defs example_bank_db_def
    push_dependentKey_def read_db_def call_onFetch_def set_cache_event_def getDependentKey_def
    BankBalance_ns_def BankStateEvent_ns_def reads_of_def
  have fresh: "cache_events initial_state (getDependentKey BankBalance_ns [''C'']) = None"
    and memo: "cache_contracts initial_state ''C'' = None \<or>
         cache_contracts initial_state ''C'' =
           Some (find (\<lambda>c. ct_address c = ''C'') (contracts (opt_db ?env)))"
    and hist: "cache_events initial_state (getDependentKey BankStateEvent_ns [''C'', ''ujuno'']) = None"
    and zero: "reads_of TBankStateEvent initial_state = 0"
    by (simp_all add: initial_state_def reads_of_def)
  have keys: "?BK \<noteq> []" by simp
  have noneC: "\<forall>b \<in> set (bankBalances (opt_db ?env)).
                 \<not> (bb_address b = ''C'' \<and> bb_blockHeight b \<le> blk_height (opt_block ?env))"
    by (simp add: example_bank_db_def example_db_def env_at_def)
  have cC: "\<exists>c. find (\<lambda>c. ct_address c = ''C'') (contracts (opt_db ?env)) = Some c \<and>
                ct_codeId c \<in> set (?F ?BK)"
    by (simp add: example_bank_db_def example_db_def env_at_def)
  from getBalance_snapshot_then_history [OF fresh memo keys, of ?F "''ujuno''"] noneC cC hist
  have rd: "reads_of TBankStateEvent (snd (getBalance ?F ?BK ?env ''C'' ''ujuno'' initial_state)) =
              Suc (reads_of TBankStateEvent initial_state)"
    by blast
  have v: "fst (getBalance ?F ?BK (env_at example_bank_db 8) ''B'' ''ujuno'' initial_state) =
             Inr (Some ''5'')"
    "reads_of TBankStateEvent
       (snd (getBalance ?F ?BK (env_at example_bank_db 8) ''B'' ''ujuno'' initial_state)) = 0"
    "fst (getBalance ?F ?BK (env_at example_bank_db 7) ''B'' ''ujuno'' initial_state) = Inr None"
    "fst (getBalance ?F ?BK ?env ''D'' ''ujuno'' initial_state) = Inr None"
    "reads_of TBankStateEvent (snd (getBalance ?F ?BK ?env ''D'' ''ujuno'' initial_state)) = 0"
    "fst (getBalance ?F ?BK ?env ''C'' ''ujuno'' initial_state) = Inr (Some ''11'')"
    "fst (getBalance ?F ?BK (env_at example_bank_db 9) ''C'' ''ujuno'' initial_state) =
       Inr (Some ''11'')"
    "fst (getBalance ?F ?BK (env_at example_bank_db 8) ''C'' ''ujuno'' initial_state) =
       Inr (Some ''9'')"
    "fst (getBalance ?F ?BK ?env ''C'' ''uatom'' initial_state) = Inr (Some ''77'')"
    "fst (getBalance ?F ?BK (env_at example_bank_db 6) ''C'' ''ujuno'' initial_state) = Inr None"
    by (simp_all add: defs)
  have tr: "new_actions initial_state
     (snd (getBalance ?F ?BK ?env ''C'' ''ujuno'' initial_state)) =
     [Read TBankBalance, Read TContract,
      Push \<lparr>dk_key = getDependentKey BankStateEvent_ns [''C'', ''ujuno''], dk_prefix = False\<rparr>,
      Read TBankStateEvent,
      OnFetch [BankStateEvent \<lparr>bse_address = ''C'', bse_denom = ''ujuno'', bse_blockHeight = 9,
                                bse_blockTimeUnixMs = 900, bse_balance = ''11''\<rparr>]]"
    by (simp add: defs)
  from fresh keys rd zero v tr show ?thesis
    by (simp add: initial_state_def)
qed




text \<open>
  C5 says that every positive read invokes the \<^verbatim>\<open>onFetch\<close> hook with the fetched rows.
  Two getters do not. With a hook supplied, \<^verbatim>\<open>getTxEvents\<close> finds a transaction row
  and returns it, and its only effects are the dependency push and the query: the hook is
  never called. \<^verbatim>\<open>prefetchTransformations\<close> fetches a transformation row and stores it
  in the memo, and calls the hook with the empty list.
\<close>

theorem onFetch_skipped_on_positive_reads:
  "opt_onFetch (env_at example_db 24) \<and>
   fst (getTxEvents (env_at example_db 24) ''A'' [] initial_state) = Some [example_tx] \<and>
   trace (snd (getTxEvents (env_at example_db 24) ''A'' [] initial_state)) =
     [Push \<lparr>dk_key = getDependentKey WasmTxEvent_ns [''A''], dk_prefix = True\<rparr>,
      Read TWasmTxEvent] \<and>
   cache_events
     (snd (prefetchTransformations (env_at example_db 24) ''A'' [PName ''config''] initial_state))
     (getDependentKey WasmStateEventTransformation_ns [''A'', ''config'']) =
     Some (Some [WasmStateEventTransformation example_transformation]) \<and>
   trace (snd (prefetchTransformations (env_at example_db 24) ''A'' [PName ''config'']
                 initial_state)) =
     [Push \<lparr>dk_key = getDependentKey WasmStateEventTransformation_ns [''A'', ''config''],
            dk_prefix = False\<rparr>,
      Read TWasmStateEventTransformation,
      OnFetch []]"
  by (simp add: getTxEvents_def prefetchTransformations_def Let_def example_defs
      push_dependentKey_def read_db_def call_onFetch_def set_cache_event_def
      distinct_on_latest_def prefetch_nameFilter_def cache_nonMapName_def
      transformation_entry_of_def map_filter_simps ends_with_def order_desc_def
      without_contract_def)

text \<open>
  C7, as the code has it. For every request that passes the route, API key, rate limit,
  address and formula name checks: a blocks range whose two blocks parse and whose start
  height is not below its end height, a times range whose two times parse and whose start
  is not below its end, a blockStep supplied together with a blocks range that is not an
  integer of at least 1, and a timeStep supplied together with a times range that is not
  an integer of at least 1, are each answered with status 400, with no call that spends
  credit, evaluates a formula or touches the Computation table, and with the table
  unchanged. A step is read only inside the branch of its own range.
\<close>

theorem malformed_range_rejected:
  assumes "admit sv srv req = Inr ad"
  shows
    "(supplied (rq_blocks req) = Some s \<and>
      truthy_at (split_dots [] s) 0 = Some a \<and> truthy_at (split_dots [] s) 1 = Some b \<and>
      sv_validateBlockString sv a ''the start block'' = Inr b0 \<and>
      sv_validateBlockString sv b ''the end block'' = Inr b1 \<and>
      blk_height b1 \<le> blk_height b0 \<longrightarrow>
        rsp_status (out_response (computer sv srv stored req)) = 400 \<and>
        out_calls (computer sv srv stored req) = [] \<and>
        out_computations (computer sv srv stored req) = stored) \<and>
     (supplied (rq_times req) = Some s \<and>
      truthy_at (split_dots [] s) 0 = Some a \<and> truthy_at (split_dots [] s) 1 = Some b \<and>
      sv_BigInt sv a = Some t0 \<and> sv_BigInt sv b = Some t1 \<and> t1 \<le> t0 \<longrightarrow>
        rsp_status (out_response (computer sv srv stored req)) = 400 \<and>
        out_calls (computer sv srv stored req) = [] \<and>
        out_computations (computer sv srv stored req) = stored) \<and>
     (supplied (rq_blocks req) \<noteq> None \<and> supplied (rq_blockStep req) = Some step \<and>
      (\<forall>n. sv_BigInt sv step = Some n \<longrightarrow> n < 1) \<longrightarrow>
        rsp_status (out_response (computer sv srv stored req)) = 400 \<and>
        out_calls (computer sv srv stored req) = [] \<and>
        out_computations (computer sv srv stored req) = stored) \<and>
     (supplied (rq_times req) \<noteq> None \<and> supplied (rq_timeStep req) = Some step \<and>
      (\<forall>n. sv_BigInt sv step = Some n \<longrightarrow> n < 1) \<longrightarrow>
        rsp_status (out_response (computer sv srv stored req)) = 400 \<and>
        out_calls (computer sv srv stored req) = [] \<and>
        out_computations (computer sv srv stored req) = stored)"
proof -
  have rej: "rsp_status (out_response (computer sv srv stored req)) = 400 \<and>
        out_calls (computer sv srv stored req) = [] \<and>
        out_computations (computer sv srv stored req) = stored"
    if "\<exists>r. validate_query sv req = Inl r"
  proof -
    from that obtain r where r: "validate_query sv req = Inl r" by blast
    from computer_rejects [OF assms r, of stored] validate_query_400 [OF r]
    show ?thesis by simp
  qed
  show ?thesis
  proof (intro conjI impI)
    assume "supplied (rq_blocks req) = Some s \<and>
      truthy_at (split_dots [] s) 0 = Some a \<and> truthy_at (split_dots [] s) 1 = Some b \<and>
      sv_validateBlockString sv a ''the start block'' = Inr b0 \<and>
      sv_validateBlockString sv b ''the end block'' = Inr b1 \<and>
      blk_height b1 \<le> blk_height b0"
    then have "\<exists>r. validate_blocks sv req = Inl r"
      using blocks_bad_order [of req s a b sv b0 b1] by blast
    then have "\<exists>r. validate_query sv req = Inl r"
      using validate_query_blocks_Inl by blast
    from rej [OF this]
    show "rsp_status (out_response (computer sv srv stored req)) = 400"
      "out_calls (computer sv srv stored req) = []"
      "out_computations (computer sv srv stored req) = stored"
      by simp_all
  next
    assume "supplied (rq_times req) = Some s \<and>
      truthy_at (split_dots [] s) 0 = Some a \<and> truthy_at (split_dots [] s) 1 = Some b \<and>
      sv_BigInt sv a = Some t0 \<and> sv_BigInt sv b = Some t1 \<and> t1 \<le> t0"
    then have "\<exists>r. validate_times sv req = Inl r"
      using times_bad_order [of req s a b sv t0 t1] by blast
    then have "\<exists>r. validate_query sv req = Inl r"
      using validate_query_times_Inl by blast
    from rej [OF this]
    show "rsp_status (out_response (computer sv srv stored req)) = 400"
      "out_calls (computer sv srv stored req) = []"
      "out_computations (computer sv srv stored req) = stored"
      by simp_all
  next
    assume "supplied (rq_blocks req) \<noteq> None \<and> supplied (rq_blockStep req) = Some step \<and>
      (\<forall>n. sv_BigInt sv step = Some n \<longrightarrow> n < 1)"
    then have "\<exists>r. validate_blocks sv req = Inl r"
      using blocks_bad_step [of req step sv] by blast
    then have "\<exists>r. validate_query sv req = Inl r"
      using validate_query_blocks_Inl by blast
    from rej [OF this]
    show "rsp_status (out_response (computer sv srv stored req)) = 400"
      "out_calls (computer sv srv stored req) = []"
      "out_computations (computer sv srv stored req) = stored"
      by simp_all
  next
    assume "supplied (rq_times req) \<noteq> None \<and> supplied (rq_timeStep req) = Some step \<and>
      (\<forall>n. sv_BigInt sv step = Some n \<longrightarrow> n < 1)"
    then have "\<exists>r. validate_times sv req = Inl r"
      using times_bad_step [of req step sv] by blast
    then have "\<exists>r. validate_query sv req = Inl r"
      using validate_query_times_Inl by blast
    from rej [OF this]
    show "rsp_status (out_response (computer sv srv stored req)) = 400"
      "out_calls (computer sv srv stored req) = []"
      "out_computations (computer sv srv stored req) = stored"
      by simp_all
  qed
qed

theorem malformed_range_rejected_witness:
  "admit example_services example_server
     (example_request ''item'' (QString ''30:3000..10:1000'') QAbsent QAbsent QAbsent) =
     Inr \<lparr>ad_accountKey = None, ad_type = FormulaContract, ad_address = ''A'',
          ad_formulaName = ''item'', ad_testRateLimit = (\<lambda>ip. None)\<rparr> \<and>
   blk_height (example_block 10) \<le> blk_height (example_block 30) \<and>
   rsp_status (out_response (computer example_services example_server []
      (example_request ''item'' (QString ''30:3000..10:1000'') QAbsent QAbsent QAbsent))) = 400 \<and>
   out_calls (computer example_services example_server []
      (example_request ''item'' (QString ''30:3000..10:1000'') QAbsent QAbsent QAbsent)) = [] \<and>
   rsp_status (out_response (computer example_services example_server []
      (example_request ''item'' QAbsent QAbsent (QString ''3000..1000'') QAbsent))) = 400 \<and>
   sv_BigInt example_services ''0'' = Some 0 \<and>
   rsp_status (out_response (computer example_services example_server []
      (example_request ''item'' (QString ''10:1000..30:3000'') (QString ''0'') QAbsent QAbsent))) =
     400 \<and>
   rsp_status (out_response (computer example_services example_server []
      (example_request ''item'' QAbsent QAbsent (QString ''1000..3000'') (QString ''0'')))) = 400"
proof -
  let ?ad = "\<lparr>ad_accountKey = None, ad_type = FormulaContract, ad_address = ''A'',
          ad_formulaName = ''item'', ad_testRateLimit = (\<lambda>ip. None)\<rparr>"
  have ad: "\<And>bs bstep ts tstep.
     admit example_services example_server (example_request ''item'' bs bstep ts tstep) = Inr ?ad"
    using example_admit [of "''item''"] by simp
  have big: "sv_BigInt example_services ''0'' = Some 0"
    "sv_BigInt example_services ''1000'' = Some 1000"
    "sv_BigInt example_services ''3000'' = Some 3000"
    and vb: "sv_validateBlockString example_services ''30:3000'' ''the start block'' =
               Inr (example_block 30)"
    "sv_validateBlockString example_services ''10:1000'' ''the end block'' =
               Inr (example_block 10)"
    by (simp_all add: example_services_def)
  have h: "blk_height (example_block 10) \<le> blk_height (example_block 30)"
    by (simp add: example_block_def)
  have sp: "truthy_at (split_dots [] ''30:3000..10:1000'') 0 = Some ''30:3000''"
    "truthy_at (split_dots [] ''30:3000..10:1000'') 1 = Some ''10:1000''"
    "truthy_at (split_dots [] ''3000..1000'') 0 = Some ''3000''"
    "truthy_at (split_dots [] ''3000..1000'') 1 = Some ''1000''"
    by (simp_all add: truthy_at_def)
  have rq: "\<And>n bs bstep ts tstep. rq_blocks (example_request n bs bstep ts tstep) = bs"
    "\<And>n bs bstep ts tstep. rq_blockStep (example_request n bs bstep ts tstep) = bstep"
    "\<And>n bs bstep ts tstep. rq_times (example_request n bs bstep ts tstep) = ts"
    "\<And>n bs bstep ts tstep. rq_timeStep (example_request n bs bstep ts tstep) = tstep"
    by (simp_all add: example_request_def)
  note t1 = malformed_range_rejected [OF ad, of "QString ''30:3000..10:1000''" QAbsent QAbsent
      QAbsent "''30:3000..10:1000''" "''30:3000''" "''10:1000''" "example_block 30"
      "example_block 10" "[]"]
  note t2 = malformed_range_rejected [OF ad, of QAbsent QAbsent "QString ''3000..1000''"
      QAbsent "''3000..1000''" "''3000''" "''1000''" _ _ "[]" 3000 1000]
  note t3 = malformed_range_rejected [OF ad, of "QString ''10:1000..30:3000''" "QString ''0''"
      QAbsent QAbsent _ _ _ _ _ "[]" _ _ "''0''"]
  note t4 = malformed_range_rejected [OF ad, of QAbsent QAbsent "QString ''1000..3000''"
      "QString ''0''" _ _ _ _ _ "[]" _ _ "''0''"]
  from t1 vb h sp have c1:
    "rsp_status (out_response (computer example_services example_server []
      (example_request ''item'' (QString ''30:3000..10:1000'') QAbsent QAbsent QAbsent))) = 400"
    "out_calls (computer example_services example_server []
      (example_request ''item'' (QString ''30:3000..10:1000'') QAbsent QAbsent QAbsent)) = []"
    by (simp_all add: rq)
  from t2 big sp have c2:
    "rsp_status (out_response (computer example_services example_server []
      (example_request ''item'' QAbsent QAbsent (QString ''3000..1000'') QAbsent))) = 400"
    by (simp add: rq)
  from t3 big have c3:
    "rsp_status (out_response (computer example_services example_server []
      (example_request ''item'' (QString ''10:1000..30:3000'') (QString ''0'') QAbsent QAbsent))) =
     400"
    by (simp add: rq)
  from t4 big have c4:
    "rsp_status (out_response (computer example_services example_server []
      (example_request ''item'' QAbsent QAbsent (QString ''1000..3000'') (QString ''0'')))) = 400"
    by (simp add: rq)
  from ad h c1 c2 big(1) c3 c4 show ?thesis by simp
qed

text \<open>
  The claim as stated fails for a step supplied without its own range: the block step
  \<open>0\<close> beside a times range is never read, and the request is evaluated over the range.
\<close>

theorem unpaired_step_counterexample:
  "supplied (rq_blockStep (example_request ''item'' QAbsent (QString ''0'')
                             (QString ''1000..3000'') QAbsent)) = Some ''0'' \<and>
   sv_BigInt example_services ''0'' = Some 0 \<and>
   rsp_status (out_response (computer example_services example_server []
      (example_request ''item'' QAbsent (QString ''0'') (QString ''1000..3000'') QAbsent))) = 200 \<and>
   out_calls (computer example_services example_server []
      (example_request ''item'' QAbsent (QString ''0'') (QString ''1000..3000'') QAbsent)) =
     [FindStartComputation 10, ComputeRange (example_block 10) (example_block 30)]"
  by (simp add: endpoint_defs example_endpoint_defs)

text \<open>
  C6. For every request that passes the route, API key and rate limit checks, whose
  formula is found and declared dynamic, and that supplies a block range or a time range:
  the endpoint makes no call that spends credit, evaluates a formula or touches the
  Computation table, leaves the table unchanged, and answers with a user error: 400 when
  a query parameter is malformed, 404 or 405 when the contract or validator is missing or
  the formula does not apply to it, and otherwise 400 with the message that a dynamic
  formula cannot be computed over a range.
\<close>

theorem dynamic_formula_over_range_rejected:
  assumes "admit sv srv req = Inr ad"
    and "sv_getTypedFormula sv (ad_type ad) (ad_formulaName ad) = FormulaFound tf"
    and "f_dynamic (tfm_formula tf)"
    and "supplied (rq_blocks req) \<noteq> None \<or> supplied (rq_times req) \<noteq> None"
  shows "out_calls (computer sv srv stored req) = [] \<and>
         out_computations (computer sv srv stored req) = stored \<and>
         (rsp_status (out_response (computer sv srv stored req)) = 400 \<or>
          rsp_status (out_response (computer sv srv stored req)) = 404 \<or>
          rsp_status (out_response (computer sv srv stored req)) = 405) \<and>
         ((\<exists>q. validate_query sv req = Inr q) \<and>
          check_target sv tf (ad_address ad) (ad_formulaName ad) = None \<longrightarrow>
            out_response (computer sv srv stored req) = reply 400 dynamic_over_range_message)"
proof (cases "validate_query sv req")
  case (Inl r)
  from computer_rejects [OF assms(1) Inl, of stored] validate_query_400 [OF Inl] Inl
  show ?thesis by simp
next
  case (Inr q)
  from validate_query_supplied(1,2) [OF Inr] assms(4)
  have rng: "q_blocks q \<noteq> None \<or> q_times q \<noteq> None" by blast
  note ev = evaluate_dynamic [OF assms(2,3) rng, of "srv_state srv" "rq_args req" stored]
  show ?thesis
  proof (cases "check_target sv tf (ad_address ad) (ad_formulaName ad)")
    case None
    with ev assms(1) Inr show ?thesis by (simp add: computer_def)
  next
    case (Some r)
    from check_target_status [OF Some] ev assms(1) Inr Some
    show ?thesis by (auto simp: computer_def)
  qed
qed

theorem dynamic_formula_over_range_rejected_witness:
  "admit example_services example_server
     (example_request ''now'' (QString ''10:1000..30:3000'') QAbsent QAbsent QAbsent) =
     Inr \<lparr>ad_accountKey = None, ad_type = FormulaContract, ad_address = ''A'',
          ad_formulaName = ''now'', ad_testRateLimit = (\<lambda>ip. None)\<rparr> \<and>
   sv_getTypedFormula example_services FormulaContract ''now'' =
     FormulaFound (example_formula FormulaContract ''now'' True) \<and>
   f_dynamic (tfm_formula (example_formula FormulaContract ''now'' True)) \<and>
   supplied (rq_blocks (example_request ''now'' (QString ''10:1000..30:3000'') QAbsent QAbsent
                          QAbsent)) = Some ''10:1000..30:3000'' \<and>
   out_response (computer example_services example_server []
      (example_request ''now'' (QString ''10:1000..30:3000'') QAbsent QAbsent QAbsent)) =
     reply 400 dynamic_over_range_message \<and>
   out_calls (computer example_services example_server []
      (example_request ''now'' (QString ''10:1000..30:3000'') QAbsent QAbsent QAbsent)) = [] \<and>
   out_computations (computer example_services example_server []
      (example_request ''now'' (QString ''10:1000..30:3000'') QAbsent QAbsent QAbsent)) = []"
proof -
  let ?req = "example_request ''now'' (QString ''10:1000..30:3000'') QAbsent QAbsent QAbsent"
  let ?ad = "\<lparr>ad_accountKey = None, ad_type = FormulaContract, ad_address = ''A'',
          ad_formulaName = ''now'', ad_testRateLimit = (\<lambda>ip. None)\<rparr>"
  let ?tf = "example_formula FormulaContract ''now'' True"
  have ad: "admit example_services example_server ?req = Inr ?ad"
    using example_admit [of "''now''"] by simp
  have f: "sv_getTypedFormula example_services (ad_type ?ad) (ad_formulaName ?ad) = FormulaFound ?tf"
    by (simp add: example_services_def)
  have d: "f_dynamic (tfm_formula ?tf)"
    by (simp add: example_formula_def)
  have s: "supplied (rq_blocks ?req) \<noteq> None \<or> supplied (rq_times ?req) \<noteq> None"
    by (simp add: example_request_def)
  have v: "\<exists>q. validate_query example_services ?req = Inr q"
    by (simp add: validate_query_def validate_block_def validate_blocks_def validate_time_def
        validate_times_def validate_step_def truthy_at_def example_endpoint_defs)
  have c: "check_target example_services ?tf (ad_address ?ad) (ad_formulaName ?ad) = None"
    by (simp add: check_target_def example_endpoint_defs)
  from dynamic_formula_over_range_rejected [OF ad f d s, of "[]"] v c ad f d
  show ?thesis by (simp add: example_request_def)
qed

text \<open>
  C9, as the code has it. Whenever a request supplies a blockStep together with a blocks
  range, or a timeStep together with a times range, the endpoint never consults stored
  Computation records: it makes no call that reads or writes the Computation table,
  leaves the table unchanged, and its response does not depend on the stored
  computations. When such a request, for a formula that is found, applies to the target
  and is not dynamic, reaches the range branch (the caller's key is not a test key and
  the range resolves to two blocks) and credit is granted, the only evaluation call is
  one \<^verbatim>\<open>computeRange\<close> over the whole range, from the start block to the end block capped
  at the latest block, even if a continuous stored chain covers the range. Under a test
  key, or when the time range does not resolve to two blocks, the request is evaluated at
  a single block by \<^verbatim>\<open>compute\<close> and \<^verbatim>\<open>computeRange\<close> is not called. A step is read
  only inside the branch of its own range: with no blocks range the blockStep parameter,
  and with no times range the timeStep parameter, has no effect on the outcome at all, so
  it does not disable reuse.
\<close>

theorem step_disables_reuse:
  "((supplied (rq_blocks req) \<noteq> None \<and> supplied (rq_blockStep req) \<noteq> None) \<or>
    (supplied (rq_times req) \<noteq> None \<and> supplied (rq_timeStep req) \<noteq> None) \<longrightarrow>
      list_all (\<lambda>c. \<not> is_store_call c) (out_calls (computer sv srv stored req)) \<and>
      out_computations (computer sv srv stored req) = stored \<and>
      out_response (computer sv srv stored req) = out_response (computer sv srv stored' req)) \<and>
   (((supplied (rq_blocks req) \<noteq> None \<and> supplied (rq_blockStep req) \<noteq> None) \<or>
     (supplied (rq_times req) \<noteq> None \<and> supplied (rq_timeStep req) \<noteq> None)) \<and>
    admit sv srv req = Inr ad \<and> validate_query sv req = Inr q \<and>
    sv_getTypedFormula sv (ad_type ad) (ad_formulaName ad) = FormulaFound tf \<and>
    check_target sv tf (ad_address ad) (ad_formulaName ad) = None \<and>
    \<not> f_dynamic (tfm_formula tf) \<and>
    \<not> (\<exists>k. ad_accountKey ad = Some k \<and> ak_isTest k) \<and>
    fst (resolve_times sv (srv_state srv) False q) = Some (bs, be) \<and>
    (\<forall>k. ad_accountKey ad = Some k \<longrightarrow>
       sv_useCredit sv k
         (sv_creditsForBlockInterval sv
            (blk_height (capped (srv_state srv) be) - blk_height bs + 1))) \<longrightarrow>
      out_calls (computer sv srv stored req) =
        (case ad_accountKey ad of
           None \<Rightarrow> []
         | Some k \<Rightarrow>
             [UseCredit (sv_creditsForBlockInterval sv
                (blk_height (capped (srv_state srv) be) - blk_height bs + 1))]) @
        [ComputeRange bs (capped (srv_state srv) be)]) \<and>
   (((supplied (rq_blocks req) \<noteq> None \<and> supplied (rq_blockStep req) \<noteq> None) \<or>
     (supplied (rq_times req) \<noteq> None \<and> supplied (rq_timeStep req) \<noteq> None)) \<and>
    admit sv srv req = Inr ad \<and> validate_query sv req = Inr q \<and>
    sv_getTypedFormula sv (ad_type ad) (ad_formulaName ad) = FormulaFound tf \<and>
    check_target sv tf (ad_address ad) (ad_formulaName ad) = None \<and>
    \<not> f_dynamic (tfm_formula tf) \<and>
    ((\<exists>k. ad_accountKey ad = Some k \<and> ak_isTest k) \<or>
     fst (resolve_times sv (srv_state srv) False q) = None) \<longrightarrow>
      out_calls (computer sv srv stored req) =
        (case ad_accountKey ad of None \<Rightarrow> [] | Some k \<Rightarrow> [UseCredit 1]) @
        [Compute (case resolve_time sv q of
                    None \<Rightarrow> st_latestBlock (srv_state srv) | Some b \<Rightarrow> b)]) \<and>
   (supplied (rq_blocks req) = None \<longrightarrow>
      computer sv srv stored (req\<lparr>rq_blockStep := p\<rparr>) = computer sv srv stored req) \<and>
   (supplied (rq_times req) = None \<longrightarrow>
      computer sv srv stored (req\<lparr>rq_timeStep := p\<rparr>) = computer sv srv stored req)"
proof (intro conjI impI)
  assume paired: "(supplied (rq_blocks req) \<noteq> None \<and> supplied (rq_blockStep req) \<noteq> None) \<or>
    (supplied (rq_times req) \<noteq> None \<and> supplied (rq_timeStep req) \<noteq> None)"
  have steps: "q_blockStep q \<noteq> None \<or> q_timeStep q \<noteq> None"
    if "validate_query sv req = Inr q" for q
    using validate_query_supplied(3,4) [OF that] paired by blast
  have a: "list_all (\<lambda>c. \<not> is_store_call c) (out_calls (computer sv srv stored req)) \<and>
         out_computations (computer sv srv stored req) = stored \<and>
         out_response (computer sv srv stored req) = out_response (computer sv srv stored' req)"
  proof (cases "admit sv srv req")
    case (Inl x)
    then show ?thesis by (simp add: computer_def split: prod.splits)
  next
    case (Inr ad)
    show ?thesis
    proof (cases "validate_query sv req")
      case (Inl r)
      with Inr show ?thesis by (simp add: computer_def)
    next
      case (Inr q)
      from evaluate_step_props [OF steps [OF Inr], of sv "srv_state srv" ad "rq_args req"
          stored stored'] \<open>admit sv srv req = Inr ad\<close> Inr
      show ?thesis by (simp add: computer_def split_def Let_def)
    qed
  qed
  from a show "list_all (\<lambda>c. \<not> is_store_call c) (out_calls (computer sv srv stored req))"
    "out_computations (computer sv srv stored req) = stored"
    "out_response (computer sv srv stored req) = out_response (computer sv srv stored' req)"
    by blast+
next
  assume h: "((supplied (rq_blocks req) \<noteq> None \<and> supplied (rq_blockStep req) \<noteq> None) \<or>
     (supplied (rq_times req) \<noteq> None \<and> supplied (rq_timeStep req) \<noteq> None)) \<and>
    admit sv srv req = Inr ad \<and> validate_query sv req = Inr q \<and>
    sv_getTypedFormula sv (ad_type ad) (ad_formulaName ad) = FormulaFound tf \<and>
    check_target sv tf (ad_address ad) (ad_formulaName ad) = None \<and>
    \<not> f_dynamic (tfm_formula tf) \<and>
    \<not> (\<exists>k. ad_accountKey ad = Some k \<and> ak_isTest k) \<and>
    fst (resolve_times sv (srv_state srv) False q) = Some (bs, be) \<and>
    (\<forall>k. ad_accountKey ad = Some k \<longrightarrow>
       sv_useCredit sv k
         (sv_creditsForBlockInterval sv
            (blk_height (capped (srv_state srv) be) - blk_height bs + 1)))"
  then have q: "validate_query sv req = Inr q" and ad: "admit sv srv req = Inr ad"
    and f: "sv_getTypedFormula sv (ad_type ad) (ad_formulaName ad) = FormulaFound tf"
    and c: "check_target sv tf (ad_address ad) (ad_formulaName ad) = None"
    and d: "\<not> f_dynamic (tfm_formula tf)"
    and t: "\<not> (\<exists>k. ad_accountKey ad = Some k \<and> ak_isTest k)"
    and r: "fst (resolve_times sv (srv_state srv) False q) = Some (bs, be)"
    and cr: "\<forall>k. ad_accountKey ad = Some k \<longrightarrow>
       sv_useCredit sv k
         (sv_creditsForBlockInterval sv
            (blk_height (capped (srv_state srv) be) - blk_height bs + 1))"
    by simp_all
  from h have paired:
    "(supplied (rq_blocks req) \<noteq> None \<and> supplied (rq_blockStep req) \<noteq> None) \<or>
     (supplied (rq_times req) \<noteq> None \<and> supplied (rq_timeStep req) \<noteq> None)"
    by simp
  from paired validate_query_supplied(3,4) [OF q]
  have steps: "q_blockStep q \<noteq> None \<or> q_timeStep q \<noteq> None" by auto
  have ev: "evaluate sv (srv_state srv) ad (rq_args req) q stored =
      compute_ranged sv (srv_state srv) (ad_accountKey ad) tf (ad_address ad) (ad_formulaName ad)
        (rq_args req) (bs, be) (snd (resolve_times sv (srv_state srv) False q))
        (q_blockStep q) (q_timeStep q) stored"
    by (rule evaluate_ranged [OF f c d t r])
  have "snd (snd (compute_ranged sv (srv_state srv) (ad_accountKey ad) tf (ad_address ad)
          (ad_formulaName ad) (rq_args req) (bs, be)
          (snd (resolve_times sv (srv_state srv) False q)) (q_blockStep q) (q_timeStep q) stored)) =
        (case ad_accountKey ad of
           None \<Rightarrow> []
         | Some k \<Rightarrow>
             [UseCredit (sv_creditsForBlockInterval sv
                (blk_height (capped (srv_state srv) be) - blk_height bs + 1))]) @
        [ComputeRange bs (capped (srv_state srv) be)]"
    using cr
    by (auto simp: compute_ranged_step [OF steps] Let_def capped_def
        split: option.splits sum.splits)
  with ev ad q show "out_calls (computer sv srv stored req) =
        (case ad_accountKey ad of
           None \<Rightarrow> []
         | Some k \<Rightarrow>
             [UseCredit (sv_creditsForBlockInterval sv
                (blk_height (capped (srv_state srv) be) - blk_height bs + 1))]) @
        [ComputeRange bs (capped (srv_state srv) be)]"
    by (simp add: computer_def split_def Let_def)
next
  assume h: "((supplied (rq_blocks req) \<noteq> None \<and> supplied (rq_blockStep req) \<noteq> None) \<or>
     (supplied (rq_times req) \<noteq> None \<and> supplied (rq_timeStep req) \<noteq> None)) \<and>
    admit sv srv req = Inr ad \<and> validate_query sv req = Inr q \<and>
    sv_getTypedFormula sv (ad_type ad) (ad_formulaName ad) = FormulaFound tf \<and>
    check_target sv tf (ad_address ad) (ad_formulaName ad) = None \<and>
    \<not> f_dynamic (tfm_formula tf) \<and>
    ((\<exists>k. ad_accountKey ad = Some k \<and> ak_isTest k) \<or>
     fst (resolve_times sv (srv_state srv) False q) = None)"
  then have q: "validate_query sv req = Inr q" and ad: "admit sv srv req = Inr ad"
    and f: "sv_getTypedFormula sv (ad_type ad) (ad_formulaName ad) = FormulaFound tf"
    and c: "check_target sv tf (ad_address ad) (ad_formulaName ad) = None"
    and d: "\<not> f_dynamic (tfm_formula tf)"
    and t: "(\<exists>k. ad_accountKey ad = Some k \<and> ak_isTest k) \<or>
            fst (resolve_times sv (srv_state srv) False q) = None"
    by simp_all
  have ev: "evaluate sv (srv_state srv) ad (rq_args req) q stored =
      compute_single sv (srv_state srv) (ad_accountKey ad) tf (ad_address ad) (rq_args req)
        (resolve_time sv q) stored"
    by (rule evaluate_single [OF f c d t])
  with ad q show "out_calls (computer sv srv stored req) =
        (case ad_accountKey ad of None \<Rightarrow> [] | Some k \<Rightarrow> [UseCredit 1]) @
        [Compute (case resolve_time sv q of
                    None \<Rightarrow> st_latestBlock (srv_state srv) | Some b \<Rightarrow> b)]"
    by (simp add: computer_def split_def Let_def compute_single_call_list)
next
  assume "supplied (rq_blocks req) = None"
  then show "computer sv srv stored (req\<lparr>rq_blockStep := p\<rparr>) = computer sv srv stored req"
    by (rule computer_ignores_unpaired_step)
next
  assume "supplied (rq_times req) = None"
  then show "computer sv srv stored (req\<lparr>rq_timeStep := p\<rparr>) = computer sv srv stored req"
    by (rule computer_ignores_unpaired_step)
qed

theorem step_disables_reuse_witness:
  "supplied (rq_blocks (example_request ''item'' (QString ''10:1000..30:3000'') (QString ''5'')
                          QAbsent QAbsent)) = Some ''10:1000..30:3000'' \<and>
   supplied (rq_blockStep (example_request ''item'' (QString ''10:1000..30:3000'') (QString ''5'')
                             QAbsent QAbsent)) = Some ''5'' \<and>
   out_calls (computer example_services example_server [example_computation 10 30 ''1'']
      (example_request ''item'' (QString ''10:1000..30:3000'') (QString ''5'') QAbsent QAbsent)) =
     [ComputeRange (example_block 10) (example_block 30)] \<and>
   out_computations (computer example_services example_server [example_computation 10 30 ''1'']
      (example_request ''item'' (QString ''10:1000..30:3000'') (QString ''5'') QAbsent QAbsent)) =
     [example_computation 10 30 ''1''] \<and>
   out_calls (computer example_test_services example_server [example_computation 10 30 ''1'']
      ((example_request ''item'' (QString ''10:1000..30:3000'') (QString ''5'') QAbsent QAbsent)
         \<lparr>rq_paths := [''test'', ''contract'', ''A'', ''item'']\<rparr>)) =
     [UseCredit 1, Compute (example_block 40)] \<and>
   supplied (rq_times (example_request ''item'' QAbsent QAbsent (QString ''0..5'') (QString ''5'')))
     = Some ''0..5'' \<and>
   out_calls (computer example_services example_server [example_computation 10 30 ''1'']
      (example_request ''item'' QAbsent QAbsent (QString ''0..5'') (QString ''5''))) =
     [Compute (example_block 40)] \<and>
   supplied (rq_times (example_request ''item'' (QString ''10:1000..30:3000'') QAbsent QAbsent
                         QAbsent)) = None \<and>
   computer example_services example_server [example_computation 10 30 ''1'']
      (example_request ''item'' (QString ''10:1000..30:3000'') QAbsent QAbsent (QString ''5'')) =
   computer example_services example_server [example_computation 10 30 ''1'']
      (example_request ''item'' (QString ''10:1000..30:3000'') QAbsent QAbsent QAbsent)"
proof -
  let ?stored = "[example_computation 10 30 ''1'']"
  let ?tf = "example_formula FormulaContract ''item'' False"
  let ?r1 = "example_request ''item'' (QString ''10:1000..30:3000'') (QString ''5'') QAbsent QAbsent"
  let ?ad1 = "\<lparr>ad_accountKey = None, ad_type = FormulaContract, ad_address = ''A'',
               ad_formulaName = ''item'', ad_testRateLimit = (\<lambda>ip. None)\<rparr>"
  let ?q1 = "\<lparr>q_block = None, q_blocks = Some (example_block 10, example_block 30),
              q_blockStep = Some 5, q_time = None, q_times = None, q_timeStep = None\<rparr>"
  let ?r2 = "?r1\<lparr>rq_paths := [''test'', ''contract'', ''A'', ''item'']\<rparr>"
  let ?ad2 = "\<lparr>ad_accountKey = Some \<lparr>ak_id = 1, ak_isTest = True\<rparr>, ad_type = FormulaContract,
               ad_address = ''A'', ad_formulaName = ''item'',
               ad_testRateLimit = ((\<lambda>ip. None)(''ip'' \<mapsto> 0))\<rparr>"
  let ?r3 = "example_request ''item'' QAbsent QAbsent (QString ''0..5'') (QString ''5'')"
  let ?q3 = "\<lparr>q_block = None, q_blocks = None, q_blockStep = None, q_time = None,
              q_times = Some (0, Some 5), q_timeStep = Some 5\<rparr>"
  let ?r4 = "example_request ''item'' (QString ''10:1000..30:3000'') QAbsent QAbsent QAbsent"
  note vdefs = validate_query_def validate_block_def validate_blocks_def validate_time_def
    validate_times_def validate_step_def truthy_at_def
  have s1: "(supplied (rq_blocks ?r1) \<noteq> None \<and> supplied (rq_blockStep ?r1) \<noteq> None) \<or>
            (supplied (rq_times ?r1) \<noteq> None \<and> supplied (rq_timeStep ?r1) \<noteq> None)"
    and s2: "(supplied (rq_blocks ?r2) \<noteq> None \<and> supplied (rq_blockStep ?r2) \<noteq> None) \<or>
            (supplied (rq_times ?r2) \<noteq> None \<and> supplied (rq_timeStep ?r2) \<noteq> None)"
    and s3: "(supplied (rq_blocks ?r3) \<noteq> None \<and> supplied (rq_blockStep ?r3) \<noteq> None) \<or>
            (supplied (rq_times ?r3) \<noteq> None \<and> supplied (rq_timeStep ?r3) \<noteq> None)"
    and s4: "supplied (rq_times ?r4) = None"
    and s5: "supplied (rq_blocks ?r1) = Some ''10:1000..30:3000''"
      "supplied (rq_blockStep ?r1) = Some ''5''" "supplied (rq_times ?r3) = Some ''0..5''"
    by (simp_all add: example_request_def)
  have ad1: "admit example_services example_server ?r1 = Inr ?ad1"
    and ad3: "admit example_services example_server ?r3 = Inr ?ad1"
    using example_admit [of "''item''"] by simp_all
  have ad2: "admit example_test_services example_server ?r2 = Inr ?ad2"
    by (simp add: admit_def parse_route_def authenticate_def rate_limit_def
        typeIsFormulaTypeOrWallet_def FormulaTypeValues_def formula_type_of_def
        example_test_services_def example_endpoint_defs Let_def fun_eq_iff)
  have q1: "validate_query example_services ?r1 = Inr ?q1"
    and q3: "validate_query example_services ?r3 = Inr ?q3"
    by (simp_all add: vdefs example_endpoint_defs)
  have q2: "validate_query example_test_services ?r2 = Inr ?q1"
    by (simp add: vdefs example_test_services_def example_endpoint_defs)
  have f: "sv_getTypedFormula example_services FormulaContract ''item'' = FormulaFound ?tf"
    "sv_getTypedFormula example_test_services FormulaContract ''item'' = FormulaFound ?tf"
    and c: "check_target example_services ?tf ''A'' ''item'' = None"
    "check_target example_test_services ?tf ''A'' ''item'' = None"
    and d: "\<not> f_dynamic (tfm_formula ?tf)"
    by (simp_all add: check_target_def example_test_services_def example_endpoint_defs)
  have r1: "fst (resolve_times example_services (srv_state example_server) False ?q1) =
              Some (example_block 10, example_block 30)"
    and r3: "fst (resolve_times example_services (srv_state example_server) False ?q3) = None"
    by (simp_all add: resolve_times_def example_endpoint_defs Let_def)
  have cap: "capped (srv_state example_server) (example_block 30) = example_block 30"
    by (simp add: capped_def example_endpoint_defs)
  have rt: "resolve_time example_services ?q3 = None"
    "resolve_time example_test_services ?q1 = None"
    by (simp_all add: resolve_time_def)
  have latest: "st_latestBlock (srv_state example_server) = example_block 40"
    by (simp add: example_server_def)
  have h1: "((supplied (rq_blocks ?r1) \<noteq> None \<and> supplied (rq_blockStep ?r1) \<noteq> None) \<or>
       (supplied (rq_times ?r1) \<noteq> None \<and> supplied (rq_timeStep ?r1) \<noteq> None)) \<and>
      admit example_services example_server ?r1 = Inr ?ad1 \<and>
      validate_query example_services ?r1 = Inr ?q1 \<and>
      sv_getTypedFormula example_services (ad_type ?ad1) (ad_formulaName ?ad1) = FormulaFound ?tf \<and>
      check_target example_services ?tf (ad_address ?ad1) (ad_formulaName ?ad1) = None \<and>
      \<not> f_dynamic (tfm_formula ?tf) \<and>
      \<not> (\<exists>k. ad_accountKey ?ad1 = Some k \<and> ak_isTest k) \<and>
      fst (resolve_times example_services (srv_state example_server) False ?q1) =
        Some (example_block 10, example_block 30) \<and>
      (\<forall>k. ad_accountKey ?ad1 = Some k \<longrightarrow>
         sv_useCredit example_services k
           (sv_creditsForBlockInterval example_services
              (blk_height (capped (srv_state example_server) (example_block 30)) -
               blk_height (example_block 10) + 1)))"
    using s1 ad1 q1 f c d r1 by simp
  have h2: "((supplied (rq_blocks ?r2) \<noteq> None \<and> supplied (rq_blockStep ?r2) \<noteq> None) \<or>
       (supplied (rq_times ?r2) \<noteq> None \<and> supplied (rq_timeStep ?r2) \<noteq> None)) \<and>
      admit example_test_services example_server ?r2 = Inr ?ad2 \<and>
      validate_query example_test_services ?r2 = Inr ?q1 \<and>
      sv_getTypedFormula example_test_services (ad_type ?ad2) (ad_formulaName ?ad2) =
        FormulaFound ?tf \<and>
      check_target example_test_services ?tf (ad_address ?ad2) (ad_formulaName ?ad2) = None \<and>
      \<not> f_dynamic (tfm_formula ?tf) \<and>
      ((\<exists>k. ad_accountKey ?ad2 = Some k \<and> ak_isTest k) \<or>
       fst (resolve_times example_test_services (srv_state example_server) False ?q1) = None)"
    using s2 ad2 q2 f c d by simp
  have h3: "((supplied (rq_blocks ?r3) \<noteq> None \<and> supplied (rq_blockStep ?r3) \<noteq> None) \<or>
       (supplied (rq_times ?r3) \<noteq> None \<and> supplied (rq_timeStep ?r3) \<noteq> None)) \<and>
      admit example_services example_server ?r3 = Inr ?ad1 \<and>
      validate_query example_services ?r3 = Inr ?q3 \<and>
      sv_getTypedFormula example_services (ad_type ?ad1) (ad_formulaName ?ad1) = FormulaFound ?tf \<and>
      check_target example_services ?tf (ad_address ?ad1) (ad_formulaName ?ad1) = None \<and>
      \<not> f_dynamic (tfm_formula ?tf) \<and>
      ((\<exists>k. ad_accountKey ?ad1 = Some k \<and> ak_isTest k) \<or>
       fst (resolve_times example_services (srv_state example_server) False ?q3) = None)"
    using s3 ad3 q3 f c d r3 by simp
  note T = step_disables_reuse
  from T [where req = ?r1 and sv = example_services and srv = example_server
      and stored = ?stored, THEN conjunct1, THEN mp, OF s1]
  have c0: "out_computations (computer example_services example_server ?stored ?r1) = ?stored"
    by simp
  from T [where req = ?r1 and sv = example_services and srv = example_server
      and stored = ?stored and ad = ?ad1 and q = ?q1 and tf = ?tf and bs = "example_block 10"
      and be = "example_block 30", THEN conjunct2, THEN conjunct1, THEN mp, OF h1]
  have c1: "out_calls (computer example_services example_server ?stored ?r1) =
       [ComputeRange (example_block 10) (example_block 30)]"
    by (simp add: cap)
  from T [where req = ?r2 and sv = example_test_services and srv = example_server
      and stored = ?stored and ad = ?ad2 and q = ?q1 and tf = ?tf,
      THEN conjunct2, THEN conjunct2, THEN conjunct1, THEN mp, OF h2]
  have c2: "out_calls (computer example_test_services example_server ?stored ?r2) =
       [UseCredit 1, Compute (example_block 40)]"
    by (simp add: rt latest)
  from T [where req = ?r3 and sv = example_services and srv = example_server
      and stored = ?stored and ad = ?ad1 and q = ?q3 and tf = ?tf,
      THEN conjunct2, THEN conjunct2, THEN conjunct1, THEN mp, OF h3]
  have c3: "out_calls (computer example_services example_server ?stored ?r3) =
       [Compute (example_block 40)]"
    by (simp add: rt latest)
  from T [where req = ?r4 and sv = example_services and srv = example_server
      and stored = ?stored and p = "QString ''5''",
      THEN conjunct2, THEN conjunct2, THEN conjunct2, THEN conjunct2, THEN mp, OF s4]
  have c4:
    "computer example_services example_server ?stored (?r4\<lparr>rq_timeStep := QString ''5''\<rparr>) =
     computer example_services example_server ?stored ?r4" .
  have r4: "?r4\<lparr>rq_timeStep := QString ''5''\<rparr> =
      example_request ''item'' (QString ''10:1000..30:3000'') QAbsent QAbsent (QString ''5'')"
    by (simp add: example_request_def)
  from c0 c1 c2 c3 c4 [unfolded r4] s4 s5 show ?thesis
    by simp
qed

text \<open>
  The claim as stated fails for a step supplied without its own range: a time step beside
  a blocks range is never read, and the request is served from a stored computation
  without any call of \<^verbatim>\<open>computeRange\<close>.
\<close>

theorem unpaired_step_reuse_counterexample:
  "supplied (rq_timeStep (example_request ''item'' (QString ''10:1000..30:3000'') QAbsent
                            QAbsent (QString ''5''))) = Some ''5'' \<and>
   out_calls (computer example_services example_server [example_computation 10 30 ''1'']
      (example_request ''item'' (QString ''10:1000..30:3000'') QAbsent QAbsent (QString ''5''))) =
     [FindStartComputation 10, FindRestComputations 10 30,
      UpdateValidity (example_computation 10 30 ''1'') 30]"
  by (simp add: endpoint_defs example_endpoint_defs)

text \<open>
  C2. Range reuse in the compute endpoint. The chain read from the Computation table is the
  most recent stored computation at or below the start height, followed by exactly the stored
  computations above the start height and up to the end height, in ascending order of height.
  The chain counts as continuous exactly when every consecutive pair has the earlier one's
  \<^verbatim>\<open>latestBlockHeightValid\<close> equal to the later one's block height minus one. A chain that is
  not continuous is not reused and nothing more is called. On a continuous chain the endpoint
  calls \<^verbatim>\<open>updateValidityUpToBlockHeight\<close> with the end height on the last piece; when that
  succeeds the chain is served; when it fails, \<^verbatim>\<open>computeRange\<close> is invoked from the block of
  the last piece through the end block, its first result is dropped, the remaining results are
  stored and appended to the chain, and the validity of the new last piece is extended to the
  end height.
\<close>

theorem range_reuse_protocol:
  assumes "existingStartComputation sv a n as (blk_height b0) stored = Some s"
    and "cs = s # existingRestComputations sv a n as (blk_height b0) (blk_height b1) stored"
  shows
    "(s \<in> set stored \<and> computationWhere sv a n as s \<and> cmp_blockHeight s \<le> blk_height b0 \<and>
      (\<forall>c \<in> set stored. computationWhere sv a n as c \<and> cmp_blockHeight c \<le> blk_height b0 \<longrightarrow>
         cmp_blockHeight c \<le> cmp_blockHeight s)) \<and>
     (set (tl cs) =
        {c \<in> set stored. computationWhere sv a n as c \<and> blk_height b0 < cmp_blockHeight c \<and>
                          cmp_blockHeight c \<le> blk_height b1} \<and>
      sorted (map cmp_blockHeight (tl cs))) \<and>
     (isRangeCoveredBeforeEnd cs \<longleftrightarrow>
        (\<forall>i. Suc i < length cs \<longrightarrow>
           cmp_latestBlockHeightValid (cs ! i) = cmp_blockHeight (cs ! Suc i) - 1)) \<and>
     (\<not> isRangeCoveredBeforeEnd cs \<longrightarrow>
        range_reuse sv tf a n as (b0, b1) stored =
          (ReuseNone, stored,
           [FindStartComputation (blk_height b0),
            FindRestComputations (blk_height b0) (blk_height b1)])) \<and>
     (isRangeCoveredBeforeEnd cs \<and>
      sv_updateValidityUpToBlockHeight sv (last cs) (blk_height b1) stored = (True, storedU) \<longrightarrow>
        range_reuse sv tf a n as (b0, b1) stored =
          (reuse_of sv cs, storedU,
           [FindStartComputation (blk_height b0),
            FindRestComputations (blk_height b0) (blk_height b1),
            UpdateValidity (last cs) (blk_height b1)])) \<and>
     (isRangeCoveredBeforeEnd cs \<and>
      sv_updateValidityUpToBlockHeight sv (last cs) (blk_height b1) stored = (False, storedU) \<and>
      sv_computeRange sv tf a as (cmp_block (last cs)) b1 = Inl msg \<longrightarrow>
        range_reuse sv tf a n as (b0, b1) stored =
          (ReuseFormulaError msg, storedU,
           [FindStartComputation (blk_height b0),
            FindRestComputations (blk_height b0) (blk_height b1),
            UpdateValidity (last cs) (blk_height b1),
            ComputeRange (cmp_block (last cs)) b1])) \<and>
     (isRangeCoveredBeforeEnd cs \<and>
      sv_updateValidityUpToBlockHeight sv (last cs) (blk_height b1) stored = (False, storedU) \<and>
      sv_computeRange sv tf a as (cmp_block (last cs)) b1 = Inr computed \<and>
      sv_createFromComputationOutputs sv a tf as (tl computed) storedU = (created, storedC) \<and>
      sv_updateValidityUpToBlockHeight sv (last (cs @ created)) (blk_height b1) storedC =
        (valid, storedV) \<longrightarrow>
        range_reuse sv tf a n as (b0, b1) stored =
          (if valid then reuse_of sv (cs @ created) else ReuseNone, storedV,
           [FindStartComputation (blk_height b0),
            FindRestComputations (blk_height b0) (blk_height b1),
            UpdateValidity (last cs) (blk_height b1),
            ComputeRange (cmp_block (last cs)) b1,
            CreateFromComputationOutputs (tl computed),
            UpdateValidity (last (cs @ created)) (blk_height b1)]))"
proof -
  note unf = range_reuse_unfold [OF assms(1), of tf b1, folded assms(2)]
  have tlcs: "tl cs = existingRestComputations sv a n as (blk_height b0) (blk_height b1) stored"
    by (simp add: assms(2))
  show ?thesis
  proof (intro conjI impI)
    show "s \<in> set stored" "computationWhere sv a n as s" "cmp_blockHeight s \<le> blk_height b0"
      "\<forall>c \<in> set stored. computationWhere sv a n as c \<and> cmp_blockHeight c \<le> blk_height b0 \<longrightarrow>
         cmp_blockHeight c \<le> cmp_blockHeight s"
      using existingStart_most_recent [OF assms(1)] by blast+
  next
    show "set (tl cs) =
        {c \<in> set stored. computationWhere sv a n as c \<and> blk_height b0 < cmp_blockHeight c \<and>
                          cmp_blockHeight c \<le> blk_height b1}"
      "sorted (map cmp_blockHeight (tl cs))"
      unfolding tlcs using existingRest_ascending [of sv a n as "blk_height b0" "blk_height b1" stored]
      by blast+
  next
    show "isRangeCoveredBeforeEnd cs \<longleftrightarrow>
        (\<forall>i. Suc i < length cs \<longrightarrow>
           cmp_latestBlockHeightValid (cs ! i) = cmp_blockHeight (cs ! Suc i) - 1)"
      by (rule covered_iff)
  next
    assume "\<not> isRangeCoveredBeforeEnd cs"
    then show "range_reuse sv tf a n as (b0, b1) stored =
          (ReuseNone, stored,
           [FindStartComputation (blk_height b0),
            FindRestComputations (blk_height b0) (blk_height b1)])"
      by (simp add: unf Let_def)
  next
    assume "isRangeCoveredBeforeEnd cs \<and>
      sv_updateValidityUpToBlockHeight sv (last cs) (blk_height b1) stored = (True, storedU)"
    then show "range_reuse sv tf a n as (b0, b1) stored =
          (reuse_of sv cs, storedU,
           [FindStartComputation (blk_height b0),
            FindRestComputations (blk_height b0) (blk_height b1),
            UpdateValidity (last cs) (blk_height b1)])"
      by (simp add: unf Let_def)
  next
    assume "isRangeCoveredBeforeEnd cs \<and>
      sv_updateValidityUpToBlockHeight sv (last cs) (blk_height b1) stored = (False, storedU) \<and>
      sv_computeRange sv tf a as (cmp_block (last cs)) b1 = Inl msg"
    then show "range_reuse sv tf a n as (b0, b1) stored =
          (ReuseFormulaError msg, storedU,
           [FindStartComputation (blk_height b0),
            FindRestComputations (blk_height b0) (blk_height b1),
            UpdateValidity (last cs) (blk_height b1),
            ComputeRange (cmp_block (last cs)) b1])"
      by (simp add: unf Let_def)
  next
    assume "isRangeCoveredBeforeEnd cs \<and>
      sv_updateValidityUpToBlockHeight sv (last cs) (blk_height b1) stored = (False, storedU) \<and>
      sv_computeRange sv tf a as (cmp_block (last cs)) b1 = Inr computed \<and>
      sv_createFromComputationOutputs sv a tf as (tl computed) storedU = (created, storedC) \<and>
      sv_updateValidityUpToBlockHeight sv (last (cs @ created)) (blk_height b1) storedC =
        (valid, storedV)"
    then show "range_reuse sv tf a n as (b0, b1) stored =
          (if valid then reuse_of sv (cs @ created) else ReuseNone, storedV,
           [FindStartComputation (blk_height b0),
            FindRestComputations (blk_height b0) (blk_height b1),
            UpdateValidity (last cs) (blk_height b1),
            ComputeRange (cmp_block (last cs)) b1,
            CreateFromComputationOutputs (tl computed),
            UpdateValidity (last (cs @ created)) (blk_height b1)])"
      by (simp add: unf Let_def)
  qed
qed


theorem range_reuse_protocol_witness:
  "existingStartComputation example_services ''A'' ''item'' [] (blk_height (example_block 10))
     [example_computation 5 14 ''1'', example_computation 15 20 ''1''] =
     Some (example_computation 5 14 ''1'') \<and>
   isRangeCoveredBeforeEnd [example_computation 5 14 ''1'', example_computation 15 20 ''1''] \<and>
   range_reuse example_services (example_formula FormulaContract ''item'' False) ''A'' ''item'' []
     (example_block 10, example_block 30)
     [example_computation 5 14 ''1'', example_computation 15 20 ''1''] =
     (ReuseAll [\<lparr>ri_value = Some (JNumber ''1''), ri_block = example_block 5\<rparr>,
                \<lparr>ri_value = Some (JNumber ''1''), ri_block = example_block 15\<rparr>,
                \<lparr>ri_value = Some (JNumber ''2''), ri_block = example_block 25\<rparr>],
      [example_computation 5 14 ''1'', example_computation 15 20 ''1'',
       example_computation 25 30 ''2''],
      [FindStartComputation 10, FindRestComputations 10 30,
       UpdateValidity (example_computation 15 20 ''1'') 30,
       ComputeRange (example_block 15) (example_block 30),
       CreateFromComputationOutputs
         [\<lparr>co_block = example_block 25, co_value = Some (JNumber ''2''),
           co_latestBlockHeightValid = 30\<rparr>],
       UpdateValidity (example_computation 25 30 ''2'') 30])"
proof -
  let ?stored = "[example_computation 5 14 ''1'', example_computation 15 20 ''1'']"
  let ?cs = "[example_computation 5 14 ''1'', example_computation 15 20 ''1'']"
  let ?tf = "example_formula FormulaContract ''item'' False"
  let ?computed = "[\<lparr>co_block = example_block 15, co_value = Some (JNumber ''1''),
                     co_latestBlockHeightValid = 24\<rparr>,
                    \<lparr>co_block = example_block 25, co_value = Some (JNumber ''2''),
                     co_latestBlockHeightValid = 30\<rparr>]"
  have start: "existingStartComputation example_services ''A'' ''item'' []
                 (blk_height (example_block 10)) ?stored = Some (example_computation 5 14 ''1'')"
    by (simp add: existingStartComputation_def computationWhere_def cmp_blockHeight_def
        example_endpoint_defs)
  have rest: "?cs = example_computation 5 14 ''1'' #
                existingRestComputations example_services ''A'' ''item'' []
                  (blk_height (example_block 10)) (blk_height (example_block 30)) ?stored"
    by (simp add: existingRestComputations_def computationWhere_def cmp_blockHeight_def
        example_endpoint_defs)
  have covered: "isRangeCoveredBeforeEnd ?cs"
    by (simp add: isRangeCoveredBeforeEnd_def cmp_blockHeight_def example_endpoint_defs)
  have upd: "sv_updateValidityUpToBlockHeight example_services (last ?cs)
               (blk_height (example_block 30)) ?stored = (False, ?stored)"
    by (simp add: example_endpoint_defs)
  have range: "sv_computeRange example_services ?tf ''A'' [] (cmp_block (last ?cs))
                 (example_block 30) = Inr ?computed"
    by (simp add: example_endpoint_defs)
  have create: "sv_createFromComputationOutputs example_services ''A'' ?tf [] (tl ?computed)
                  ?stored = ([example_computation 25 30 ''2''],
                             ?stored @ [example_computation 25 30 ''2''])"
    by (simp add: example_endpoint_defs)
  have upd2: "sv_updateValidityUpToBlockHeight example_services
                (last (?cs @ [example_computation 25 30 ''2'']))
                (blk_height (example_block 30)) (?stored @ [example_computation 25 30 ''2'']) =
                (True, ?stored @ [example_computation 25 30 ''2''])"
    by (simp add: example_endpoint_defs)
  have items: "reuse_of example_services (?cs @ [example_computation 25 30 ''2'']) =
                 ReuseAll [\<lparr>ri_value = Some (JNumber ''1''), ri_block = example_block 5\<rparr>,
                           \<lparr>ri_value = Some (JNumber ''1''), ri_block = example_block 15\<rparr>,
                           \<lparr>ri_value = Some (JNumber ''2''), ri_block = example_block 25\<rparr>]"
    by (simp add: reuse_of_def stored_item_def example_endpoint_defs)
  from range_reuse_protocol [OF start rest,
      where tf = "?tf" and storedU = "?stored" and computed = "?computed"
        and created = "[example_computation 25 30 ''2'']"
        and storedC = "?stored @ [example_computation 25 30 ''2'']"
        and valid = True and storedV = "?stored @ [example_computation 25 30 ''2'']"]
    covered upd range create upd2
  have "range_reuse example_services ?tf ''A'' ''item'' [] (example_block 10, example_block 30)
          ?stored =
        (reuse_of example_services (?cs @ [example_computation 25 30 ''2'']),
         ?stored @ [example_computation 25 30 ''2''],
         [FindStartComputation (blk_height (example_block 10)),
          FindRestComputations (blk_height (example_block 10)) (blk_height (example_block 30)),
          UpdateValidity (last ?cs) (blk_height (example_block 30)),
          ComputeRange (cmp_block (last ?cs)) (example_block 30),
          CreateFromComputationOutputs (tl ?computed),
          UpdateValidity (last (?cs @ [example_computation 25 30 ''2'']))
            (blk_height (example_block 30))])"
    by simp
  with start covered items show ?thesis
    by (simp add: example_block_def example_computation_def)
qed

end
